theory Spec2Isabelle
  imports Main "HOL-Library.Word"
begin

unbundle bit_operations_syntax

section \<open>Diagnostics (namespace hid::error)\<close>

text \<open>The enum \<^verbatim>\<open>EMessage\<close>, in the order of the source.\<close>

datatype EMessage =
    E_NO_ERROR
  | E_Internal_error
  | E_Unexpected_token
  | E_Number_overflow
  | E_Parameter_value_out_of_range
  | E_Unexpected_end_of_source
  | E_Expected_valid_parameter_name_here
  | E_Invalid_item_name
  | E_Missing_argument
  | E_Missing_named_UsagePage
  | E_Missing_UsagePage
  | E_Missing_Usage_for_Collection
  | E_This_item_has_no_arguments
  | E_Unexpected_item_name_character
  | E_Invalid_argument_name
  | E_Argument_value_out_of_range
  | E_Argument_index_out_of_range
  | E_Unexpected_argument_name_character
  | E_Unexpected_unit_name_character
  | E_Invalid_unit_system_name
  | E_Invalid_unit_name
  | E_Invalid_unit_exponent
  | E_Unexpected_EndCollection
  | E_Unexpected_DelimiterClose
  | E_Unexpected_Delimiter_value
  | E_Missing_EndCollection
  | E_Missing_DelimiterClose
  | E_Missing_ReportSize
  | E_Missing_ReportCount
  | E_Invalid_hex_value
  | E_Invalid_numeric_value
  | E_Negative_numbers_are_not_allowed_in_this_context

text \<open>The struct \<^verbatim>\<open>Info\<close>; its \<^verbatim>\<open>size_t\<close> fields are natural numbers.\<close>

record Info =
  character :: nat
  line :: nat
  column :: nat
  message :: EMessage

text \<open>The default constructor \<^verbatim>\<open>Info()\<close>.\<close>

definition Info_default :: Info where
  "Info_default = \<lparr>character = 0, line = 0, column = 0, message = E_NO_ERROR\<rparr>"

text \<open>
  Source bytes are values of type \<^typ>\<open>char\<close> (8 bits). The source converts a byte to
  \<^verbatim>\<open>int\<close> before it classifies it; \<open>ord\<close> is that conversion with the byte read as
  0..255. Where \<^verbatim>\<open>char\<close> is signed the bytes from 0x80 on are negative instead; every
  test below either masks the value with 0xC0 or compares it with ASCII values, so both
  readings give the same results.
\<close>

definition ord :: "char \<Rightarrow> int" where
  "ord c = of_char c"

definition NUL :: char where "NUL = CHR 0x00"
definition LF :: char where "LF = CHR 0x0A"
definition CR :: char where "CR = CHR 0x0D"

text \<open>
  \<^verbatim>\<open>ErrorWriter::at\<close>. The writer holds the source pointer and a reference to the caller's
  \<^verbatim>\<open>Info\<close>; all four fields are overwritten, so the model returns the new record next
  to the result \<^verbatim>\<open>false\<close>. \<open>at_loop\<close> is the body of the \<^verbatim>\<open>for\<close> loop over the bytes
  \<open>source[0..pos)\<close>.
\<close>

fun at_loop :: "string \<Rightarrow> Info \<Rightarrow> Info" where
  "at_loop [] e = e"
| "at_loop (b # bs) e =
     (let c = ord b;
          e1 = (if c AND 0xC0 \<noteq> 0x80 then e\<lparr>character := character e + 1\<rparr> else e);
          e2 = (if b = LF then e1\<lparr>line := line e1 + 1, column := 1\<rparr>
                else if b \<noteq> CR then
                  (if c AND 0xC0 \<noteq> 0x80 then e1\<lparr>column := column e1 + 1\<rparr> else e1)
                else e1)
      in at_loop bs e2)"

definition at :: "string \<Rightarrow> nat \<Rightarrow> EMessage \<Rightarrow> bool \<times> Info" where
  "at source pos msg =
     (False, at_loop (take pos source) \<lparr>character = 0, line = 1, column = 1, message = msg\<rparr>)"

section \<open>Character and string helpers (namespace hid::detail)\<close>

definition toLower :: "int \<Rightarrow> int" where
  "toLower val = (if val \<ge> 65 \<and> val \<le> 90 then val - 65 + 97 else val)"

definition toUpper :: "int \<Rightarrow> int" where
  "toUpper val = (if val \<ge> 97 \<and> val \<le> 122 then val - 97 + 65 else val)"

text \<open>
  C strings are modelled as lists of their bytes before the terminating NUL, so reaching
  the end of the list is reading the terminator.
\<close>

fun strFindChr_loop :: "string \<Rightarrow> char \<Rightarrow> int \<Rightarrow> int" where
  "strFindChr_loop [] c res = -1"
| "strFindChr_loop (x # xs) c res = (if x = c then res else strFindChr_loop xs c (res + 1))"

definition strFindChr :: "string \<Rightarrow> char \<Rightarrow> int" where
  "strFindChr str c = strFindChr_loop str c 0"

text \<open>\<^verbatim>\<open>equals(const char *, const char *)\<close>.\<close>

fun equals :: "string \<Rightarrow> string \<Rightarrow> bool" where
  "equals [] [] = True"
| "equals [] (y # ys) = False"
| "equals (x # xs) [] = False"
| "equals (x # xs) (y # ys) = (if x = y then equals xs ys else False)"

text \<open>
  \<^verbatim>\<open>startWidthIN(prefix, len, str)\<close>: the counters \<^verbatim>\<open>n\<close> and \<^verbatim>\<open>res\<close> of the source are
  always equal and are one argument here. \<open>str\<close> is the text from the token's start; the
  only caller has checked that the token is longer than \<open>len\<close>, so the second equation
  (the text ends first) is not reached from there. The \<^verbatim>\<open>size_t\<close> result is returned as
  \<^verbatim>\<open>bool\<close>, that is, compared with 0.
\<close>

fun startWidthIN_loop :: "string \<Rightarrow> nat \<Rightarrow> string \<Rightarrow> nat \<Rightarrow> nat" where
  "startWidthIN_loop [] len str k = k"
| "startWidthIN_loop (p # ps) len [] k = (if k \<ge> len then k else 0)"
| "startWidthIN_loop (p # ps) len (c # cs) k =
     (if toUpper (ord p) = toUpper (ord c) \<and> k < len then startWidthIN_loop ps len cs (k + 1)
      else if k \<ge> len then k else 0)"

definition startWidthIN :: "string \<Rightarrow> nat \<Rightarrow> string \<Rightarrow> bool" where
  "startWidthIN prefix len str = (startWidthIN_loop prefix len str 0 \<noteq> 0)"

text \<open>
  A \<^verbatim>\<open>Token\<close> is a span of the source: start offset and length. \<open>text_of\<close> is the
  bytes it covers.
\<close>

record Token =
  start :: nat
  tlength :: nat

definition text_of :: "string \<Rightarrow> Token \<Rightarrow> string" where
  "text_of source t = take (tlength t) (drop (start t) source)"

text \<open>
  \<^verbatim>\<open>equals(const Token &, const char *)\<close> and \<^verbatim>\<open>equalsI\<close>, on the token's bytes. The
  loop stops at the first difference, at the end of the token or at the end of the
  string; the four cases after the loop are the four equations.
\<close>

fun equalsT :: "string \<Rightarrow> string \<Rightarrow> bool" where
  "equalsT [] [] = True"
| "equalsT [] (r # rs) = False"
| "equalsT (l # ls) [] = False"
| "equalsT (l # ls) (r # rs) = (if l = r then equalsT ls rs else False)"

fun equalsI :: "string \<Rightarrow> string \<Rightarrow> bool" where
  "equalsI [] [] = True"
| "equalsI [] (r # rs) = False"
| "equalsI (l # ls) [] = False"
| "equalsI (l # ls) (r # rs) =
     (if toUpper (ord l) = toUpper (ord r) then equalsI ls rs else False)"

definition isComment :: "int \<Rightarrow> bool" where
  "isComment val = (val = 35 \<or> val = 59)"

definition isWhitespace :: "int \<Rightarrow> bool" where
  "isWhitespace val = (val = 32 \<or> val = 9 \<or> val = 10 \<or> val = 11 \<or> val = 12 \<or> val = 13)"

definition isAlpha :: "int \<Rightarrow> bool" where
  "isAlpha val = ((val \<ge> 97 \<and> val \<le> 122) \<or> (val \<ge> 65 \<and> val \<le> 90))"

definition isDigit :: "int \<Rightarrow> bool" where
  "isDigit val = (val \<ge> 48 \<and> val \<le> 57)"

definition isHexDigit :: "int \<Rightarrow> bool" where
  "isHexDigit val = (isDigit val \<or> (val \<ge> 97 \<and> val \<le> 102) \<or> (val \<ge> 65 \<and> val \<le> 70))"

definition isItemChar :: "int \<Rightarrow> bool" where
  "isItemChar val = (val = 95 \<or> isAlpha val)"

definition isArgChar :: "int \<Rightarrow> bool" where
  "isArgChar val = (val = 95 \<or> isAlpha val \<or> isDigit val)"

section \<open>Parameters\<close>

text \<open>
  \<^verbatim>\<open>Param\<close> and \<^verbatim>\<open>ParamMatch\<close>; the values are \<^verbatim>\<open>int64_t\<close>. \<open>Source_find\<close> is
  \<^verbatim>\<open>Source<S, P>::find\<close>: the last parameter with the token's name wins.
\<close>

record Param =
  param_name :: string
  param_value :: "64 word"

record ParamMatch =
  match_value :: "64 word"
  valid :: bool

fun find_loop :: "Param list \<Rightarrow> string \<Rightarrow> ParamMatch" where
  "find_loop [] token = \<lparr>match_value = 0, valid = False\<rparr>"
| "find_loop (p # ps) token =
     (if equalsT token (param_name p) then \<lparr>match_value = param_value p, valid = True\<rparr>
      else find_loop ps token)"

definition Source_find :: "Param list \<Rightarrow> string \<Rightarrow> ParamMatch" where
  "Source_find params token = find_loop (rev params) token"

text \<open>
  \<^verbatim>\<open>fromSource\<close> copies the \<open>N\<close> bytes of a string literal (its text and the terminating
  NUL) into a \<^verbatim>\<open>Source<N + 1>\<close> and sets the last byte to NUL; \<^verbatim>\<open>size()\<close> is \<open>N + 1\<close>.
\<close>

definition fromSource :: "string \<Rightarrow> string" where
  "fromSource literal = literal @ [NUL, NUL]"

section \<open>Integer codec\<close>

text \<open>
  The writers (\<^verbatim>\<open>NullWriter\<close>, \<^verbatim>\<open>SizeEstimator\<close>, \<^verbatim>\<open>BufferWriter\<close>) differ in what they keep
  of the bytes; the model keeps the sequence of all bytes passed to \<^verbatim>\<open>write\<close>.
\<close>

type_synonym Writer = "8 word list"

definition Writer_write :: "Writer \<Rightarrow> 8 word \<Rightarrow> Writer" where
  "Writer_write out' b = out' @ [b]"

definition encodedSize :: "32 word \<Rightarrow> nat" where
  "encodedSize val = (if val > 0xFFFF then 4 else if val > 0xFF then 2 else 1)"

text \<open>
  \<^verbatim>\<open>encodedSize(int32_t)\<close>: the argument is the 32-bit pattern, read as two's complement
  by \<open><s\<close>; the arithmetic wraps around.
\<close>

definition encodedSize_signed :: "32 word \<Rightarrow> nat" where
  "encodedSize_signed val =
     (let absVal = (if val <s 0 then - val - 1 else val)
      in if 0x7FFF <s absVal then 4 else if 0x7F <s absVal then 2 else 1)"

definition encodedSizeValue :: "nat \<Rightarrow> 32 word" where
  "encodedSizeValue val = (if val = 4 then 3 else if val = 2 then 2 else if val = 1 then 1 else 0)"

definition encodeValue :: "Writer \<Rightarrow> 32 word \<Rightarrow> nat \<Rightarrow> Writer" where
  "encodeValue out' val len =
     (let o1 = Writer_write out' (ucast (val AND 0xFF))
      in if len > 1 then
           (let o2 = Writer_write o1 (ucast (drop_bit 8 val AND 0xFF))
            in if len > 2 then
                 Writer_write (Writer_write o2 (ucast (drop_bit 16 val AND 0xFF))) (ucast (drop_bit 24 val AND 0xFF))
               else o2)
         else o1)"

definition encodeUnsigned :: "Writer \<Rightarrow> 32 word \<Rightarrow> Writer" where
  "encodeUnsigned out' val = encodeValue out' val (encodedSize val)"

text \<open>
  \<^verbatim>\<open>encodeSigned\<close>: \<^verbatim>\<open>uint32_t(int16_t(val))\<close> and \<^verbatim>\<open>uint32_t(int8_t(val))\<close> truncate and
  sign-extend.
\<close>

definition encodeSigned :: "Writer \<Rightarrow> 32 word \<Rightarrow> Writer" where
  "encodeSigned out' val =
     (let absVal = (if val <s 0 then - val - 1 else val)
      in if 0x7FFF <s absVal then encodeValue out' val 4
         else if 0x7F <s absVal then encodeValue out' (scast (ucast val :: 16 word)) 2
         else encodeValue out' (scast (ucast val :: 8 word)) 1)"

section \<open>Encoding tables\<close>

definition UT_NONE :: "32 word" where "UT_NONE = 0"
definition UT_LC :: "32 word" where "UT_LC = push_bit 0 1"
definition UT_OOC :: "32 word" where "UT_OOC = push_bit 1 1"
definition UT_MC :: "32 word" where "UT_MC = push_bit 2 1"
definition UT_OSC :: "32 word" where "UT_OSC = push_bit 3 1"
definition UT_RTC :: "32 word" where "UT_RTC = push_bit 4 1"
definition UT_SEL :: "32 word" where "UT_SEL = push_bit 5 1"
definition UT_SV :: "32 word" where "UT_SV = push_bit 6 1"
definition UT_SF :: "32 word" where "UT_SF = push_bit 7 1"
definition UT_DV :: "32 word" where "UT_DV = push_bit 8 1"
definition UT_DF :: "32 word" where "UT_DF = push_bit 9 1"
definition UT_NARY :: "32 word" where "UT_NARY = push_bit 10 1"
definition UT_CA :: "32 word" where "UT_CA = push_bit 11 1"
definition UT_CL :: "32 word" where "UT_CL = push_bit 12 1"
definition UT_CP :: "32 word" where "UT_CP = push_bit 13 1"
definition UT_US :: "32 word" where "UT_US = push_bit 14 1"
definition UT_UM :: "32 word" where "UT_UM = push_bit 15 1"
definition UT_BB :: "32 word" where "UT_BB = push_bit 16 1"

text \<open>
  The field \<^verbatim>\<open>arg\<close> of an \<^verbatim>\<open>Encoding\<close> is a pointer to another table, or \<^verbatim>\<open>NULL\<close>, and
  the compiler compares it with the tables' addresses. \<open>EncodingMap\<close> has one value per
  table of the source (and \<open>NULL\<close>); \<open>entries\<close> below gives the entries a table holds
  before its terminating \<^verbatim>\<open>endOfMap\<close>.
\<close>

datatype EncodingMap =
    NULL | numArg | signedNumArg | clearArg | usageArg | endCol
  | colArgMap | inputArgMap | outputFeatureArgMap | unitExpMap | unitMap | unitSystemMap
  | delimMap | genDeskMap | simCtrlMap | vrCtrlMap | sportCtrlMap | gameCtrlMap
  | genDevCtrlMap | keyboardMap | ledMap | buttonMap | ordinalMap | telDevMap | consumerMap
  | digitizersMap | hapticsMap | pidMap | unicodeMap | eyeHeadMap | auxDisplayMap | sensorMap
  | medInstMap | brailleMap | lightMap | monitorMap | monitorEnumMap | vesaCtrlMap | pwrDevMap
  | barcodeMap | weightDevMap | msrMap | cameraCtrlMap | arcadeMap | fidoMap | usagePageMap
  | itemMap

record Encoding =
  enc_name :: string
  enc_value :: "32 word"
  enc_type :: "32 word"
  enc_arg :: EncodingMap

text \<open>The three constructors of \<^verbatim>\<open>Encoding\<close> that take a name.\<close>

definition Enc :: "string \<Rightarrow> 32 word \<Rightarrow> Encoding" where
  "Enc nm v = \<lparr>enc_name = nm, enc_value = v, enc_type = UT_NONE, enc_arg = NULL\<rparr>"

definition EncA :: "string \<Rightarrow> 32 word \<Rightarrow> EncodingMap \<Rightarrow> Encoding" where
  "EncA nm v a = \<lparr>enc_name = nm, enc_value = v, enc_type = UT_NONE, enc_arg = a\<rparr>"

definition EncT :: "string \<Rightarrow> 32 word \<Rightarrow> 32 word \<Rightarrow> Encoding" where
  "EncT nm v t = \<lparr>enc_name = nm, enc_value = v, enc_type = t, enc_arg = NULL\<rparr>"

text \<open>
  The default constructor (\<^verbatim>\<open>endOfMap\<close>, and the initial \<^verbatim>\<open>dynMap\<close>); its name is
  \<^verbatim>\<open>NULL\<close>, which only the end of a table has.
\<close>

definition endOfMap :: Encoding where
  "endOfMap = \<lparr>enc_name = [], enc_value = 0, enc_type = UT_NONE, enc_arg = NULL\<rparr>"

definition colArgMap_entries :: "Encoding list" where
  "colArgMap_entries = [
    Enc ''Physical'' 0x00,
    Enc ''Application'' 0x01,
    Enc ''Logical'' 0x02,
    Enc ''Report'' 0x03,
    Enc ''NamedArray'' 0x04,
    Enc ''UsageSwitch'' 0x05,
    Enc ''UsageModifier'' 0x06
  ]"

definition inputArgMap_entries :: "Encoding list" where
  "inputArgMap_entries = [
    EncA ''Data'' 0x001 clearArg,
    Enc ''Cnst'' 0x001,
    EncA ''Ary'' 0x002 clearArg,
    Enc ''Var'' 0x002,
    EncA ''Abs'' 0x004 clearArg,
    Enc ''Rel'' 0x004,
    EncA ''NWarp'' 0x008 clearArg,
    Enc ''Warp'' 0x008,
    EncA ''Lin'' 0x010 clearArg,
    Enc ''NLin'' 0x010,
    EncA ''Prf'' 0x020 clearArg,
    Enc ''NPrf'' 0x020,
    EncA ''NNull'' 0x040 clearArg,
    Enc ''Null'' 0x040,
    EncA ''Bit'' 0x100 clearArg,
    Enc ''Buf'' 0x100
  ]"

definition outputFeatureArgMap_entries :: "Encoding list" where
  "outputFeatureArgMap_entries = [
    EncA ''Data'' 0x001 clearArg,
    Enc ''Cnst'' 0x001,
    EncA ''Ary'' 0x002 clearArg,
    Enc ''Var'' 0x002,
    EncA ''Abs'' 0x004 clearArg,
    Enc ''Rel'' 0x004,
    EncA ''NWarp'' 0x008 clearArg,
    Enc ''Warp'' 0x008,
    EncA ''Lin'' 0x010 clearArg,
    Enc ''NLin'' 0x010,
    EncA ''Prf'' 0x020 clearArg,
    Enc ''NPrf'' 0x020,
    EncA ''NNull'' 0x040 clearArg,
    Enc ''Null'' 0x040,
    EncA ''NVol'' 0x080 clearArg,
    Enc ''Vol'' 0x080,
    EncA ''Bit'' 0x100 clearArg,
    Enc ''Buf'' 0x100
  ]"

definition unitExpMap_entries :: "Encoding list" where
  "unitExpMap_entries = [
    Enc ''0'' 0x0,
    Enc ''1'' 0x1,
    Enc ''2'' 0x2,
    Enc ''3'' 0x3,
    Enc ''4'' 0x4,
    Enc ''5'' 0x5,
    Enc ''6'' 0x6,
    Enc ''7'' 0x7,
    Enc ''-8'' 0x8,
    Enc ''-7'' 0x9,
    Enc ''-6'' 0xA,
    Enc ''-5'' 0xB,
    Enc ''-4'' 0xC,
    Enc ''-3'' 0xD,
    Enc ''-2'' 0xE,
    Enc ''-1'' 0xF
  ]"

definition unitMap_entries :: "Encoding list" where
  "unitMap_entries = [
    EncA ''Length'' 1 unitExpMap,
    EncA ''Mass'' 2 unitExpMap,
    EncA ''Time'' 3 unitExpMap,
    EncA ''Temp'' 4 unitExpMap,
    EncA ''Current'' 5 unitExpMap,
    EncA ''Luminous'' 6 unitExpMap
  ]"

definition unitSystemMap_entries :: "Encoding list" where
  "unitSystemMap_entries = [
    EncA ''None'' 0x00 unitMap,
    EncA ''SiLin'' 0x01 unitMap,
    EncA ''SiRot'' 0x02 unitMap,
    EncA ''EngLin'' 0x03 unitMap,
    EncA ''EngRot'' 0x04 unitMap
  ]"

definition delimMap_entries :: "Encoding list" where
  "delimMap_entries = [
    Enc ''Close'' 0x00,
    Enc ''Open'' 0x01
  ]"

definition genDeskMap_entries :: "Encoding list" where
  "genDeskMap_entries = [
    EncT ''Pointer'' 0x01 UT_CP,
    EncT ''Mouse'' 0x02 UT_CA,
    EncT ''Joystick'' 0x04 UT_CA,
    EncT ''Gamepad'' 0x05 UT_CA,
    EncT ''Keyboard'' 0x06 UT_CA,
    EncT ''Keypad'' 0x07 UT_CA,
    EncT ''MultiAxisController'' 0x08 UT_CA,
    EncT ''TabletPcSystemControls'' 0x09 UT_CA,
    EncT ''WaterCoolingDevice'' 0x0A UT_CA,
    EncT ''ComputerChassisDevice'' 0x0B UT_CA,
    EncT ''WirelessRadioControls'' 0x0C UT_CA,
    EncT ''PortableDeviceControl'' 0x0D UT_CA,
    EncT ''SystemMultiAxisController'' 0x0E UT_CA,
    EncT ''SpatialController'' 0x0F UT_CA,
    EncT ''AssistiveControl'' 0x10 UT_CA,
    EncT ''DeviceDock'' 0x11 UT_CA,
    EncT ''DockableDevice'' 0x12 UT_CA,
    EncT ''X'' 0x30 UT_DV,
    EncT ''Y'' 0x31 UT_DV,
    EncT ''Z'' 0x32 UT_DV,
    EncT ''Rx'' 0x33 UT_DV,
    EncT ''Ry'' 0x34 UT_DV,
    EncT ''Rz'' 0x35 UT_DV,
    EncT ''Slider'' 0x36 UT_DV,
    EncT ''Dial'' 0x37 UT_DV,
    EncT ''Wheel'' 0x38 UT_DV,
    EncT ''HatSwitch'' 0x39 UT_DV,
    EncT ''CountedBuffer'' 0x3A UT_CL,
    EncT ''ByteCount'' 0x3B UT_DV,
    EncT ''MotionWakeup'' 0x3C (UT_OSC OR UT_DF),
    EncT ''Start'' 0x3D UT_OOC,
    EncT ''Select'' 0x3E UT_OOC,
    EncT ''Vx'' 0x40 UT_DV,
    EncT ''Vy'' 0x41 UT_DV,
    EncT ''Vz'' 0x42 UT_DV,
    EncT ''Vbrx'' 0x43 UT_DV,
    EncT ''Vbry'' 0x44 UT_DV,
    EncT ''Vbrz'' 0x45 UT_DV,
    EncT ''Vno'' 0x46 UT_DV,
    EncT ''FeatureNotification'' 0x47 (UT_DV OR UT_DF),
    EncT ''ResolutionMultiplier'' 0x48 UT_DV,
    EncT ''Qx'' 0x49 UT_DV,
    EncT ''Qy'' 0x4A UT_DV,
    EncT ''Qz'' 0x4B UT_DV,
    EncT ''Qw'' 0x4C UT_DV,
    EncT ''SystemControl'' 0x80 UT_CA,
    EncT ''SystemPowerDown'' 0x81 UT_OSC,
    EncT ''SystemSleep'' 0x82 UT_OSC,
    EncT ''SystemWakeUp'' 0x83 UT_OSC,
    EncT ''SystemContextMenu'' 0x84 UT_OSC,
    EncT ''SystemMainMenu'' 0x85 UT_OSC,
    EncT ''SystemAppMenu'' 0x86 UT_OSC,
    EncT ''SystemMenuHelp'' 0x87 UT_OSC,
    EncT ''SystemMenuExit'' 0x88 UT_OSC,
    EncT ''SystemMenuSelect'' 0x89 UT_OSC,
    EncT ''SystemMenuRight'' 0x8A UT_RTC,
    EncT ''SystemMenuLeft'' 0x8B UT_RTC,
    EncT ''SystemMenuUp'' 0x8C UT_RTC,
    EncT ''SystemMenuDown'' 0x8D UT_RTC,
    EncT ''SystemColdRestart'' 0x8E UT_OSC,
    EncT ''SystemWarmRestart'' 0x8F UT_OSC,
    EncT ''DpadUp'' 0x90 UT_OOC,
    EncT ''DpadDown'' 0x91 UT_OOC,
    EncT ''DpadRight'' 0x92 UT_OOC,
    EncT ''DpadLeft'' 0x93 UT_OOC,
    EncT ''IndexTrigger'' 0x94 (UT_MC OR UT_DV),
    EncT ''PalmTrigger'' 0x95 (UT_MC OR UT_DV),
    EncT ''Thumbstick'' 0x96 UT_CP,
    EncT ''SystemFunctionShift'' 0x97 UT_MC,
    EncT ''SystemFunctionShiftLock'' 0x98 UT_OOC,
    EncT ''SystemFunctionShiftLockIndicator'' 0x99 UT_DV,
    EncT ''SystemDismissNotification'' 0x9A UT_OSC,
    EncT ''SystemDoNotDisturb'' 0x9B UT_OOC,
    EncT ''SystemDock'' 0xA0 UT_OSC,
    EncT ''SystemUndock'' 0xA1 UT_OSC,
    EncT ''SystemSetup'' 0xA2 UT_OSC,
    EncT ''SystemBreak'' 0xA3 UT_OSC,
    EncT ''SystemDebuggerBreak'' 0xA4 UT_OSC,
    EncT ''ApplicationBreak'' 0xA5 UT_OSC,
    EncT ''ApplicationDebuggerBreak'' 0xA6 UT_OSC,
    EncT ''SystemSpeakerMute'' 0xA7 UT_OSC,
    EncT ''SystemHibernate'' 0xA8 UT_OSC,
    EncT ''SystemDisplayInvert'' 0xB0 UT_OSC,
    EncT ''SystemDisplayInternal'' 0xB1 UT_OSC,
    EncT ''SystemDisplayExternal'' 0xB2 UT_OSC,
    EncT ''SystemDisplayBoth'' 0xB3 UT_OSC,
    EncT ''SystemDisplayDual'' 0xB4 UT_OSC,
    EncT ''SystemDisplayToggleIntExtMode'' 0xB5 UT_OSC,
    EncT ''SystemDisplaySwapPrimarySecondary'' 0xB6 UT_OSC,
    EncT ''SystemDisplayToggleLcdAutoscale'' 0xB7 UT_OSC,
    EncT ''SensorZone'' 0xC0 UT_CL,
    EncT ''Rpm'' 0xC1 UT_DV,
    EncT ''CoolantLevel'' 0xC2 UT_DV,
    EncT ''CoolantCriticalLevel'' 0xC3 UT_SV,
    EncT ''CoolantPump'' 0xC4 UT_US,
    EncT ''ChassisEnclosure'' 0xC5 UT_CL,
    EncT ''WirelessRadioButton'' 0xC6 UT_OOC,
    EncT ''WirelessRadioLed'' 0xC7 UT_OOC,
    EncT ''WirelessRadioSliderSwitch'' 0xC8 UT_OOC,
    EncT ''SystemDisplayRotationLockButton'' 0xC9 UT_OOC,
    EncT ''SystemDisplayRotationLockSliderSwitch'' 0xCA UT_OOC,
    EncT ''ControlEnable'' 0xCB UT_DF,
    EncT ''DockableDeviceUniqueId'' 0xD0 UT_DV,
    EncT ''DockableDeviceVendorId'' 0xD1 UT_DV,
    EncT ''DockableDevicePrimaryUsagePage'' 0xD2 UT_DV,
    EncT ''DockableDevicePrimaryUsageId'' 0xD3 UT_DV,
    EncT ''DockableDeviceDockingState'' 0xD4 UT_DF,
    EncT ''DockableDeviceDisplayOcclusion'' 0xD5 UT_CL,
    EncT ''DockableDeviceObjectType'' 0xD6 UT_DV
  ]"

definition simCtrlMap_entries :: "Encoding list" where
  "simCtrlMap_entries = [
    EncT ''FlighSimulationDevice'' 0x01 UT_CA,
    EncT ''AutomobileSimulationDevice'' 0x02 UT_CA,
    EncT ''TankSimulationDevice'' 0x03 UT_CA,
    EncT ''SpaceshipSimulationDevice'' 0x04 UT_CA,
    EncT ''SubmarineSimulationDevice'' 0x05 UT_CA,
    EncT ''SailingSimulationDevice'' 0x06 UT_CA,
    EncT ''MotorcycleSimiulationDevice'' 0x07 UT_CA,
    EncT ''SportsSimulationDevice'' 0x08 UT_CA,
    EncT ''AirplaneSimulationDevice'' 0x09 UT_CA,
    EncT ''HelicopterSimulationDevice'' 0x0A UT_CA,
    EncT ''MagicCarpetSimulationDevice'' 0x0B UT_CA,
    EncT ''BicycleSimulationDevice'' 0x0C UT_CA,
    EncT ''FlightControlStick'' 0x20 UT_CA,
    EncT ''FlightStick'' 0x21 UT_CA,
    EncT ''CyclicControl'' 0x22 UT_CP,
    EncT ''CyclicTrim'' 0x23 UT_CP,
    EncT ''FlightYoke'' 0x24 UT_CA,
    EncT ''TrackControl'' 0x25 UT_CP,
    EncT ''Aileron'' 0xB0 UT_DV,
    EncT ''AileronTrim'' 0xB1 UT_DV,
    EncT ''AntiTorqueControl'' 0xB2 UT_DV,
    EncT ''AutopilotEnable'' 0xB3 UT_OOC,
    EncT ''ChaffRelease'' 0xB4 UT_OSC,
    EncT ''CollectiveControl'' 0xB5 UT_DV,
    EncT ''DiveBrake'' 0xB6 UT_DV,
    EncT ''ElectronicCountermeasures'' 0xB7 UT_OOC,
    EncT ''Elevator'' 0xB8 UT_DV,
    EncT ''ElevatorTrim'' 0xB9 UT_DV,
    EncT ''Rudder'' 0xBA UT_DV,
    EncT ''Throttle'' 0xBB UT_DV,
    EncT ''FlightCommunications'' 0xBC UT_OOC,
    EncT ''FlareRelease'' 0xBD UT_OSC,
    EncT ''LandingGear'' 0xBE UT_OOC,
    EncT ''ToeBrake'' 0xBF UT_DV,
    EncT ''Trigger'' 0xC0 UT_MC,
    EncT ''WeaponsArm'' 0xC1 UT_OOC,
    EncT ''WeaponsSelect'' 0xC2 UT_OSC,
    EncT ''WingFlaps'' 0xC3 UT_DV,
    EncT ''Accelerator'' 0xC4 UT_DV,
    EncT ''Brake'' 0xC5 UT_DV,
    EncT ''Clutch'' 0xC6 UT_DV,
    EncT ''Shifter'' 0xC7 UT_DV,
    EncT ''Steering'' 0xC8 UT_DV,
    EncT ''TurretDirection'' 0xC9 UT_DV,
    EncT ''BarrelElevation'' 0xCA UT_DV,
    EncT ''DivePlane'' 0xCB UT_DV,
    EncT ''Ballast'' 0xCC UT_DV,
    EncT ''BicycleCrank'' 0xCD UT_DV,
    EncT ''HandleBars'' 0xCE UT_DV,
    EncT ''FrontBrake'' 0xCF UT_DV,
    EncT ''RearBrake'' 0xD0 UT_DV
  ]"

definition vrCtrlMap_entries :: "Encoding list" where
  "vrCtrlMap_entries = [
    EncT ''Belt'' 0x01 UT_CA,
    EncT ''BodySuit'' 0x02 UT_CA,
    EncT ''Flexor'' 0x03 UT_CP,
    EncT ''Grove'' 0x04 UT_CA,
    EncT ''HeadTracker'' 0x05 UT_CP,
    EncT ''HeadMountedDisplay'' 0x06 UT_CA,
    EncT ''HandTracker'' 0x07 UT_CA,
    EncT ''Oculometer'' 0x08 UT_CA,
    EncT ''Vest'' 0x09 UT_CA,
    EncT ''AnimatronicDevice'' 0x0A UT_CA,
    EncT ''StereoEnable'' 0x20 UT_OOC,
    EncT ''DisplayEnable'' 0x21 UT_OOC
  ]"

definition sportCtrlMap_entries :: "Encoding list" where
  "sportCtrlMap_entries = [
    EncT ''BaseballBat'' 0x01 UT_CA,
    EncT ''GolfBat'' 0x02 UT_CA,
    EncT ''RowingMachine'' 0x03 UT_CA,
    EncT ''Treadmill'' 0x04 UT_CA,
    EncT ''Oar'' 0x30 UT_DV,
    EncT ''Slope'' 0x31 UT_DV,
    EncT ''Rate'' 0x32 UT_DV,
    EncT ''StickSpeed'' 0x33 UT_DV,
    EncT ''StickFaceAngle'' 0x34 UT_DV,
    EncT ''StickHeelToe'' 0x35 UT_DV,
    EncT ''StickFollowThrough'' 0x36 UT_DV,
    EncT ''StickTempo'' 0x37 UT_DV,
    EncT ''StickType'' 0x38 UT_NARY,
    EncT ''StickHeight'' 0x39 UT_DV,
    EncT ''Putter'' 0x50 UT_SEL,
    EncT ''Iron1'' 0x51 UT_SEL,
    EncT ''Iron2'' 0x52 UT_SEL,
    EncT ''Iron3'' 0x53 UT_SEL,
    EncT ''Iron4'' 0x54 UT_SEL,
    EncT ''Iron5'' 0x55 UT_SEL,
    EncT ''Iron6'' 0x56 UT_SEL,
    EncT ''Iron7'' 0x57 UT_SEL,
    EncT ''Iron8'' 0x58 UT_SEL,
    EncT ''Iron9'' 0x59 UT_SEL,
    EncT ''Iron10'' 0x5A UT_SEL,
    EncT ''Iron11'' 0x5B UT_SEL,
    EncT ''SandWedge'' 0x5C UT_SEL,
    EncT ''LoftWedge'' 0x5D UT_SEL,
    EncT ''PowerWedge'' 0x5E UT_SEL,
    EncT ''Wood1'' 0x5F UT_SEL,
    EncT ''Wood3'' 0x60 UT_SEL,
    EncT ''Wood5'' 0x61 UT_SEL,
    EncT ''Wood7'' 0x62 UT_SEL,
    EncT ''Wood9'' 0x63 UT_SEL
  ]"

definition gameCtrlMap_entries :: "Encoding list" where
  "gameCtrlMap_entries = [
    EncT ''3dGameController'' 0x01 UT_CA,
    EncT ''PinballDevice'' 0x02 UT_CA,
    EncT ''GunDevice'' 0x03 UT_CA,
    EncT ''PointOfView'' 0x20 UT_CP,
    EncT ''TurnRightLeft'' 0x21 UT_DV,
    EncT ''PitchForwardBackward'' 0x22 UT_DV,
    EncT ''RollRightLeft'' 0x23 UT_DV,
    EncT ''MoveRightLeft'' 0x24 UT_DV,
    EncT ''MoveForwardBackward'' 0x25 UT_DV,
    EncT ''MoveUpDown'' 0x26 UT_DV,
    EncT ''LeanRightLeft'' 0x27 UT_DV,
    EncT ''LeanForwardBackward'' 0x28 UT_DV,
    EncT ''HeightOfPov'' 0x29 UT_DV,
    EncT ''Flipper'' 0x2A UT_MC,
    EncT ''SecondaryFlipper'' 0x2B UT_MC,
    EncT ''Bump'' 0x2C UT_MC,
    EncT ''NewGame'' 0x2D UT_OSC,
    EncT ''ShootBall'' 0x2E UT_OSC,
    EncT ''Player'' 0x2F UT_OSC,
    EncT ''GunBolt'' 0x30 UT_OOC,
    EncT ''GunClip'' 0x31 UT_OOC,
    EncT ''GunSelector'' 0x32 UT_NARY,
    EncT ''GunSingleShot'' 0x33 UT_SEL,
    EncT ''GunBurst'' 0x34 UT_SEL,
    EncT ''GunAutomatic'' 0x35 UT_SEL,
    EncT ''GunSafety'' 0x36 UT_OOC,
    EncT ''GamepadFireJump'' 0x37 UT_CL,
    EncT ''GamepadTrigger'' 0x39 UT_CL,
    EncT ''FormFittingGamepad'' 0x3A UT_SF
  ]"

definition genDevCtrlMap_entries :: "Encoding list" where
  "genDevCtrlMap_entries = [
    EncT ''BackgroundNonuserControls'' 0x06 UT_CA,
    EncT ''BatteryStrength'' 0x20 UT_DV,
    EncT ''WirelessChannel'' 0x21 UT_DV,
    EncT ''WirelessId'' 0x22 UT_DV,
    EncT ''DiscoverWirelessControl'' 0x23 UT_OSC,
    EncT ''SecurityCodeCharacterEntered'' 0x24 UT_OSC,
    EncT ''SecurityCodeCharacterErased'' 0x25 UT_OSC,
    EncT ''SecurityCodeCleared'' 0x26 UT_OSC,
    EncT ''SequenceId'' 0x27 UT_DV,
    EncT ''SequenceIdReset'' 0x28 UT_DF,
    EncT ''RfSignalStrength'' 0x29 UT_DV,
    EncT ''SofwareVersion'' 0x2A UT_CL,
    EncT ''ProtocolVersion'' 0x2B UT_CL,
    EncT ''HardwareVersion'' 0x2C UT_CL,
    EncT ''Major'' 0x2D UT_SV,
    EncT ''Minor'' 0x2E UT_SV,
    EncT ''Revision'' 0x2F UT_SV,
    EncT ''Handedness'' 0x30 UT_NARY,
    EncT ''EitherHand'' 0x31 UT_SEL,
    EncT ''LeftHand'' 0x32 UT_SEL,
    EncT ''RightHand'' 0x33 UT_SEL,
    EncT ''BothHands'' 0x34 UT_SEL,
    EncT ''GripPoseOffset'' 0x40 UT_CP,
    EncT ''PointerPoseOffset'' 0x41 UT_CP
  ]"

definition keyboardMap_entries :: "Encoding list" where
  "keyboardMap_entries = [
    EncT ''NoEventIndicated'' 0x00 UT_SEL,
    EncT ''KeyboardErrorRollOver'' 0x01 UT_SEL,
    EncT ''KeyboardPostFail'' 0x02 UT_SEL,
    EncT ''KeyboardErrorUndefined'' 0x03 UT_SEL,
    EncT ''KeyboardA'' 0x04 UT_SEL,
    EncT ''KeyboardB'' 0x05 UT_SEL,
    EncT ''KeyboardC'' 0x06 UT_SEL,
    EncT ''KeyboardD'' 0x07 UT_SEL,
    EncT ''KeyboardE'' 0x08 UT_SEL,
    EncT ''KeyboardF'' 0x09 UT_SEL,
    EncT ''KeyboardG'' 0x0A UT_SEL,
    EncT ''KeyboardH'' 0x0B UT_SEL,
    EncT ''KeyboardI'' 0x0C UT_SEL,
    EncT ''KeyboardJ'' 0x0D UT_SEL,
    EncT ''KeyboardK'' 0x0E UT_SEL,
    EncT ''KeyboardL'' 0x0F UT_SEL,
    EncT ''KeyboardM'' 0x10 UT_SEL,
    EncT ''KeyboardN'' 0x11 UT_SEL,
    EncT ''KeyboardO'' 0x12 UT_SEL,
    EncT ''KeyboardP'' 0x13 UT_SEL,
    EncT ''KeyboardQ'' 0x14 UT_SEL,
    EncT ''KeyboardR'' 0x15 UT_SEL,
    EncT ''KeyboardS'' 0x16 UT_SEL,
    EncT ''KeyboardT'' 0x17 UT_SEL,
    EncT ''KeyboardU'' 0x18 UT_SEL,
    EncT ''KeyboardV'' 0x19 UT_SEL,
    EncT ''KeyboardW'' 0x1A UT_SEL,
    EncT ''KeyboardX'' 0x1B UT_SEL,
    EncT ''KeyboardY'' 0x1C UT_SEL,
    EncT ''KeyboardZ'' 0x1D UT_SEL,
    EncT ''Keyboard1'' 0x1E UT_SEL,
    EncT ''Keyboard2'' 0x1F UT_SEL,
    EncT ''Keyboard3'' 0x20 UT_SEL,
    EncT ''Keyboard4'' 0x21 UT_SEL,
    EncT ''Keyboard5'' 0x22 UT_SEL,
    EncT ''Keyboard6'' 0x23 UT_SEL,
    EncT ''Keyboard7'' 0x24 UT_SEL,
    EncT ''Keyboard8'' 0x25 UT_SEL,
    EncT ''Keyboard9'' 0x26 UT_SEL,
    EncT ''Keyboard0'' 0x27 UT_SEL,
    EncT ''KeyboardEnter'' 0x28 UT_SEL,
    EncT ''KeyboardEscape'' 0x29 UT_SEL,
    EncT ''KeyboardDelete'' 0x2A UT_SEL,
    EncT ''KeyboardTab'' 0x2B UT_SEL,
    EncT ''KeyboardSpacebar'' 0x2C UT_SEL,
    EncT ''KeyboardMinus'' 0x2D UT_SEL,
    EncT ''KeyboardEqual'' 0x2E UT_SEL,
    EncT ''KeyboardCurlyBracketOpen'' 0x2F UT_SEL,
    EncT ''KeyboardCurlyBracketClose'' 0x30 UT_SEL,
    EncT ''KeyboardBackslash'' 0x31 UT_SEL,
    EncT ''KeyboardNonUsHash'' 0x32 UT_SEL,
    EncT ''KeyboardColon'' 0x33 UT_SEL,
    EncT ''KeyboardApostrophe'' 0x34 UT_SEL,
    EncT ''KeyboardGraveAccentAndTilde'' 0x35 UT_SEL,
    EncT ''KeyboardComma'' 0x36 UT_SEL,
    EncT ''KeyboardPoint'' 0x37 UT_SEL,
    EncT ''KeyboardSlash'' 0x38 UT_SEL,
    EncT ''KeyboardCapsLock'' 0x39 UT_SEL,
    EncT ''KeyboardF1'' 0x3A UT_SEL,
    EncT ''KeyboardF2'' 0x3B UT_SEL,
    EncT ''KeyboardF3'' 0x3C UT_SEL,
    EncT ''KeyboardF4'' 0x3D UT_SEL,
    EncT ''KeyboardF5'' 0x3E UT_SEL,
    EncT ''KeyboardF6'' 0x3F UT_SEL,
    EncT ''KeyboardF7'' 0x40 UT_SEL,
    EncT ''KeyboardF8'' 0x41 UT_SEL,
    EncT ''KeyboardF9'' 0x42 UT_SEL,
    EncT ''KeyboardF10'' 0x43 UT_SEL,
    EncT ''KeyboardF11'' 0x44 UT_SEL,
    EncT ''KeyboardF12'' 0x45 UT_SEL,
    EncT ''KeyboardPrintScreen'' 0x46 UT_SEL,
    EncT ''KeyboardScrollLock'' 0x47 UT_SEL,
    EncT ''KeyboardPause'' 0x48 UT_SEL,
    EncT ''KeyboardInsert'' 0x49 UT_SEL,
    EncT ''KeyboardHome'' 0x4A UT_SEL,
    EncT ''KeyboardPageUp'' 0x4B UT_SEL,
    EncT ''KeyboardDeleteForward'' 0x4C UT_SEL,
    EncT ''KeyboardEnd'' 0x4D UT_SEL,
    EncT ''KeyboardPageDown'' 0x4E UT_SEL,
    EncT ''KeyboardRightArrow'' 0x4F UT_SEL,
    EncT ''KeyboardLeftArrow'' 0x50 UT_SEL,
    EncT ''KeyboardDownArrow'' 0x51 UT_SEL,
    EncT ''KeyboardUpArrow'' 0x52 UT_SEL,
    EncT ''KeypadNumLockAndClear'' 0x53 UT_SEL,
    EncT ''KeypadDivide'' 0x54 UT_SEL,
    EncT ''KeypadMultiply'' 0x55 UT_SEL,
    EncT ''KeypadMinus'' 0x56 UT_SEL,
    EncT ''KeypadPlus'' 0x57 UT_SEL,
    EncT ''KeypadEnter'' 0x58 UT_SEL,
    EncT ''Keypad1'' 0x59 UT_SEL,
    EncT ''Keypad2'' 0x5A UT_SEL,
    EncT ''Keypad3'' 0x5B UT_SEL,
    EncT ''Keypad4'' 0x5C UT_SEL,
    EncT ''Keypad5'' 0x5D UT_SEL,
    EncT ''Keypad6'' 0x5E UT_SEL,
    EncT ''Keypad7'' 0x5F UT_SEL,
    EncT ''Keypad8'' 0x60 UT_SEL,
    EncT ''Keypad9'' 0x61 UT_SEL,
    EncT ''Keypad0'' 0x62 UT_SEL,
    EncT ''KeypadPoint'' 0x63 UT_SEL,
    EncT ''KeyboardNonUsBackslash'' 0x64 UT_SEL,
    EncT ''KeyboardApplication'' 0x65 UT_SEL,
    EncT ''KeyboardPower'' 0x66 UT_SEL,
    EncT ''KeyboardEqual'' 0x67 UT_SEL,
    EncT ''KeyboardF13'' 0x68 UT_SEL,
    EncT ''KeyboardF14'' 0x69 UT_SEL,
    EncT ''KeyboardF15'' 0x6A UT_SEL,
    EncT ''KeyboardF16'' 0x6B UT_SEL,
    EncT ''KeyboardF17'' 0x6C UT_SEL,
    EncT ''KeyboardF18'' 0x6D UT_SEL,
    EncT ''KeyboardF19'' 0x6E UT_SEL,
    EncT ''KeyboardF20'' 0x6F UT_SEL,
    EncT ''KeyboardF21'' 0x70 UT_SEL,
    EncT ''KeyboardF22'' 0x71 UT_SEL,
    EncT ''KeyboardF23'' 0x72 UT_SEL,
    EncT ''KeyboardF24'' 0x73 UT_SEL,
    EncT ''KeyboardExecute'' 0x74 UT_SEL,
    EncT ''KeyboardHelp'' 0x75 UT_SEL,
    EncT ''KeyboardMenu'' 0x76 UT_SEL,
    EncT ''KeyboardSelect'' 0x77 UT_SEL,
    EncT ''KeyboardStop'' 0x78 UT_SEL,
    EncT ''KeyboardAgain'' 0x79 UT_SEL,
    EncT ''KeyboardUndo'' 0x7A UT_SEL,
    EncT ''KeyboardCut'' 0x7B UT_SEL,
    EncT ''KeyboardCopy'' 0x7C UT_SEL,
    EncT ''KeyboardPaste'' 0x7D UT_SEL,
    EncT ''KeyboardFind'' 0x7E UT_SEL,
    EncT ''KeyboardMute'' 0x7F UT_SEL,
    EncT ''KeyboardVolumeUp'' 0x80 UT_SEL,
    EncT ''KeyboardVolumeDown'' 0x81 UT_SEL,
    EncT ''KeyboardLockingCapsLock'' 0x82 UT_SEL,
    EncT ''KeyboardLockingNumLock'' 0x83 UT_SEL,
    EncT ''KeyboardLockingScrollLock'' 0x84 UT_SEL,
    EncT ''KeypadComma'' 0x85 UT_SEL,
    EncT ''KeypadEqual'' 0x86 UT_SEL,
    EncT ''KeyboardInternational1'' 0x87 UT_SEL,
    EncT ''KeyboardInternational2'' 0x88 UT_SEL,
    EncT ''KeyboardInternational3'' 0x89 UT_SEL,
    EncT ''KeyboardInternational4'' 0x8A UT_SEL,
    EncT ''KeyboardInternational5'' 0x8B UT_SEL,
    EncT ''KeyboardInternational6'' 0x8C UT_SEL,
    EncT ''KeyboardInternational7'' 0x8D UT_SEL,
    EncT ''KeyboardInternational8'' 0x8E UT_SEL,
    EncT ''KeyboardInternational9'' 0x8F UT_SEL,
    EncT ''KeyboardLang1'' 0x90 UT_SEL,
    EncT ''KeyboardLang2'' 0x91 UT_SEL,
    EncT ''KeyboardLang3'' 0x92 UT_SEL,
    EncT ''KeyboardLang4'' 0x93 UT_SEL,
    EncT ''KeyboardLang5'' 0x94 UT_SEL,
    EncT ''KeyboardLang6'' 0x95 UT_SEL,
    EncT ''KeyboardLang7'' 0x96 UT_SEL,
    EncT ''KeyboardLang8'' 0x97 UT_SEL,
    EncT ''KeyboardLang9'' 0x98 UT_SEL,
    EncT ''KeyboardAlternateErase'' 0x99 UT_SEL,
    EncT ''KeyboardSysReqAttention'' 0x9A UT_SEL,
    EncT ''KeyboardCancel'' 0x9B UT_SEL,
    EncT ''KeyboardClear'' 0x9C UT_SEL,
    EncT ''KeyboardPrior'' 0x9D UT_SEL,
    EncT ''KeyboardReturn'' 0x9E UT_SEL,
    EncT ''KeyboardSeparator'' 0x9F UT_SEL,
    EncT ''KeyboardOut'' 0xA0 UT_SEL,
    EncT ''KeyboardOper'' 0xA1 UT_SEL,
    EncT ''KeyboardClearAgain'' 0xA2 UT_SEL,
    EncT ''KeyboardCrSelProps'' 0xA3 UT_SEL,
    EncT ''KeyboardExSel'' 0xA4 UT_SEL,
    EncT ''Keypad00'' 0xB0 UT_SEL,
    EncT ''Keypad000'' 0xB1 UT_SEL,
    EncT ''ThausendsSeparator'' 0xB2 UT_SEL,
    EncT ''DecimalSeparator'' 0xB3 UT_SEL,
    EncT ''CurrencyUnit'' 0xB4 UT_SEL,
    EncT ''CurrencySubUnit'' 0xB5 UT_SEL,
    EncT ''KeypadBracketOpen'' 0xB6 UT_SEL,
    EncT ''KeypadBracketClose'' 0xB7 UT_SEL,
    EncT ''KeypadCurlyBracketOpen'' 0xB8 UT_SEL,
    EncT ''KeypadCurlyBracketClose'' 0xB9 UT_SEL,
    EncT ''KeypadTab'' 0xBA UT_SEL,
    EncT ''KeypadBackspace'' 0xBB UT_SEL,
    EncT ''KeypadA'' 0xBC UT_SEL,
    EncT ''KeypadB'' 0xBD UT_SEL,
    EncT ''KeypadC'' 0xBE UT_SEL,
    EncT ''KeypadD'' 0xBF UT_SEL,
    EncT ''KeypadE'' 0xC0 UT_SEL,
    EncT ''KeypadF'' 0xC1 UT_SEL,
    EncT ''KeypadXor'' 0xC2 UT_SEL,
    EncT ''KeypadCircumflex'' 0xC3 UT_SEL,
    EncT ''KeypadPercent'' 0xC4 UT_SEL,
    EncT ''KeypadLessThan'' 0xC5 UT_SEL,
    EncT ''KeypadGreaterThan'' 0xC6 UT_SEL,
    EncT ''KeypadAmpersand'' 0xC7 UT_SEL,
    EncT ''KeypadDoubleAmpersand'' 0xC8 UT_SEL,
    EncT ''KeypadVerticalBar'' 0xC9 UT_SEL,
    EncT ''KeypadDoubleVerticalBar'' 0xCA UT_SEL,
    EncT ''KeypadColon'' 0xCB UT_SEL,
    EncT ''KeypadHash'' 0xCC UT_SEL,
    EncT ''KeypadSpace'' 0xCD UT_SEL,
    EncT ''KeypadAtSign'' 0xCE UT_SEL,
    EncT ''KeypadExclamationMark'' 0xCF UT_SEL,
    EncT ''KeypadMemoryStore'' 0xD0 UT_SEL,
    EncT ''KeypadMemoryRecall'' 0xD1 UT_SEL,
    EncT ''KeypadMemoryClear'' 0xD2 UT_SEL,
    EncT ''KeypadMemoryAdd'' 0xD3 UT_SEL,
    EncT ''KeypadMemorySubtract'' 0xD4 UT_SEL,
    EncT ''KeypadMemoryMultiply'' 0xD5 UT_SEL,
    EncT ''KeypadMemoryDivide'' 0xD6 UT_SEL,
    EncT ''KeypadPlusMinus'' 0xD7 UT_SEL,
    EncT ''KeypadClear'' 0xD8 UT_SEL,
    EncT ''KeypadClearEntry'' 0xD9 UT_SEL,
    EncT ''KeypadBinary'' 0xDA UT_SEL,
    EncT ''KeypadOctal'' 0xDB UT_SEL,
    EncT ''KeypadDecimal'' 0xDC UT_SEL,
    EncT ''KeypadHexadecimal'' 0xDD UT_SEL,
    EncT ''KeyboardLeftControl'' 0xE0 UT_DV,
    EncT ''KeyboardLeftShift'' 0xE1 UT_DV,
    EncT ''KeyboardLeftAlt'' 0xE2 UT_DV,
    EncT ''KeyboardLeftGui'' 0xE3 UT_DV,
    EncT ''KeyboardRightControl'' 0xE4 UT_DV,
    EncT ''KeyboardRightShift'' 0xE5 UT_DV,
    EncT ''KeyboardRightAlt'' 0xE6 UT_DV,
    EncT ''KeyboardRightGui'' 0xE7 UT_DV
  ]"

definition ledMap_entries :: "Encoding list" where
  "ledMap_entries = [
    EncT ''NumLock'' 0x01 UT_OOC,
    EncT ''CapsLock'' 0x02 UT_OOC,
    EncT ''ScrollLock'' 0x03 UT_OOC,
    EncT ''Compose'' 0x04 UT_OOC,
    EncT ''Kana'' 0x05 UT_OOC,
    EncT ''Power'' 0x06 UT_OOC,
    EncT ''Shift'' 0x07 UT_OOC,
    EncT ''DoNotDisturb'' 0x08 UT_OOC,
    EncT ''Mute'' 0x09 UT_OOC,
    EncT ''ToneEnable'' 0x0A UT_OOC,
    EncT ''HighCutFilter'' 0x0B UT_OOC,
    EncT ''LowCutFitler'' 0x0C UT_OOC,
    EncT ''EqualizerEnable'' 0x0D UT_OOC,
    EncT ''SoundFieldOn'' 0x0E UT_OOC,
    EncT ''SurroundOn'' 0x0F UT_OOC,
    EncT ''Repeat'' 0x10 UT_OOC,
    EncT ''Stereo'' 0x11 UT_OOC,
    EncT ''SamplingRateDetect'' 0x12 UT_OOC,
    EncT ''Spinning'' 0x13 UT_OOC,
    EncT ''Cav'' 0x14 UT_OOC,
    EncT ''Clv'' 0x15 UT_OOC,
    EncT ''RecordingFormatDetect'' 0x16 UT_OOC,
    EncT ''OffHook'' 0x17 UT_OOC,
    EncT ''Ring'' 0x18 UT_OOC,
    EncT ''MessageWaiting'' 0x19 UT_OOC,
    EncT ''DataMode'' 0x1A UT_OOC,
    EncT ''BatteryOperation'' 0x1B UT_OOC,
    EncT ''BatteryOk'' 0x1C UT_OOC,
    EncT ''BatteryLow'' 0x1D UT_OOC,
    EncT ''Speaker'' 0x1E UT_OOC,
    EncT ''HeadSet'' 0x1F UT_OOC,
    EncT ''Hold'' 0x20 UT_OOC,
    EncT ''Microphone'' 0x21 UT_OOC,
    EncT ''Coverage'' 0x22 UT_OOC,
    EncT ''NightMode'' 0x23 UT_OOC,
    EncT ''SendCalls'' 0x24 UT_OOC,
    EncT ''CallPickup'' 0x25 UT_OOC,
    EncT ''Conference'' 0x26 UT_OOC,
    EncT ''Standby'' 0x27 UT_OOC,
    EncT ''CameraOn'' 0x28 UT_OOC,
    EncT ''CameraOff'' 0x29 UT_OOC,
    EncT ''OnLine'' 0x2A UT_OOC,
    EncT ''OffLine'' 0x2B UT_OOC,
    EncT ''Busy'' 0x2C UT_OOC,
    EncT ''Ready'' 0x2D UT_OOC,
    EncT ''PaperOut'' 0x2E UT_OOC,
    EncT ''PaperJam'' 0x2F UT_OOC,
    EncT ''Remote'' 0x30 UT_OOC,
    EncT ''Forward'' 0x31 UT_OOC,
    EncT ''Reverse'' 0x32 UT_OOC,
    EncT ''Stop'' 0x33 UT_OOC,
    EncT ''Rewind'' 0x34 UT_OOC,
    EncT ''FastForward'' 0x35 UT_OOC,
    EncT ''Play'' 0x36 UT_OOC,
    EncT ''Pause'' 0x37 UT_OOC,
    EncT ''Record'' 0x38 UT_OOC,
    EncT ''Error'' 0x39 UT_OOC,
    EncT ''UsageSelectedIndicator'' 0x3A UT_US,
    EncT ''UsageInUseIndicator'' 0x3B UT_US,
    EncT ''UsageMultiModeIndicator'' 0x3C UT_UM,
    EncT ''IndicatorOn'' 0x3D UT_SEL,
    EncT ''IndicatorFlash'' 0x3E UT_SEL,
    EncT ''IndicatorSlowBlink'' 0x3F UT_SEL,
    EncT ''IndicatorFastBlink'' 0x40 UT_SEL,
    EncT ''IndicatorOff'' 0x41 UT_SEL,
    EncT ''FlashOnTime'' 0x42 UT_DV,
    EncT ''SlowBlinkOnTime'' 0x43 UT_DV,
    EncT ''SlowBlinkOffTime'' 0x44 UT_DV,
    EncT ''FastBlinkOnTime'' 0x45 UT_DV,
    EncT ''FastBlinkOffTime'' 0x46 UT_DV,
    EncT ''UsageIndicatorColor'' 0x47 UT_UM,
    EncT ''IndicatorRed'' 0x48 UT_SEL,
    EncT ''IndicatorGreen'' 0x49 UT_SEL,
    EncT ''IndicatorAmber'' 0x4A UT_SEL,
    EncT ''GenericIndicator'' 0x4B UT_OOC,
    EncT ''SystemSyspend'' 0x4C UT_OOC,
    EncT ''ExternalPowerConnected'' 0x4D UT_OOC,
    EncT ''IndicatorBlue'' 0x4E UT_SEL,
    EncT ''IndicatorOrange'' 0x4F UT_SEL,
    EncT ''GoodStatus'' 0x50 UT_OOC,
    EncT ''WarningStatus'' 0x51 UT_OOC,
    EncT ''RgbLed'' 0x52 UT_CL,
    EncT ''RedLedChannel'' 0x53 UT_DV,
    EncT ''BlueLedChannel'' 0x54 UT_DV,
    EncT ''GreenLedChannel'' 0x55 UT_DV,
    EncT ''LedIntensity'' 0x56 UT_DV,
    EncT ''PlayerIndicator'' 0x60 UT_NARY,
    EncT ''Player1'' 0x61 UT_SEL,
    EncT ''Player2'' 0x62 UT_SEL,
    EncT ''Player3'' 0x63 UT_SEL,
    EncT ''Player4'' 0x64 UT_SEL,
    EncT ''Player5'' 0x65 UT_SEL,
    EncT ''Player6'' 0x66 UT_SEL,
    EncT ''Player7'' 0x67 UT_SEL,
    EncT ''Player8'' 0x68 UT_SEL
  ]"

definition buttonMap_entries :: "Encoding list" where
  "buttonMap_entries = [
    EncT ''NoButtonPressed'' 0x00 (UT_SEL OR UT_OOC OR UT_MC OR UT_OSC),
    EncT ''Button#'' 0x01 (UT_SEL OR UT_OOC OR UT_MC OR UT_OSC),
    EncT ''Button#'' 0xFFFF (UT_SEL OR UT_OOC OR UT_MC OR UT_OSC)
  ]"

definition ordinalMap_entries :: "Encoding list" where
  "ordinalMap_entries = [
    EncT ''Instance#'' 0x01 UT_UM,
    EncT ''Instance#'' 0xFFFF UT_UM
  ]"

definition telDevMap_entries :: "Encoding list" where
  "telDevMap_entries = [
    EncT ''Phone'' 0x01 UT_CA,
    EncT ''AnsweringMachine'' 0x02 UT_CA,
    EncT ''MessageControls'' 0x03 UT_CL,
    EncT ''Handset'' 0x04 UT_CL,
    EncT ''Headset'' 0x05 UT_CL,
    EncT ''TelephonyKeyPad'' 0x06 UT_NARY,
    EncT ''ProgrammableButton'' 0x07 UT_NARY,
    EncT ''HookSwitch'' 0x20 UT_OOC,
    EncT ''Flash'' 0x21 UT_MC,
    EncT ''Feature'' 0x22 UT_OSC,
    EncT ''Hold'' 0x23 UT_OOC,
    EncT ''Radial'' 0x24 UT_OSC,
    EncT ''Transfer'' 0x25 UT_OSC,
    EncT ''Drop'' 0x26 UT_OSC,
    EncT ''Park'' 0x27 UT_OOC,
    EncT ''ForwardCalls'' 0x28 UT_OOC,
    EncT ''AlternateFunction'' 0x29 UT_MC,
    EncT ''Line'' 0x2A (UT_OSC OR UT_NARY),
    EncT ''SpeakerPhone'' 0x2B UT_OOC,
    EncT ''Conference'' 0x2C UT_OOC,
    EncT ''RingEnable'' 0x2D UT_OOC,
    EncT ''RingSelect'' 0x2E UT_OSC,
    EncT ''PhoneMute'' 0x2F UT_OOC,
    EncT ''CallerId'' 0x30 UT_MC,
    EncT ''Send'' 0x31 UT_OOC,
    EncT ''SpeedDial'' 0x50 UT_OSC,
    EncT ''StoreNumber'' 0x51 UT_OSC,
    EncT ''RecallNumber'' 0x52 UT_OSC,
    EncT ''PhoneDirectory'' 0x53 UT_OOC,
    EncT ''VoiceMail'' 0x70 UT_OOC,
    EncT ''ScreenCalls'' 0x71 UT_OOC,
    EncT ''DoNotDisturb'' 0x72 UT_OOC,
    EncT ''Message'' 0x73 UT_OSC,
    EncT ''AnswerOnOff'' 0x74 UT_OOC,
    EncT ''InsideDialTone'' 0x90 UT_MC,
    EncT ''OutsideDialTone'' 0x91 UT_MC,
    EncT ''InsideRingTone'' 0x92 UT_MC,
    EncT ''OutsideRingTone'' 0x93 UT_MC,
    EncT ''PriorityRingTone'' 0x94 UT_MC,
    EncT ''InsideRingback'' 0x95 UT_MC,
    EncT ''PriorityRingback'' 0x96 UT_MC,
    EncT ''LineBusyTone'' 0x97 UT_MC,
    EncT ''ReorderTone'' 0x98 UT_MC,
    EncT ''CallWaitingTone'' 0x99 UT_MC,
    EncT ''ConfirmationTone1'' 0x9A UT_MC,
    EncT ''ConfirmationTone2'' 0x9B UT_MC,
    EncT ''TonesOff'' 0x9C UT_OOC,
    EncT ''OutsideRingback'' 0x9D UT_MC,
    EncT ''Ringer'' 0x9E UT_OOC,
    EncT ''PhoneKey0'' 0xB0 UT_SEL,
    EncT ''PhoneKey1'' 0xB1 UT_SEL,
    EncT ''PhoneKey2'' 0xB2 UT_SEL,
    EncT ''PhoneKey3'' 0xB3 UT_SEL,
    EncT ''PhoneKey4'' 0xB4 UT_SEL,
    EncT ''PhoneKey5'' 0xB5 UT_SEL,
    EncT ''PhoneKey6'' 0xB6 UT_SEL,
    EncT ''PhoneKey7'' 0xB7 UT_SEL,
    EncT ''PhoneKey8'' 0xB8 UT_SEL,
    EncT ''PhoneKey9'' 0xB9 UT_SEL,
    EncT ''PhoneKeyStar'' 0xBA UT_SEL,
    EncT ''PhoneKeyPound'' 0xBB UT_SEL,
    EncT ''PhoneKeyA'' 0xBC UT_SEL,
    EncT ''PhoneKeyB'' 0xBD UT_SEL,
    EncT ''PhoneKeyC'' 0xBE UT_SEL,
    EncT ''PhoneKeyD'' 0xBF UT_SEL,
    EncT ''PhoneCallHistoryKey'' 0xC0 UT_SEL,
    EncT ''PhoneCallerIdKey'' 0xC1 UT_SEL,
    EncT ''PhoneSettingsKey'' 0xC2 UT_SEL,
    EncT ''HostControl'' 0xF0 UT_OOC,
    EncT ''HostAvailable'' 0xF1 UT_OOC,
    EncT ''HostCallActive'' 0xF2 UT_OOC,
    EncT ''ActivateHandsetAudio'' 0xF3 UT_OOC,
    EncT ''RingType'' 0xF4 UT_NARY,
    EncT ''RediablePhoneNumber'' 0xF5 UT_OOC,
    EncT ''StopRingTone'' 0xF8 UT_SEL,
    EncT ''PstnRingTone'' 0xF9 UT_SEL,
    EncT ''HostRingTone'' 0xFA UT_SEL,
    EncT ''AlertSoundError'' 0xFB UT_SEL,
    EncT ''AlertSoundConfirm'' 0xFC UT_SEL,
    EncT ''AlertSoundNotification'' 0xFD UT_SEL,
    EncT ''SilentRing'' 0xFE UT_SEL,
    EncT ''EmailMessageWaiting'' 0x108 UT_OOC,
    EncT ''VoicemailMessageWaiting'' 0x109 UT_OOC,
    EncT ''HostHold'' 0x10A UT_OOC,
    EncT ''IncomingCallHistoryCount'' 0x110 UT_DV,
    EncT ''OutgoingCallHistoryCount'' 0x111 UT_DV,
    EncT ''IncomingCallHistory'' 0x112 UT_CL,
    EncT ''OutgoingCallHistory'' 0x113 UT_CL,
    EncT ''PhoneLocale'' 0x114 UT_DV,
    EncT ''PhoneTimeSecond'' 0x140 UT_DV,
    EncT ''PhoneTimeMinute'' 0x141 UT_DV,
    EncT ''PhoneTimeHour'' 0x142 UT_DV,
    EncT ''PhoneTimeDay'' 0x143 UT_DV,
    EncT ''PhoneTimeMonth'' 0x144 UT_DV,
    EncT ''PhoneTimeYear'' 0x145 UT_DV,
    EncT ''HandsetNickname'' 0x146 UT_DV,
    EncT ''AddressBookId'' 0x147 UT_DV,
    EncT ''CallDuration'' 0x14A UT_DV,
    EncT ''DualModePhone'' 0x14B UT_CA
  ]"

definition consumerMap_entries :: "Encoding list" where
  "consumerMap_entries = [
    EncT ''ConsumerControl'' 0x01 UT_CA,
    EncT ''NumericKeyPad'' 0x02 UT_NARY,
    EncT ''ProgrammableButtons'' 0x03 UT_NARY,
    EncT ''Microphone'' 0x04 UT_CA,
    EncT ''Headphone'' 0x05 UT_CA,
    EncT ''GraphicEqualizer'' 0x06 UT_CA,
    EncT ''Plus10'' 0x20 UT_OSC,
    EncT ''Plus100'' 0x21 UT_OSC,
    EncT ''AmPm'' 0x22 UT_OSC,
    EncT ''Power'' 0x30 UT_OOC,
    EncT ''Reset'' 0x31 UT_OSC,
    EncT ''Sleep'' 0x32 UT_OSC,
    EncT ''SleepAfter'' 0x33 UT_OSC,
    EncT ''SleepMode'' 0x34 UT_RTC,
    EncT ''Illumination'' 0x35 UT_OOC,
    EncT ''FunctionButtons'' 0x36 UT_NARY,
    EncT ''Menu'' 0x40 UT_OOC,
    EncT ''MenuPick'' 0x41 UT_OSC,
    EncT ''MenuUp'' 0x42 UT_OSC,
    EncT ''MenuDown'' 0x43 UT_OSC,
    EncT ''MenuLeft'' 0x44 UT_OSC,
    EncT ''MenuRight'' 0x45 UT_OSC,
    EncT ''MenuEscape'' 0x46 UT_OSC,
    EncT ''MenuValueIncrease'' 0x47 UT_OSC,
    EncT ''MenuValueDecrease'' 0x48 UT_OSC,
    EncT ''DataOnScreen'' 0x60 UT_OOC,
    EncT ''ClosedCaption'' 0x61 UT_OOC,
    EncT ''ClosedCaptionSelect'' 0x62 UT_OSC,
    EncT ''VcrTv'' 0x63 UT_OOC,
    EncT ''BroadcastMode'' 0x64 UT_OSC,
    EncT ''Snapshot'' 0x65 UT_OSC,
    EncT ''Still'' 0x66 UT_OSC,
    EncT ''PictureInPictureToggle'' 0x67 UT_OSC,
    EncT ''PictureInPictureSwap'' 0x68 UT_OSC,
    EncT ''RedMenuButton'' 0x69 UT_MC,
    EncT ''GreenMenuButton'' 0x6A UT_MC,
    EncT ''BlueMenuButton'' 0x6B UT_MC,
    EncT ''YellowMenuButton'' 0x6C UT_MC,
    EncT ''Aspect'' 0x6D UT_OSC,
    EncT ''Mode3dSelect'' 0x6E UT_OSC,
    EncT ''DisplayBrightnessIncrement'' 0x6F UT_RTC,
    EncT ''DisplayBrightnessDecrement'' 0x70 UT_RTC,
    EncT ''DisplayBrightness'' 0x71 UT_LC,
    EncT ''DisplayBacklightToggle'' 0x72 UT_OOC,
    EncT ''DisplaySetBrightnessToMinimum'' 0x73 UT_OSC,
    EncT ''DisplaySetBrightnessToMaximum'' 0x74 UT_OSC,
    EncT ''DisplaySetAutoBrightness'' 0x75 UT_OOC,
    EncT ''CameraAccessEnabled'' 0x76 UT_OOC,
    EncT ''CameraAccessDisabled'' 0x77 UT_OOC,
    EncT ''CameraAccessToggle'' 0x78 UT_OOC,
    EncT ''KeyboardBrightnessIncrement'' 0x79 UT_OSC,
    EncT ''KeyboardBrightnessDecrement'' 0x7A UT_OSC,
    EncT ''KeyboardBacklightSetLevel'' 0x7B UT_LC,
    EncT ''KeyboardBacklightOoc'' 0x7C UT_OOC,
    EncT ''KeyboardBacklightSetMinimum'' 0x7D UT_OSC,
    EncT ''KeyboardBacklightSetMaximum'' 0x7E UT_OSC,
    EncT ''KeyboardBacklightAuto'' 0x7F UT_OOC,
    EncT ''Selection'' 0x80 UT_NARY,
    EncT ''AssignSelection'' 0x81 UT_OSC,
    EncT ''ModeStep'' 0x82 UT_OSC,
    EncT ''RecallLast'' 0x83 UT_OSC,
    EncT ''EnterChannel'' 0x84 UT_OSC,
    EncT ''OrderMovie'' 0x85 UT_OSC,
    EncT ''Channel'' 0x86 UT_LC,
    EncT ''MediaSelection'' 0x87 UT_NARY,
    EncT ''MediaSelectComputer'' 0x88 UT_SEL,
    EncT ''MediaSelectTv'' 0x89 UT_SEL,
    EncT ''MediaSelectWww'' 0x8A UT_SEL,
    EncT ''MediaSelectDvd'' 0x8B UT_SEL,
    EncT ''MediaSelectTelephone'' 0x8C UT_SEL,
    EncT ''MediaSelectProgramGuide'' 0x8D UT_SEL,
    EncT ''MediaSelectVideoPhone'' 0x8E UT_SEL,
    EncT ''MediaSelectGames'' 0x8F UT_SEL,
    EncT ''MediaSelectMessages'' 0x90 UT_SEL,
    EncT ''MediaSelectCd'' 0x91 UT_SEL,
    EncT ''MediaSelectVcr'' 0x92 UT_SEL,
    EncT ''MediaSelectTuner'' 0x93 UT_SEL,
    EncT ''Quit'' 0x94 UT_OSC,
    EncT ''Help'' 0x95 UT_OOC,
    EncT ''MediaSelectTape'' 0x96 UT_SEL,
    EncT ''MediaSelectCable'' 0x97 UT_SEL,
    EncT ''MediaSelectSatellite'' 0x98 UT_SEL,
    EncT ''MediaSelectSecurity'' 0x99 UT_SEL,
    EncT ''MediaSelectHome'' 0x9A UT_SEL,
    EncT ''MediaSelectCall'' 0x9B UT_SEL,
    EncT ''ChannelIncrement'' 0x9C UT_OSC,
    EncT ''ChannelDecrement'' 0x9D UT_OSC,
    EncT ''MediaSelectSap'' 0x9E UT_SEL,
    EncT ''VcrPlus'' 0xA0 UT_OSC,
    EncT ''Once'' 0xA1 UT_OSC,
    EncT ''Daily'' 0xA2 UT_OSC,
    EncT ''Weekly'' 0xA3 UT_OSC,
    EncT ''Monthly'' 0xA4 UT_OSC,
    EncT ''Play'' 0xB0 UT_OOC,
    EncT ''Pause'' 0xB1 UT_OOC,
    EncT ''Record'' 0xB2 UT_OOC,
    EncT ''FastForward'' 0xB3 UT_OOC,
    EncT ''Rewind'' 0xB4 UT_OOC,
    EncT ''ScanNextTrack'' 0xB5 UT_OSC,
    EncT ''ScanPreviousTrack'' 0xB6 UT_OSC,
    EncT ''Stop'' 0xB7 UT_OSC,
    EncT ''Eject'' 0xB8 UT_OSC,
    EncT ''RandomPlay'' 0xB9 UT_OOC,
    EncT ''SelectDisc'' 0xBA UT_NARY,
    EncT ''EnterDisc'' 0xBB UT_MC,
    EncT ''Repeat'' 0xBC UT_OSC,
    EncT ''Tracking'' 0xBD UT_LC,
    EncT ''TrackNormal'' 0xBE UT_OSC,
    EncT ''SlowTracking'' 0xBF UT_LC,
    EncT ''FrameForward'' 0xC0 UT_RTC,
    EncT ''FrameBack'' 0xC1 UT_RTC,
    EncT ''Mark'' 0xC2 UT_OSC,
    EncT ''ClearMark'' 0xC3 UT_OSC,
    EncT ''RepeatFromMark'' 0xC4 UT_OOC,
    EncT ''ReturnToMark'' 0xC5 UT_OSC,
    EncT ''SearchMarkForward'' 0xC6 UT_OSC,
    EncT ''SearchMarkBackwards'' 0xC7 UT_OSC,
    EncT ''CounterReset'' 0xC8 UT_OSC,
    EncT ''ShowCounter'' 0xC9 UT_OSC,
    EncT ''TrackingIncrement'' 0xCA UT_RTC,
    EncT ''TrackingDecrement'' 0xCB UT_RTC,
    EncT ''StopEject'' 0xCC UT_OSC,
    EncT ''PlayPause'' 0xCD UT_OSC,
    EncT ''PlaySkip'' 0xCE UT_OSC,
    EncT ''VoiceCommand'' 0xCF UT_OSC,
    EncT ''InvokeCaptureInterface'' 0xD0 UT_SEL,
    EncT ''StartOrStopGameRecording'' 0xD1 UT_SEL,
    EncT ''HistoricalGameCapture'' 0xD2 UT_SEL,
    EncT ''CaptureGameScreenshot'' 0xD3 UT_SEL,
    EncT ''ShowOrHideRecordingIndicator'' 0xD4 UT_SEL,
    EncT ''StartOrStopMicrophoneCapture'' 0xD5 UT_SEL,
    EncT ''StartOrStopCameraCapture'' 0xD6 UT_SEL,
    EncT ''StartOrStopGameBroadcast'' 0xD7 UT_SEL,
    EncT ''Volume'' 0xE0 UT_LC,
    EncT ''Balance'' 0xE1 UT_LC,
    EncT ''Mute'' 0xE2 UT_OOC,
    EncT ''Bass'' 0xE3 UT_LC,
    EncT ''Treble'' 0xE4 UT_LC,
    EncT ''BassBoost'' 0xE5 UT_OOC,
    EncT ''SurroundMode'' 0xE6 UT_OSC,
    EncT ''Loudness'' 0xE7 UT_OOC,
    EncT ''Mpx'' 0xE8 UT_OOC,
    EncT ''VolumeIncrement'' 0xE9 UT_RTC,
    EncT ''VolumeDecrement'' 0xEA UT_RTC,
    EncT ''SpeedSelect'' 0xF0 UT_OSC,
    EncT ''PlaybackSpeed'' 0xF1 UT_NARY,
    EncT ''StandardPlay'' 0xF2 UT_SEL,
    EncT ''LongPlay'' 0xF3 UT_SEL,
    EncT ''ExtendedPlay'' 0xF4 UT_SEL,
    EncT ''Slow'' 0xF5 UT_OSC,
    EncT ''FanEnable'' 0x100 UT_OOC,
    EncT ''FanSpeed'' 0x101 UT_LC,
    EncT ''LightEnable'' 0x102 UT_OOC,
    EncT ''LightIlluminationLevel'' 0x103 UT_LC,
    EncT ''ClimateControlEnable'' 0x104 UT_OOC,
    EncT ''RoomTemperature'' 0x105 UT_LC,
    EncT ''SecurityEnalbe'' 0x106 UT_OOC,
    EncT ''FireAlarm'' 0x107 UT_OSC,
    EncT ''PoliceAlarm'' 0x108 UT_OSC,
    EncT ''Proximity'' 0x109 UT_LC,
    EncT ''Motion'' 0x10A UT_OSC,
    EncT ''DuressAlarm'' 0x10B UT_OSC,
    EncT ''HoldupAlarm'' 0x10C UT_OSC,
    EncT ''MedicalAlarm'' 0x10D UT_OSC,
    EncT ''BalanceRight'' 0x150 UT_RTC,
    EncT ''BalanceLeft'' 0x151 UT_RTC,
    EncT ''BassIncrement'' 0x152 UT_RTC,
    EncT ''BassDecrement'' 0x153 UT_RTC,
    EncT ''TrebleIncrement'' 0x154 UT_RTC,
    EncT ''TrebleDecrement'' 0x155 UT_RTC,
    EncT ''SpeakerSystem'' 0x160 UT_CL,
    EncT ''ChannelLeft'' 0x161 UT_CL,
    EncT ''ChannelRight'' 0x162 UT_CL,
    EncT ''ChannelCenter'' 0x163 UT_CL,
    EncT ''ChannelFront'' 0x164 UT_CL,
    EncT ''ChannelCenterFront'' 0x165 UT_CL,
    EncT ''ChannelSide'' 0x166 UT_CL,
    EncT ''ChannelSurround'' 0x167 UT_CL,
    EncT ''ChannelLowFrequencyEnhancement'' 0x168 UT_CL,
    EncT ''ChannelTop'' 0x169 UT_CL,
    EncT ''ChannelUnknown'' 0x16A UT_CL,
    EncT ''SubChannel'' 0x170 UT_LC,
    EncT ''SubChannelIncrement'' 0x171 UT_OSC,
    EncT ''SubChannelDecrement'' 0x172 UT_OSC,
    EncT ''AlternateAudioIncrement'' 0x173 UT_OSC,
    EncT ''AlternateAudioDecrement'' 0x174 UT_OSC,
    EncT ''ApplicationLaunchButtons'' 0x180 UT_NARY,
    EncT ''AlLaunchButtonConfigurationTool'' 0x181 UT_SEL,
    EncT ''AlProgrammableButtonConfiguration'' 0x182 UT_SEL,
    EncT ''AlConsumerControlConfiguration'' 0x183 UT_SEL,
    EncT ''AlWordProcessor'' 0x184 UT_SEL,
    EncT ''AlTextEditor'' 0x185 UT_SEL,
    EncT ''AlSpreadsheet'' 0x186 UT_SEL,
    EncT ''AlGraphicsEditor'' 0x187 UT_SEL,
    EncT ''AlPresentationApp'' 0x188 UT_SEL,
    EncT ''AlDatabaseApp'' 0x189 UT_SEL,
    EncT ''AlEmailReader'' 0x18A UT_SEL,
    EncT ''AlNewsreader'' 0x18B UT_SEL,
    EncT ''AlVoicemail'' 0x18C UT_SEL,
    EncT ''AlContactsAddressBook'' 0x18D UT_SEL,
    EncT ''AlCalenderSchedule'' 0x18E UT_SEL,
    EncT ''AlTaskProjectManager'' 0x18F UT_SEL,
    EncT ''AlLogJournalTimecard'' 0x190 UT_SEL,
    EncT ''AlCheckbookFinance'' 0x191 UT_SEL,
    EncT ''AlCalculator'' 0x192 UT_SEL,
    EncT ''AlAvCapturePlayback'' 0x193 UT_SEL,
    EncT ''AlLocalMachineBrowser'' 0x194 UT_SEL,
    EncT ''AlLanWanBrowser'' 0x195 UT_SEL,
    EncT ''AlInternetBrowser'' 0x196 UT_SEL,
    EncT ''AlRemoteNetworkingIspConnect'' 0x197 UT_SEL,
    EncT ''AlNetworkConference'' 0x198 UT_SEL,
    EncT ''AlNetworkChat'' 0x199 UT_SEL,
    EncT ''AlTelephonyDialer'' 0x19A UT_SEL,
    EncT ''AlLogon'' 0x19B UT_SEL,
    EncT ''AlLogoff'' 0x19C UT_SEL,
    EncT ''AlLogonLogoff'' 0x19D UT_SEL,
    EncT ''AlTerminalLockScreensaver'' 0x19E UT_SEL,
    EncT ''AlControlPanel'' 0x19F UT_SEL,
    EncT ''AlCommandLineProcessorRun'' 0x1A0 UT_SEL,
    EncT ''AlProcessTaskManager'' 0x1A1 UT_SEL,
    EncT ''AlSelectTaskApplication'' 0x1A2 UT_SEL,
    EncT ''AlNextTaskApplication'' 0x1A3 UT_SEL,
    EncT ''AlPreviousTaskApplication'' 0x1A4 UT_SEL,
    EncT ''AlPreemptiveHaltTaskApplication'' 0x1A5 UT_SEL,
    EncT ''AlIntegratedHelpCenter'' 0x1A6 UT_SEL,
    EncT ''AlDocuments'' 0x1A7 UT_SEL,
    EncT ''AlThesaurus'' 0x1A8 UT_SEL,
    EncT ''AlDictionary'' 0x1A9 UT_SEL,
    EncT ''AlDesktop'' 0x1AA UT_SEL,
    EncT ''AlSpellCheck'' 0x1AB UT_SEL,
    EncT ''AlGrammarCheck'' 0x1AC UT_SEL,
    EncT ''AlWirelessStatus'' 0x1AD UT_SEL,
    EncT ''AlKeyboardLayout'' 0x1AE UT_SEL,
    EncT ''AlVirusProtection'' 0x1AF UT_SEL,
    EncT ''AlEncryption'' 0x1B0 UT_SEL,
    EncT ''AlScreenSaver'' 0x1B1 UT_SEL,
    EncT ''AlAlarms'' 0x1B2 UT_SEL,
    EncT ''AlClock'' 0x1B3 UT_SEL,
    EncT ''AlFileBrowser'' 0x1B4 UT_SEL,
    EncT ''AlPowerStatus'' 0x1B5 UT_SEL,
    EncT ''AlImageBrowser'' 0x1B6 UT_SEL,
    EncT ''AlAudioBrowser'' 0x1B7 UT_SEL,
    EncT ''AlMovieBrowser'' 0x1B8 UT_SEL,
    EncT ''AlDigitalRightsManager'' 0x1B9 UT_SEL,
    EncT ''AlDigitalWallet'' 0x1BA UT_SEL,
    EncT ''AlInstantMessaging'' 0x1BC UT_SEL,
    EncT ''AlOemFeatureTipsTutorialBrowser'' 0x1BD UT_SEL,
    EncT ''AlOemHelp'' 0x1BE UT_SEL,
    EncT ''AlOnlineCommunity'' 0x1BF UT_SEL,
    EncT ''AlEntertainmentContentBrowser'' 0x1C0 UT_SEL,
    EncT ''AlOnlineShoppingBrowser'' 0x1C1 UT_SEL,
    EncT ''AlSmartCardInformationHelp'' 0x1C2 UT_SEL,
    EncT ''AlMarketMonitorFinanceBrowser'' 0x1C3 UT_SEL,
    EncT ''AlCustomizedCorporateNewsBrowser'' 0x1C4 UT_SEL,
    EncT ''AlOnlineActivityBrowser'' 0x1C5 UT_SEL,
    EncT ''AlResearchSearchBrowser'' 0x1C6 UT_SEL,
    EncT ''AlAudioPlayer'' 0x1C7 UT_SEL,
    EncT ''AlMessageStatus'' 0x1C8 UT_SEL,
    EncT ''AlContactSync'' 0x1C9 UT_SEL,
    EncT ''AlNavigation'' 0x1CA UT_SEL,
    EncT ''AlContextAwareDesktopAssistant'' 0x1CB UT_SEL,
    EncT ''GenericGuiApplicationControls'' 0x200 UT_NARY,
    EncT ''AcNew'' 0x201 UT_SEL,
    EncT ''AcOpen'' 0x202 UT_SEL,
    EncT ''AcClose'' 0x203 UT_SEL,
    EncT ''AcExit'' 0x204 UT_SEL,
    EncT ''AcMaximize'' 0x205 UT_SEL,
    EncT ''AcMinimize'' 0x206 UT_SEL,
    EncT ''AcSave'' 0x207 UT_SEL,
    EncT ''AcPrint'' 0x208 UT_SEL,
    EncT ''AcProperties'' 0x209 UT_SEL,
    EncT ''AcUndo'' 0x21A UT_SEL,
    EncT ''AcCopy'' 0x21B UT_SEL,
    EncT ''AcCut'' 0x21C UT_SEL,
    EncT ''AcPaste'' 0x21D UT_SEL,
    EncT ''AcSelectAll'' 0x21E UT_SEL,
    EncT ''AcFind'' 0x21F UT_SEL,
    EncT ''AcFindAndReplace'' 0x220 UT_SEL,
    EncT ''AcSearch'' 0x221 UT_SEL,
    EncT ''AcGoTo'' 0x222 UT_SEL,
    EncT ''AcHome'' 0x223 UT_SEL,
    EncT ''AcBack'' 0x224 UT_SEL,
    EncT ''AcForward'' 0x225 UT_SEL,
    EncT ''AcStop'' 0x226 UT_SEL,
    EncT ''AcRefresh'' 0x227 UT_SEL,
    EncT ''AcPreviousLink'' 0x228 UT_SEL,
    EncT ''AcNextLink'' 0x229 UT_SEL,
    EncT ''AcBookmarks'' 0x22A UT_SEL,
    EncT ''AcHistory'' 0x22B UT_SEL,
    EncT ''AcSubscriptions'' 0x22C UT_SEL,
    EncT ''AcZoomIn'' 0x22D UT_SEL,
    EncT ''AcZoomOut'' 0x22E UT_SEL,
    EncT ''AcZoom'' 0x22F UT_LC,
    EncT ''AcFullScreenView'' 0x230 UT_SEL,
    EncT ''AcNormalView'' 0x231 UT_SEL,
    EncT ''AcViewToggle'' 0x232 UT_SEL,
    EncT ''AcScrollUp'' 0x233 UT_SEL,
    EncT ''AcScrollDown'' 0x234 UT_SEL,
    EncT ''AcScroll'' 0x235 UT_LC,
    EncT ''AcPanLeft'' 0x236 UT_SEL,
    EncT ''AcPanRight'' 0x237 UT_SEL,
    EncT ''AcPan'' 0x238 UT_LC,
    EncT ''AcNewWindow'' 0x239 UT_SEL,
    EncT ''AcTileHorizontally'' 0x23A UT_SEL,
    EncT ''AcTileVertically'' 0x23B UT_SEL,
    EncT ''AcFormat'' 0x23C UT_SEL,
    EncT ''AcEdit'' 0x23D UT_SEL,
    EncT ''AcBold'' 0x23E UT_SEL,
    EncT ''AcItalics'' 0x23F UT_SEL,
    EncT ''AcUnderline'' 0x240 UT_SEL,
    EncT ''AcStrikethrough'' 0x241 UT_SEL,
    EncT ''AcSubscript'' 0x242 UT_SEL,
    EncT ''AcSuperscript'' 0x243 UT_SEL,
    EncT ''AcAllCaps'' 0x244 UT_SEL,
    EncT ''AcRemote'' 0x245 UT_SEL,
    EncT ''AcResize'' 0x246 UT_SEL,
    EncT ''AcFlipHorizontal'' 0x247 UT_SEL,
    EncT ''AcFlipVertical'' 0x248 UT_SEL,
    EncT ''AcMirrorHorizontal'' 0x249 UT_SEL,
    EncT ''AcMirrorVertical'' 0x24A UT_SEL,
    EncT ''AcFontSelect'' 0x24B UT_SEL,
    EncT ''AcFontColor'' 0x24C UT_SEL,
    EncT ''AcFontSize'' 0x24D UT_SEL,
    EncT ''AcJustifyLeft'' 0x24E UT_SEL,
    EncT ''AcJustifyCenterH'' 0x24F UT_SEL,
    EncT ''AcJustifyRight'' 0x250 UT_SEL,
    EncT ''AcJustifyBlockH'' 0x251 UT_SEL,
    EncT ''AcJustifyTop'' 0x252 UT_SEL,
    EncT ''AcJustifyCenterV'' 0x253 UT_SEL,
    EncT ''AcJustifyBottom'' 0x254 UT_SEL,
    EncT ''AcJustifyBlockV'' 0x255 UT_SEL,
    EncT ''AcIndentDecrease'' 0x256 UT_SEL,
    EncT ''AcIndentIncrease'' 0x257 UT_SEL,
    EncT ''AcNumberedList'' 0x258 UT_SEL,
    EncT ''AcRestartNumbering'' 0x259 UT_SEL,
    EncT ''AcBulletedList'' 0x25A UT_SEL,
    EncT ''AcPromote'' 0x25B UT_SEL,
    EncT ''AcDemote'' 0x25C UT_SEL,
    EncT ''AcYes'' 0x25D UT_SEL,
    EncT ''AcNo'' 0x25E UT_SEL,
    EncT ''AcCancel'' 0x25F UT_SEL,
    EncT ''AcCatalog'' 0x260 UT_SEL,
    EncT ''AcBuyCheckout'' 0x261 UT_SEL,
    EncT ''AcAddToChart'' 0x262 UT_SEL,
    EncT ''AcExpand'' 0x263 UT_SEL,
    EncT ''AcExpandAll'' 0x264 UT_SEL,
    EncT ''AcCollapse'' 0x265 UT_SEL,
    EncT ''AcCollapseAll'' 0x266 UT_SEL,
    EncT ''AcPrintPreview'' 0x267 UT_SEL,
    EncT ''AcPasteSpecial'' 0x268 UT_SEL,
    EncT ''AcInsertMode'' 0x269 UT_SEL,
    EncT ''AcDelete'' 0x26A UT_SEL,
    EncT ''AcLock'' 0x26B UT_SEL,
    EncT ''AcUnlock'' 0x26C UT_SEL,
    EncT ''AcProtect'' 0x26D UT_SEL,
    EncT ''AcUnprotect'' 0x26E UT_SEL,
    EncT ''AcAttachComment'' 0x26F UT_SEL,
    EncT ''AcDeleteComment'' 0x270 UT_SEL,
    EncT ''AcViewComment'' 0x271 UT_SEL,
    EncT ''AcSelectWord'' 0x272 UT_SEL,
    EncT ''AcSelectSentence'' 0x273 UT_SEL,
    EncT ''AcSelectPragraph'' 0x274 UT_SEL,
    EncT ''AcSelectColumn'' 0x275 UT_SEL,
    EncT ''AcSelectRow'' 0x276 UT_SEL,
    EncT ''AcSelectTable'' 0x277 UT_SEL,
    EncT ''AcSelectObject'' 0x278 UT_SEL,
    EncT ''AcRedoRepeat'' 0x279 UT_SEL,
    EncT ''AcSort'' 0x27A UT_SEL,
    EncT ''AcSortAscending'' 0x27B UT_SEL,
    EncT ''AcSortDescending'' 0x27C UT_SEL,
    EncT ''AcFilter'' 0x27D UT_SEL,
    EncT ''AcSetClock'' 0x27E UT_SEL,
    EncT ''AcViewClock'' 0x27F UT_SEL,
    EncT ''AcSelectTimeZone'' 0x280 UT_SEL,
    EncT ''AcEditTimeZones'' 0x281 UT_SEL,
    EncT ''AcSetAlarm'' 0x282 UT_SEL,
    EncT ''AcClearAlarm'' 0x283 UT_SEL,
    EncT ''AcSnoozeAlarm'' 0x284 UT_SEL,
    EncT ''AcResetAlarm'' 0x285 UT_SEL,
    EncT ''AcSynchronize'' 0x286 UT_SEL,
    EncT ''AcSendReceive'' 0x287 UT_SEL,
    EncT ''AcSendTo'' 0x288 UT_SEL,
    EncT ''AcReply'' 0x289 UT_SEL,
    EncT ''AcReplyAll'' 0x28A UT_SEL,
    EncT ''AcForwardMsg'' 0x28B UT_SEL,
    EncT ''AcSend'' 0x28C UT_SEL,
    EncT ''AcAttachFile'' 0x28D UT_SEL,
    EncT ''AcUpload'' 0x28E UT_SEL,
    EncT ''AcDownload'' 0x28F UT_SEL,
    EncT ''AcSetBoarders'' 0x290 UT_SEL,
    EncT ''AcInsertRow'' 0x291 UT_SEL,
    EncT ''AcInsertColumn'' 0x292 UT_SEL,
    EncT ''AcInsertFile'' 0x293 UT_SEL,
    EncT ''AcInsertPicture'' 0x294 UT_SEL,
    EncT ''AcInsertObject'' 0x295 UT_SEL,
    EncT ''AcInsertSymbol'' 0x296 UT_SEL,
    EncT ''AcSaveAndClose'' 0x297 UT_SEL,
    EncT ''AcRename'' 0x298 UT_SEL,
    EncT ''AcMerge'' 0x299 UT_SEL,
    EncT ''AcSplit'' 0x29A UT_SEL,
    EncT ''AcDistributeHorizontally'' 0x29B UT_SEL,
    EncT ''AcDistributeVertically'' 0x29C UT_SEL,
    EncT ''AcNextKeyboardLayoutSelect'' 0x29D UT_SEL,
    EncT ''AcNavigateGuidance'' 0x29E UT_SEL,
    EncT ''AcDesktopShowAllWindows'' 0x29F UT_SEL,
    EncT ''AcSoftKeyLeft'' 0x2A0 UT_SEL,
    EncT ''AcSoftKeyRight'' 0x2A1 UT_SEL,
    EncT ''AcDesktopShowAllApplications'' 0x2A2 UT_SEL,
    EncT ''AcIdleKeepAlive'' 0x2B0 UT_SEL,
    EncT ''ExtendedKeyboardAttributesCollection'' 0x2C0 UT_CL,
    EncT ''KeyboardFormFactor'' 0x2C1 UT_SV,
    EncT ''KeyboardKeyType'' 0x2C2 UT_SV,
    EncT ''KeyboardPhysicalLayout'' 0x2C3 UT_SV,
    EncT ''VendorSpecificKeyboardPhysicalLayout'' 0x2C4 UT_SV,
    EncT ''KeyboardIetfLanguageTagIndex'' 0x2C5 UT_SV,
    EncT ''ImplementedKeyboardInputAssistControls'' 0x2C6 UT_SV,
    EncT ''KeyboardInputAssistPrevious'' 0x2C7 UT_SEL,
    EncT ''KeyboardInputAssistNext'' 0x2C8 UT_SEL,
    EncT ''KeyboardInputAssistPreviousGroup'' 0x2C9 UT_SEL,
    EncT ''KeyboardInputAssistNextGroup'' 0x2CA UT_SEL,
    EncT ''KeyboardInputAssistAccept'' 0x2CB UT_SEL,
    EncT ''KeyboardInputAssistCancel'' 0x2CC UT_SEL,
    EncT ''PrivacyScreenToggle'' 0x2D0 UT_OOC,
    EncT ''PrivacyScreenLevelDecrement'' 0x2D1 UT_RTC,
    EncT ''PrivacyScreenLevelIncrement'' 0x2D2 UT_RTC,
    EncT ''PrivacyScreenLevelMinimum'' 0x2D3 UT_OSC,
    EncT ''PrivacyScreenLevelMaximum'' 0x2D4 UT_OSC,
    EncT ''ContactEdited'' 0x500 UT_OOC,
    EncT ''ContactAdded'' 0x501 UT_OOC,
    EncT ''ContactRecordedActive'' 0x502 UT_OOC,
    EncT ''ContactIndex'' 0x503 UT_DV,
    EncT ''ContactNickname'' 0x504 UT_DV,
    EncT ''ContactFirstName'' 0x505 UT_DV,
    EncT ''ContactLastName'' 0x506 UT_DV,
    EncT ''ContactFullName'' 0x507 UT_DV,
    EncT ''ContactPhoneNumberPersonal'' 0x508 UT_DV,
    EncT ''ContactPhoneNumberBusiness'' 0x509 UT_DV,
    EncT ''ContactPhoneNumberMobile'' 0x50A UT_DV,
    EncT ''ContactPhoneNumberPager'' 0x50B UT_DV,
    EncT ''ContactPhoneNumberFax'' 0x50C UT_DV,
    EncT ''ContactPhoneNumberOther'' 0x50D UT_DV,
    EncT ''ContactEmailPersonal'' 0x50E UT_DV,
    EncT ''ContactEmailBusiness'' 0x50F UT_DV,
    EncT ''ContactEmailOther'' 0x510 UT_DV,
    EncT ''ContactEmailMain'' 0x511 UT_DV,
    EncT ''ContactSpeedDialNumber'' 0x512 UT_DV,
    EncT ''ContactStatusFlag'' 0x513 UT_DV,
    EncT ''ContactMisc'' 0x514 UT_DV
  ]"

definition digitizersMap_entries :: "Encoding list" where
  "digitizersMap_entries = [
    EncT ''Digitizer'' 0x01 UT_CA,
    EncT ''Pen'' 0x02 UT_CA,
    EncT ''LightPen'' 0x03 UT_CA,
    EncT ''TouchScreen'' 0x04 UT_CA,
    EncT ''TouchPad'' 0x05 UT_CA,
    EncT ''Whiteboard'' 0x06 UT_CA,
    EncT ''CoordinateMeasuringMachine'' 0x07 UT_CA,
    EncT ''Digitizer3d'' 0x08 UT_CA,
    EncT ''StereoPlotter'' 0x09 UT_CA,
    EncT ''ArticulatedArm'' 0x0A UT_CA,
    EncT ''Armature'' 0x0B UT_CA,
    EncT ''MultiplePointDigitizer'' 0x0C UT_CA,
    EncT ''FreeSpaceWand'' 0x0D UT_CA,
    EncT ''DeviceConfiguration'' 0x0E UT_CA,
    EncT ''CapacitiveHeatMapDigitizer'' 0x0F UT_CA,
    EncT ''Stylus'' 0x20 (UT_CA OR UT_CL),
    EncT ''Puck'' 0x21 UT_CL,
    EncT ''Finger'' 0x22 UT_CL,
    EncT ''DeviceSettings'' 0x23 UT_CL,
    EncT ''CharacterGesture'' 0x24 UT_CL,
    EncT ''TipPressure'' 0x30 UT_DV,
    EncT ''BarrelPressure'' 0x31 UT_DV,
    EncT ''InRange'' 0x32 UT_MC,
    EncT ''Touch'' 0x33 UT_MC,
    EncT ''Untouch'' 0x34 UT_OSC,
    EncT ''Tap'' 0x35 UT_OSC,
    EncT ''Quality'' 0x36 UT_DV,
    EncT ''DataValid'' 0x37 UT_MC,
    EncT ''TransducerIndex'' 0x38 UT_DV,
    EncT ''TabletFunctionKeys'' 0x39 UT_CL,
    EncT ''ProgramChangeKeys'' 0x3A UT_CL,
    EncT ''BatteryStrength'' 0x3B UT_DV,
    EncT ''Invert'' 0x3C UT_MC,
    EncT ''XTilt'' 0x3D UT_DV,
    EncT ''YTilt'' 0x3E UT_DV,
    EncT ''Azimuth'' 0x3F UT_DV,
    EncT ''Altitude'' 0x40 UT_DV,
    EncT ''Twist'' 0x41 UT_DV,
    EncT ''TipSwitch'' 0x42 UT_MC,
    EncT ''SecondaryTipSwitch'' 0x43 UT_MC,
    EncT ''BarrelSwitch'' 0x44 UT_MC,
    EncT ''Eraser'' 0x45 UT_MC,
    EncT ''TabletPick'' 0x46 UT_MC,
    EncT ''TouchValid'' 0x47 UT_MC,
    EncT ''Width'' 0x48 UT_DV,
    EncT ''Height'' 0x49 UT_DV,
    EncT ''ContactIdentifier'' 0x51 UT_DV,
    EncT ''DeviceMode'' 0x52 UT_DV,
    EncT ''DeviceIdentifier'' 0x53 (UT_DV OR UT_SV),
    EncT ''ContactCount'' 0x54 UT_DV,
    EncT ''ContactCountMaximum'' 0x55 UT_SV,
    EncT ''ScanTime'' 0x56 UT_DV,
    EncT ''SurfaceSwitch'' 0x57 UT_DF,
    EncT ''ButtonSwitch'' 0x58 UT_DF,
    EncT ''PadType'' 0x59 UT_SF,
    EncT ''SecondaryBarrelSwitch'' 0x5A UT_MC,
    EncT ''TransducerSerialNumber'' 0x5B UT_SV,
    EncT ''PreferredColor'' 0x5C UT_DV,
    EncT ''PreferredColorIsLocked'' 0x5D UT_MC,
    EncT ''PreferredLineWidth'' 0x5E UT_DV,
    EncT ''PreferredLineWidthIsLocked'' 0x5F UT_MC,
    EncT ''LatencyMode'' 0x60 UT_DF,
    EncT ''GestureCharacterQuality'' 0x61 UT_DV,
    EncT ''CharacterGestureDataLength'' 0x62 UT_DV,
    EncT ''CharacterGestureData'' 0x63 UT_DV,
    EncT ''GestureCharacterEncoding'' 0x64 UT_NARY,
    EncT ''Utf8CharacterGestureEncoding'' 0x65 UT_SEL,
    EncT ''Utf16LittleEndianCharacterGestureEncoding'' 0x66 UT_SEL,
    EncT ''Utf16BigEndianCharacterGestureEncoding'' 0x67 UT_SEL,
    EncT ''Utf32LittleEndianCharacterGestureEncoding'' 0x68 UT_SEL,
    EncT ''Utf32BigEndianCharacterGestureEncoding'' 0x69 UT_SEL,
    EncT ''CapacitiveHeatMapProtocolVendorId'' 0x6A UT_SV,
    EncT ''CapacitiveHeatMapProtocolVersion'' 0x6B UT_SV,
    EncT ''CapacitiveHeatMapFrameData'' 0x6C UT_DV,
    EncT ''GestureCharacterEnable'' 0x6D UT_DF,
    EncT ''PreferredLineStyle'' 0x70 UT_NARY,
    EncT ''PreferredLineStyleIsLocked'' 0x71 UT_MC,
    EncT ''Ink'' 0x72 UT_SEL,
    EncT ''Pencil'' 0x73 UT_SEL,
    EncT ''Highlighter'' 0x74 UT_SEL,
    EncT ''ChiselMarker'' 0x75 UT_SEL,
    EncT ''Brush'' 0x76 UT_SEL,
    EncT ''NoPreference'' 0x77 UT_SEL,
    EncT ''DigitizerDiagnostic'' 0x80 UT_CL,
    EncT ''DigitizerError'' 0x81 UT_NARY,
    EncT ''ErrNormalStatus'' 0x82 UT_SEL,
    EncT ''ErrTransducersExceeded'' 0x83 UT_SEL,
    EncT ''ErrFullTransFeaturesUnavailable'' 0x84 UT_SEL,
    EncT ''ErrChargeLow'' 0x85 UT_SEL,
    EncT ''TransducerSoftwareInfo'' 0x90 UT_CL,
    EncT ''TransducerVendorId'' 0x91 UT_SV,
    EncT ''TransducerProductId'' 0x92 UT_SV,
    EncT ''DeviceSupportedProtocols'' 0x93 (UT_NARY OR UT_CL),
    EncT ''TransducerSupportedProtocols'' 0x94 (UT_NARY OR UT_CL),
    EncT ''NoProtocol'' 0x95 UT_SEL,
    EncT ''WacomAesProtocol'' 0x96 UT_SEL,
    EncT ''UsiProtocol'' 0x97 UT_SEL,
    EncT ''MicrosoftPenProtocol'' 0x98 UT_SEL,
    EncT ''SupportedReportRates'' 0xA0 (UT_SV OR UT_CL),
    EncT ''ReportRate'' 0xA1 UT_DV,
    EncT ''TransducerConnected'' 0xA2 UT_SF,
    EncT ''SwitchDisabled'' 0xA3 UT_SEL,
    EncT ''SwitchUnimplemented'' 0xA4 UT_SEL,
    EncT ''TransducerSwitches'' 0xA5 UT_SEL
  ]"

definition hapticsMap_entries :: "Encoding list" where
  "hapticsMap_entries = [
    EncT ''SimpleHapticController'' 0x01 (UT_CA OR UT_CL),
    EncT ''WaveformList'' 0x10 UT_NARY,
    EncT ''DurationList'' 0x11 UT_NARY,
    EncT ''AutoTrigger'' 0x20 UT_DV,
    EncT ''ManualTrigger'' 0x21 UT_DV,
    EncT ''AutoTriggerAssociatedControl'' 0x22 UT_SV,
    EncT ''Intensity'' 0x23 UT_DV,
    EncT ''RepeatCount'' 0x24 UT_DV,
    EncT ''RetriggerPeriod'' 0x25 UT_DV,
    EncT ''WaveformVendorPage'' 0x26 UT_SV,
    EncT ''WaveformVendorId'' 0x27 UT_SV,
    EncT ''WaveformCutoffTime'' 0x28 UT_SV,
    EncT ''WaveformNone'' 0x1001 UT_SV,
    EncT ''WaveformStop'' 0x1002 UT_SV,
    EncT ''WaveformClick'' 0x1003 UT_SV,
    EncT ''WaveformBuzzContinuous'' 0x1004 UT_SV,
    EncT ''WaveformRumbleContinuous'' 0x1005 UT_SV,
    EncT ''WaveformPress'' 0x1006 UT_SV,
    EncT ''WaveformRelease'' 0x1007 UT_SV
  ]"

definition pidMap_entries :: "Encoding list" where
  "pidMap_entries = [
    EncT ''PhysicalInterfaceDevice'' 0x01 UT_CA,
    EncT ''Normal'' 0x20 UT_DV,
    EncT ''SetEffectReport'' 0x21 (UT_CL OR UT_LC OR UT_SV),
    EncT ''EffectBlockIndex'' 0x22 UT_DV,
    EncT ''ParameterBlockOffset'' 0x23 UT_DV,
    EncT ''RomFlag'' 0x24 UT_DV,
    EncT ''EffectType'' 0x25 UT_NARY,
    EncT ''EtConstantForce'' 0x26 UT_SEL,
    EncT ''EtRamp'' 0x27 UT_SEL,
    EncT ''EtCustomForceData'' 0x28 UT_SEL,
    EncT ''EtSquare'' 0x30 UT_SEL,
    EncT ''EtSine'' 0x31 UT_SEL,
    EncT ''EtTriangle'' 0x32 UT_SEL,
    EncT ''EtSawtoothUp'' 0x33 UT_SEL,
    EncT ''EtSawtoothDown'' 0x34 UT_SEL,
    EncT ''EtSpring'' 0x40 UT_SEL,
    EncT ''EtDamper'' 0x41 UT_SEL,
    EncT ''EtInertia'' 0x42 UT_SEL,
    EncT ''EtFriction'' 0x43 UT_SEL,
    EncT ''Duration'' 0x50 UT_DV,
    EncT ''SamplePeriod'' 0x51 UT_DV,
    EncT ''Gain'' 0x52 UT_DV,
    EncT ''TriggerButton'' 0x53 UT_DV,
    EncT ''TriggerRepeatInterval'' 0x54 UT_DV,
    EncT ''AxesEnable'' 0x55 UT_US,
    EncT ''DirectionEnable'' 0x56 UT_DF,
    EncT ''Direction'' 0x57 (UT_CL OR UT_DV),
    EncT ''TypeSpecificBlockOffset'' 0x58 UT_CL,
    EncT ''BlockType'' 0x59 UT_NARY,
    EncT ''SetEnvelopeReport'' 0x5A (UT_CL OR UT_LC OR UT_SV),
    EncT ''AttackLevel'' 0x5B UT_DV,
    EncT ''AttackTime'' 0x5C UT_DV,
    EncT ''FadeLevel'' 0x5D UT_DV,
    EncT ''FadeTime'' 0x5E UT_DV,
    EncT ''SetConditionReport'' 0x5F (UT_CL OR UT_LC OR UT_SV),
    EncT ''CpOffset'' 0x60 UT_DV,
    EncT ''PositiveCoefficient'' 0x61 UT_DV,
    EncT ''NegativeCoefficient'' 0x62 UT_DV,
    EncT ''PositiveSaturation'' 0x63 UT_DV,
    EncT ''NegativeSaturation'' 0x64 UT_DV,
    EncT ''DeadBand'' 0x65 UT_DV,
    EncT ''DownloadForceSample'' 0x66 UT_CL,
    EncT ''IsochCustomForceEnable'' 0x67 UT_DF,
    EncT ''CustomForceDataReport'' 0x68 UT_CL,
    EncT ''CustomForceData'' 0x69 UT_DV,
    EncT ''CustomForceVendorDefinedData'' 0x6A UT_DV,
    EncT ''SetCustomForceReport'' 0x6B (UT_CL OR UT_LC OR UT_SV),
    EncT ''CustomForceDataOffset'' 0x6C UT_DV,
    EncT ''SampleCount'' 0x6D UT_DV,
    EncT ''SetPeriodicReport'' 0x6E (UT_CL OR UT_LC OR UT_SV),
    EncT ''Offset'' 0x6F UT_DV,
    EncT ''Magnitude'' 0x70 UT_DV,
    EncT ''Phase'' 0x71 UT_DV,
    EncT ''Period'' 0x72 UT_DV,
    EncT ''SetConstantForceReport'' 0x73 (UT_CL OR UT_LC OR UT_SV),
    EncT ''SetRampForceReport'' 0x74 (UT_CL OR UT_LC OR UT_SV),
    EncT ''RampStart'' 0x75 UT_DV,
    EncT ''RampEnd'' 0x76 UT_DV,
    EncT ''EffectOperationReport'' 0x77 UT_CL,
    EncT ''EffectOperation'' 0x78 UT_NARY,
    EncT ''OpEffectStart'' 0x79 UT_SEL,
    EncT ''OpEffectStartSolo'' 0x7A UT_SEL,
    EncT ''OpEffectStop'' 0x7B UT_SEL,
    EncT ''LoopCount'' 0x7C UT_DV,
    EncT ''DeviceGainReport'' 0x7D UT_CL,
    EncT ''DeviceGain'' 0x7E UT_DV,
    EncT ''PidPoolReport'' 0x7F UT_CL,
    EncT ''RamPoolSize'' 0x80 UT_DV,
    EncT ''RomPoolSize'' 0x81 UT_SV,
    EncT ''RomEffectBlockCount'' 0x82 UT_SV,
    EncT ''SimultaneousEffectsMax'' 0x83 UT_SV,
    EncT ''PoolAlignment'' 0x84 UT_SV,
    EncT ''PidPoolMoveReport'' 0x85 UT_CL,
    EncT ''MoveSource'' 0x86 UT_DV,
    EncT ''MoveDestination'' 0x87 UT_DV,
    EncT ''MoveLength'' 0x88 UT_DV,
    EncT ''PidBlockLoadReport'' 0x89 UT_CL,
    EncT ''BlockLoadStatus'' 0x8B UT_NARY,
    EncT ''BlockLoadSuccess'' 0x8C UT_SEL,
    EncT ''BlockLoadFull'' 0x8D UT_SEL,
    EncT ''BlockLoadError'' 0x8E UT_SEL,
    EncT ''BlockHandle'' 0x8F UT_DV,
    EncT ''PidBlockFreeReport'' 0x90 UT_CL,
    EncT ''TypeSpecificBlockHandle'' 0x91 UT_CL,
    EncT ''PidStateReport'' 0x92 UT_CL,
    EncT ''EffectPlaying'' 0x94 UT_DF,
    EncT ''PidDeviceControlReport'' 0x95 UT_CL,
    EncT ''PidDeviceControl'' 0x96 UT_NARY,
    EncT ''DcEnableActuators'' 0x97 UT_SEL,
    EncT ''DcDisableActuators'' 0x98 UT_SEL,
    EncT ''DcStopAllEffects'' 0x99 UT_SEL,
    EncT ''DcDeviceReset'' 0x9A UT_SEL,
    EncT ''DcDevicePause'' 0x9B UT_SEL,
    EncT ''DcDeviceContinue'' 0x9C UT_SEL,
    EncT ''DevicePaused'' 0x9F UT_DF,
    EncT ''ActuatorsEnabled'' 0xA0 UT_DF,
    EncT ''SafetySwitch'' 0xA4 UT_DF,
    EncT ''ActuatorOverrideSwitch'' 0xA5 UT_DF,
    EncT ''ActuatorPower'' 0xA6 UT_OOC,
    EncT ''StartDelay'' 0xA7 UT_DV,
    EncT ''ParameterBlockSize'' 0xA8 UT_CL,
    EncT ''DeviceManagedPool'' 0xA9 UT_SF,
    EncT ''SharedParameterBlocks'' 0xAA UT_SF,
    EncT ''CreateNewEffectReport'' 0xAB UT_CL,
    EncT ''RamPoolAvailable'' 0xAC UT_DV
  ]"

definition unicodeMap_entries :: "Encoding list" where
  "unicodeMap_entries = [
    Enc ''Ucs#'' 0x0000,
    Enc ''Ucs#'' 0xFFFF
  ]"

definition eyeHeadMap_entries :: "Encoding list" where
  "eyeHeadMap_entries = [
    EncT ''EyeTracker'' 0x01 UT_CA,
    EncT ''HeadTracker'' 0x02 UT_CA,
    EncT ''TrackingData'' 0x10 UT_CP,
    EncT ''Capabilities'' 0x11 UT_CL,
    EncT ''Configuration'' 0x12 UT_CL,
    EncT ''Status'' 0x13 UT_CL,
    EncT ''Control'' 0x14 UT_CL,
    EncT ''SensorTimestamp'' 0x20 UT_DV,
    EncT ''PositionX'' 0x21 UT_DV,
    EncT ''PositionY'' 0x22 UT_DV,
    EncT ''PositionZ'' 0x23 UT_DV,
    EncT ''GazePoint'' 0x24 UT_CP,
    EncT ''LeftEyePosition'' 0x25 UT_CP,
    EncT ''RightEyePosition'' 0x26 UT_CP,
    EncT ''HeadPosition'' 0x27 UT_CP,
    EncT ''HeadDirectionPoint'' 0x28 UT_CP,
    EncT ''RotationAboutXAxis'' 0x29 UT_DV,
    EncT ''RotationAboutYAxis'' 0x2A UT_DV,
    EncT ''RotationAboutZAxis'' 0x2B UT_DV,
    EncT ''TrackerQuality'' 0x100 UT_SV,
    EncT ''MinimumTrackingDistance'' 0x101 UT_SV,
    EncT ''OptimumTrackingDistance'' 0x102 UT_SV,
    EncT ''MaximumTrackingDistance'' 0x103 UT_SV,
    EncT ''MaximumScreenPlaneWidth'' 0x104 UT_SV,
    EncT ''MaximumScreenPlaneHeight'' 0x105 UT_SV,
    EncT ''DisplayManufacturerId'' 0x200 UT_SV,
    EncT ''DisplayProductId'' 0x201 UT_SV,
    EncT ''DisplaySerialNumber'' 0x202 UT_SV,
    EncT ''DisplayManufacturerDate'' 0x203 UT_SV,
    EncT ''CalibratedScreenWidth'' 0x204 UT_SV,
    EncT ''CalibratedScreenHeight'' 0x205 UT_SV,
    EncT ''SamplingFrequency'' 0x300 UT_DV,
    EncT ''ConfigurationStatus'' 0x301 UT_DV,
    EncT ''DeviceModeRequest'' 0x400 UT_DV
  ]"

definition auxDisplayMap_entries :: "Encoding list" where
  "auxDisplayMap_entries = [
    EncT ''AlphanumericDisplay'' 0x01 UT_CA,
    EncT ''AuxiliaryDisplay'' 0x02 UT_CA,
    EncT ''DisplayAttributesReport'' 0x20 UT_CL,
    EncT ''AsciiCharacterSet'' 0x21 UT_SF,
    EncT ''DataReadBack'' 0x22 UT_SF,
    EncT ''FontReadBack'' 0x23 UT_SF,
    EncT ''DisplayControlReport'' 0x24 UT_CL,
    EncT ''ClearDisplay'' 0x25 UT_DF,
    EncT ''DisplayEnable'' 0x26 UT_DF,
    EncT ''ScreenSaverDelay'' 0x27 (UT_SV OR UT_DV),
    EncT ''ScreenSaverEnable'' 0x28 UT_DF,
    EncT ''VerticalScroll'' 0x29 (UT_SF OR UT_DF),
    EncT ''HorizontalScroll'' 0x2A (UT_SF OR UT_DF),
    EncT ''CharacterReport'' 0x2B UT_CL,
    EncT ''DisplayData'' 0x2C UT_DV,
    EncT ''DisplayStatus'' 0x2D UT_CL,
    EncT ''StatNotReady'' 0x2E UT_SEL,
    EncT ''StatReady'' 0x2F UT_SEL,
    EncT ''ErrNotALoadableCharacter'' 0x30 UT_SEL,
    EncT ''ErrFontDataCannotBeRead'' 0x31 UT_SEL,
    EncT ''CursorPositionReport'' 0x32 UT_SEL,
    EncT ''Row'' 0x33 UT_DV,
    EncT ''Column'' 0x34 UT_DV,
    EncT ''Rows'' 0x35 UT_SV,
    EncT ''Columns'' 0x36 UT_SV,
    EncT ''CursorPixelPosition'' 0x37 UT_SF,
    EncT ''CursorMode'' 0x38 UT_DF,
    EncT ''CursorEnable'' 0x39 UT_DF,
    EncT ''CursorBlink'' 0x3A UT_DF,
    EncT ''FontReport'' 0x3B UT_CL,
    EncT ''FontData'' 0x3C UT_BB,
    EncT ''CharacterWidth'' 0x3D UT_SV,
    EncT ''CharacterHeight'' 0x3E UT_SV,
    EncT ''CharacterSpacingHorizontal'' 0x3F UT_SV,
    EncT ''CharacterSpacingVertical'' 0x40 UT_SV,
    EncT ''UnicodeCharacterSet'' 0x41 UT_SF,
    EncT ''Font7Segment'' 0x42 UT_SF,
    EncT ''DirectMap7Segment'' 0x43 UT_SF,
    EncT ''Font14Segment'' 0x44 UT_SF,
    EncT ''DirectMap14Segment'' 0x45 UT_SF,
    EncT ''DisplayBrightness'' 0x46 UT_DV,
    EncT ''DisplayContrast'' 0x47 UT_DV,
    EncT ''CharacterAttribute'' 0x48 UT_CL,
    EncT ''AtributeReadback'' 0x49 UT_SF,
    EncT ''AttributeData'' 0x4A UT_DV,
    EncT ''CharAttrEnhance'' 0x4B UT_OOC,
    EncT ''CharAttrUnderline'' 0x4C UT_OOC,
    EncT ''CharAttrBlink'' 0x4D UT_OOC,
    EncT ''BitmapSizeX'' 0x80 UT_SV,
    EncT ''BitmapSizeY'' 0x81 UT_SV,
    EncT ''MaxBlitSize'' 0x82 UT_SV,
    EncT ''BitDepthFormat'' 0x83 UT_SV,
    EncT ''DisplayOrientation'' 0x84 UT_DV,
    EncT ''PaletteReport'' 0x85 UT_CL,
    EncT ''PaletteDataSize'' 0x86 UT_SV,
    EncT ''PaletteDataOffset'' 0x87 UT_SV,
    EncT ''PaletteData'' 0x88 UT_BB,
    EncT ''BlitReport'' 0x8A UT_CL,
    EncT ''BlitRectangleX1'' 0x8B UT_SV,
    EncT ''BlitRectangleY1'' 0x8C UT_SV,
    EncT ''BlitRectangleX2'' 0x8D UT_SV,
    EncT ''BlitRectangleY2'' 0x8E UT_SV,
    EncT ''BlitData'' 0x8F UT_BB,
    EncT ''SoftButton'' 0x90 UT_CL,
    EncT ''SoftButtonId'' 0x91 UT_SV,
    EncT ''SoftButtonSide'' 0x92 UT_SV,
    EncT ''SoftButtonOffset1'' 0x93 UT_SV,
    EncT ''SoftButtonOffset2'' 0x94 UT_SV,
    EncT ''SoftButtonReport'' 0x95 UT_SV,
    EncT ''SoftKeys'' 0xC2 UT_SV,
    EncT ''DisplayDataExtensions'' 0xCC UT_SF,
    EncT ''CharacterMapping'' 0xCF UT_SV,
    EncT ''UnicodeEquivalent'' 0xDD UT_SV,
    EncT ''CharacterPageMapping'' 0xDF UT_SV,
    EncT ''RequestReport'' 0xFF UT_DV
  ]"

definition sensorMap_entries :: "Encoding list" where
  "sensorMap_entries = [
    EncT ''Sensor'' 0x01 (UT_CA OR UT_CP),
    EncT ''Biometric'' 0x10 (UT_CA OR UT_CP),
    EncT ''BiometricHumanPresence'' 0x11 (UT_CA OR UT_CP),
    EncT ''BiometricHumanProximity'' 0x12 (UT_CA OR UT_CP),
    EncT ''BiometricHumanTouch'' 0x13 (UT_CA OR UT_CP),
    EncT ''BiometricBloodPressure'' 0x14 (UT_CA OR UT_CP),
    EncT ''BiometricBodyTemperature'' 0x15 (UT_CA OR UT_CP),
    EncT ''BiometricHeartRate'' 0x16 (UT_CA OR UT_CP),
    EncT ''BiometricHeartRateVariability'' 0x17 (UT_CA OR UT_CP),
    EncT ''BiometricPeripheralOxygenSaturation'' 0x18 (UT_CA OR UT_CP),
    EncT ''BiometricRespiratoryRate'' 0x19 (UT_CA OR UT_CP),
    EncT ''Electrical'' 0x20 (UT_CA OR UT_CP),
    EncT ''ElectricalCapacitance'' 0x21 (UT_CA OR UT_CP),
    EncT ''ElectricalCurrent'' 0x22 (UT_CA OR UT_CP),
    EncT ''ElectricalPower'' 0x23 (UT_CA OR UT_CP),
    EncT ''ElectricalInductance'' 0x24 (UT_CA OR UT_CP),
    EncT ''ElectricalResistance'' 0x25 (UT_CA OR UT_CP),
    EncT ''ElectricalVoltage'' 0x26 (UT_CA OR UT_CP),
    EncT ''ElectricalPotentiometer'' 0x27 (UT_CA OR UT_CP),
    EncT ''ElectricalFrequency'' 0x28 (UT_CA OR UT_CP),
    EncT ''ElectricalPeriod'' 0x29 (UT_CA OR UT_CP),
    EncT ''Environmental'' 0x30 (UT_CA OR UT_CP),
    EncT ''EnvironmentalAtmosphericPressure'' 0x31 (UT_CA OR UT_CP),
    EncT ''EnvironmentalHumidity'' 0x32 (UT_CA OR UT_CP),
    EncT ''EnvironmentalTemperature'' 0x33 (UT_CA OR UT_CP),
    EncT ''EnvironmentalWindDirection'' 0x34 (UT_CA OR UT_CP),
    EncT ''EnvironmentalWindSpeed'' 0x35 (UT_CA OR UT_CP),
    EncT ''EnvironmentalAirQuality'' 0x36 (UT_CA OR UT_CP),
    EncT ''EnvironmentalHeatIndex'' 0x37 (UT_CA OR UT_CP),
    EncT ''EnvironmentalSurfaceTemperature'' 0x38 (UT_CA OR UT_CP),
    EncT ''EnvironmentalVolatileOrganicCompounds'' 0x39 (UT_CA OR UT_CP),
    EncT ''EnvironmentalObjectPresence'' 0x3A (UT_CA OR UT_CP),
    EncT ''EnvironmentalObjectProximity'' 0x3B (UT_CA OR UT_CP),
    EncT ''Light'' 0x40 (UT_CA OR UT_CP),
    EncT ''LightAmbientLight'' 0x41 (UT_CA OR UT_CP),
    EncT ''LightConsumerInfrared'' 0x42 (UT_CA OR UT_CP),
    EncT ''LightInfraredLight'' 0x43 (UT_CA OR UT_CP),
    EncT ''LightVisibleLight'' 0x44 (UT_CA OR UT_CP),
    EncT ''LightUltravioletLight'' 0x45 (UT_CA OR UT_CP),
    EncT ''Location'' 0x50 (UT_CA OR UT_CP),
    EncT ''LocationBroadcast'' 0x51 (UT_CA OR UT_CP),
    EncT ''LocationDeadReckoning'' 0x52 (UT_CA OR UT_CP),
    EncT ''LocationGps'' 0x53 (UT_CA OR UT_CP),
    EncT ''LocationLookup'' 0x54 (UT_CA OR UT_CP),
    EncT ''LocationOther'' 0x55 (UT_CA OR UT_CP),
    EncT ''LocationStatic'' 0x56 (UT_CA OR UT_CP),
    EncT ''LocationTriangulation'' 0x57 (UT_CA OR UT_CP),
    EncT ''Mechanical'' 0x60 (UT_CA OR UT_CP),
    EncT ''MechanicalBooleanSwitch'' 0x61 (UT_CA OR UT_CP),
    EncT ''MechanicalBooleanSwitchArray'' 0x62 (UT_CA OR UT_CP),
    EncT ''MechanicalMultivalueSwitch'' 0x63 (UT_CA OR UT_CP),
    EncT ''MechanicalForce'' 0x64 (UT_CA OR UT_CP),
    EncT ''MechanicalPressure'' 0x65 (UT_CA OR UT_CP),
    EncT ''MechanicalStrain'' 0x66 (UT_CA OR UT_CP),
    EncT ''MechanicalWeight'' 0x67 (UT_CA OR UT_CP),
    EncT ''MechanicalHapticVibrator'' 0x68 (UT_CA OR UT_CP),
    EncT ''MechanicalHallEffectSwitch'' 0x69 (UT_CA OR UT_CP),
    EncT ''Motion'' 0x70 (UT_CA OR UT_CP),
    EncT ''MotionAccelerometer1d'' 0x71 (UT_CA OR UT_CP),
    EncT ''MotionAccelerometer2d'' 0x72 (UT_CA OR UT_CP),
    EncT ''MotionAccelerometer3d'' 0x73 (UT_CA OR UT_CP),
    EncT ''MotionGyrometer1d'' 0x74 (UT_CA OR UT_CP),
    EncT ''MotionGyrometer2d'' 0x75 (UT_CA OR UT_CP),
    EncT ''MotionGyrometer3d'' 0x76 (UT_CA OR UT_CP),
    EncT ''MotionMotionDetector'' 0x77 (UT_CA OR UT_CP),
    EncT ''MotionSpeedometer'' 0x78 (UT_CA OR UT_CP),
    EncT ''MotionAccelerometer'' 0x79 (UT_CA OR UT_CP),
    EncT ''MotionGyrometer'' 0x7A (UT_CA OR UT_CP),
    EncT ''MotionGraviyVector'' 0x7B (UT_CA OR UT_CP),
    EncT ''MotionLinearAccelerometer'' 0x7C (UT_CA OR UT_CP),
    EncT ''Orientation'' 0x80 (UT_CA OR UT_CP),
    EncT ''OrientationCompass1d'' 0x81 (UT_CA OR UT_CP),
    EncT ''OrientationCompass2d'' 0x82 (UT_CA OR UT_CP),
    EncT ''OrientationCompass3d'' 0x83 (UT_CA OR UT_CP),
    EncT ''OrientationInclinometer1d'' 0x84 (UT_CA OR UT_CP),
    EncT ''OrientationInclinometer2d'' 0x85 (UT_CA OR UT_CP),
    EncT ''OrientationInclinometer3d'' 0x86 (UT_CA OR UT_CP),
    EncT ''OrientationDistance1d'' 0x87 (UT_CA OR UT_CP),
    EncT ''OrientationDistance2d'' 0x88 (UT_CA OR UT_CP),
    EncT ''OrientationDistance3d'' 0x89 (UT_CA OR UT_CP),
    EncT ''OrientationDeviceOrientation'' 0x8A (UT_CA OR UT_CP),
    EncT ''OrientationCompass'' 0x8B (UT_CA OR UT_CP),
    EncT ''OrientationInclinometer'' 0x8C (UT_CA OR UT_CP),
    EncT ''OrientationDistance'' 0x8D (UT_CA OR UT_CP),
    EncT ''OrientationRelativeOrientation'' 0x8E (UT_CA OR UT_CP),
    EncT ''OrientationSimpleOrientation'' 0x8F (UT_CA OR UT_CP),
    EncT ''Scanner'' 0x90 (UT_CA OR UT_CP),
    EncT ''ScannerBarcode'' 0x91 (UT_CA OR UT_CP),
    EncT ''ScannerRfid'' 0x92 (UT_CA OR UT_CP),
    EncT ''ScannerNfc'' 0x93 (UT_CA OR UT_CP),
    EncT ''Time'' 0xA0 (UT_CA OR UT_CP),
    EncT ''TimeAlarmTimer'' 0xA1 (UT_CA OR UT_CP),
    EncT ''TimeRealTimeClock'' 0xA2 (UT_CA OR UT_CP),
    EncT ''PersonalActivity'' 0xB0 (UT_CA OR UT_CP),
    EncT ''PersonalActivityActivityDetection'' 0xB1 (UT_CA OR UT_CP),
    EncT ''PersonalActivityDevicePosition'' 0xB2 (UT_CA OR UT_CP),
    EncT ''PersonalActivityPedometer'' 0xB3 (UT_CA OR UT_CP),
    EncT ''PersonalActivityStepDetection'' 0xB4 (UT_CA OR UT_CP),
    EncT ''OrientationExtended'' 0xC0 (UT_CA OR UT_CP),
    EncT ''OrientationExtendedGeomagneticOrientation'' 0xC1 (UT_CA OR UT_CP),
    EncT ''OrientationExtendedMagnetometer'' 0xC2 (UT_CA OR UT_CP),
    EncT ''Gesture'' 0xD0 (UT_CA OR UT_CP),
    EncT ''GestureChassisFlipGesture'' 0xD1 (UT_CA OR UT_CP),
    EncT ''GestureHingeFoldGesture'' 0xD2 (UT_CA OR UT_CP),
    EncT ''Other'' 0xE0 (UT_CA OR UT_CP),
    EncT ''OtherCustom'' 0xE1 (UT_CA OR UT_CP),
    EncT ''OtherGeneric'' 0xE2 (UT_CA OR UT_CP),
    EncT ''OtherGenericEnumerator'' 0xE3 (UT_CA OR UT_CP),
    EncT ''OtherHingeAngle'' 0xE4 (UT_CA OR UT_CP),
    EncT ''VendorReserved1'' 0xF0 (UT_CA OR UT_CP),
    EncT ''VendorReserved2'' 0xF1 (UT_CA OR UT_CP),
    EncT ''VendorReserved3'' 0xF2 (UT_CA OR UT_CP),
    EncT ''VendorReserved4'' 0xF3 (UT_CA OR UT_CP),
    EncT ''VendorReserved5'' 0xF4 (UT_CA OR UT_CP),
    EncT ''VendorReserved6'' 0xF5 (UT_CA OR UT_CP),
    EncT ''VendorReserved7'' 0xF6 (UT_CA OR UT_CP),
    EncT ''VendorReserved8'' 0xF7 (UT_CA OR UT_CP),
    EncT ''VendorReserved9'' 0xF8 (UT_CA OR UT_CP),
    EncT ''VendorReserved10'' 0xF9 (UT_CA OR UT_CP),
    EncT ''VendorReserved11'' 0xFA (UT_CA OR UT_CP),
    EncT ''VendorReserved12'' 0xFB (UT_CA OR UT_CP),
    EncT ''VendorReserved13'' 0xFC (UT_CA OR UT_CP),
    EncT ''VendorReserved14'' 0xFD (UT_CA OR UT_CP),
    EncT ''VendorReserved15'' 0xFE (UT_CA OR UT_CP),
    EncT ''VendorReserved16'' 0xFF (UT_CA OR UT_CP),
    EncT ''Event'' 0x200 UT_DV,
    EncT ''EventSensorState'' 0x201 UT_NARY,
    EncT ''EventSensorEvent'' 0x202 UT_NARY,
    EncT ''Property'' 0x300 UT_DV,
    EncT ''PropertyFriendlyName'' 0x301 UT_SV,
    EncT ''PropertyPersistentUniqueId'' 0x302 UT_DV,
    EncT ''PropertySensorStatus'' 0x303 UT_DV,
    EncT ''PropertyMinimumReportInterval'' 0x304 UT_SV,
    EncT ''PropertySensorManufacturer'' 0x305 UT_SV,
    EncT ''PropertySensorModel'' 0x306 UT_SV,
    EncT ''PropertySensorSerialNumber'' 0x307 UT_SV,
    EncT ''PropertySensorDescription'' 0x308 UT_SV,
    EncT ''PropertySensorConnectionType'' 0x309 UT_NARY,
    EncT ''PropertySensorDevicePath'' 0x30A UT_DV,
    EncT ''PropertyHardwareRevision'' 0x30B UT_SV,
    EncT ''PropertyFirmwareVersion'' 0x30C UT_SV,
    EncT ''PropertyReleaseDate'' 0x30D UT_SV,
    EncT ''PropertyReportInterval'' 0x30E UT_DV,
    EncT ''PropertyChangeSensitivityAbsolute'' 0x30F UT_DV,
    EncT ''PropertyChangeSensitivityPercentOfRange'' 0x310 UT_DV,
    EncT ''PropertyChangeSensitivityPercentRelative'' 0x311 UT_DV,
    EncT ''PropertyAccuracy'' 0x312 UT_DV,
    EncT ''PropertyResolution'' 0x313 UT_DV,
    EncT ''PropertyMaximum'' 0x314 UT_DV,
    EncT ''PropertyMinimum'' 0x315 UT_DV,
    EncT ''PropertyReportingState'' 0x316 UT_NARY,
    EncT ''PropertySamplingRate'' 0x317 UT_DV,
    EncT ''PropertyResponseCurve'' 0x318 UT_DV,
    EncT ''PropertyPowerState'' 0x319 UT_NARY,
    EncT ''PropertyMaximumFifoEvents'' 0x31A UT_SV,
    EncT ''PropertyReportLatency'' 0x31B UT_DV,
    EncT ''PropertyFlushFifoEvents'' 0x31C UT_DF,
    EncT ''PropertyMaximumPowerConsumption'' 0x31D UT_DV,
    EncT ''PropertyIsPrimary'' 0x31E UT_DF,
    EncT ''DataFieldLocation'' 0x400 UT_DV,
    EncT ''DataFieldAltitudeAntennaSeaLevel'' 0x402 UT_SV,
    EncT ''DataFieldDifferentialReferenceStationId'' 0x403 UT_SV,
    EncT ''DataFieldAltitudeEllipsoidError'' 0x404 UT_SV,
    EncT ''DataFieldAltitudeEllipsoid'' 0x405 UT_SV,
    EncT ''DataFieldAltitudeSeaLevelError'' 0x406 UT_SV,
    EncT ''DataFieldAltitudeSeaLevel'' 0x407 UT_SV,
    EncT ''DataFieldDifferentialGpsDataAge'' 0x408 UT_SV,
    EncT ''DataFieldErrorRadius'' 0x409 UT_SV,
    EncT ''DataFieldFixQuality'' 0x40A UT_NARY,
    EncT ''DataFieldFixType'' 0x40B UT_NARY,
    EncT ''DataFieldGeoidalSeparation'' 0x40C UT_SV,
    EncT ''DataFieldGpsOperationMode'' 0x40D UT_NARY,
    EncT ''DataFieldGpsSelectionMode'' 0x40E UT_NARY,
    EncT ''DataFieldGpsStatus'' 0x40F UT_NARY,
    EncT ''DataFieldPositionDilutionOfPrecision'' 0x410 UT_SV,
    EncT ''DataFieldHorizontalDilutionOfPrecision'' 0x411 UT_SV,
    EncT ''DataFieldVerticalDilutionOfPrecision'' 0x412 UT_SV,
    EncT ''DataFieldLatitude'' 0x413 UT_SV,
    EncT ''DataFieldLongitude'' 0x414 UT_SV,
    EncT ''DataFieldTrueHeading'' 0x415 UT_SV,
    EncT ''DataFieldMagneticHeading'' 0x416 UT_SV,
    EncT ''DataFieldMagneticVariation'' 0x417 UT_SV,
    EncT ''DataFieldSpeed'' 0x418 UT_SV,
    EncT ''DataFieldSatellitesInView'' 0x419 UT_SV,
    EncT ''DataFieldSatellitesInViewAzimuth'' 0x41A UT_SV,
    EncT ''DataFieldSatellitesInViewElevation'' 0x41B UT_SV,
    EncT ''DataFieldSatellitesInViewIds'' 0x41C UT_SV,
    EncT ''DataFieldSatellitesInViewPrns'' 0x41D UT_SV,
    EncT ''DataFieldSatellitesInViewSnRatio'' 0x41E UT_SV,
    EncT ''DataFieldSatellitesUsedCount'' 0x41F UT_SV,
    EncT ''DataFieldSatellitesUsedPrns'' 0x420 UT_SV,
    EncT ''DataFieldNmeaSentence'' 0x421 UT_SV,
    EncT ''DataFieldAddressLine1'' 0x422 UT_SV,
    EncT ''DataFieldAddressLine2'' 0x423 UT_SV,
    EncT ''DataFieldCity'' 0x424 UT_SV,
    EncT ''DataFieldStateOrProvince'' 0x425 UT_SV,
    EncT ''DataFieldCountryOrRegion'' 0x426 UT_SV,
    EncT ''DataFieldPostalCode'' 0x427 UT_SV,
    EncT ''PropertyLocation'' 0x42A UT_DV,
    EncT ''PropertyLocationDesiredAccuracy'' 0x42B UT_NARY,
    EncT ''DataFieldEnvironmental'' 0x430 UT_SV,
    EncT ''DataFieldAtmosphericPressure'' 0x431 UT_SV,
    EncT ''DataFieldRelativeHumidity'' 0x433 UT_SV,
    EncT ''DataFieldTemperature'' 0x434 UT_SV,
    EncT ''DataFieldWindDirection'' 0x435 UT_SV,
    EncT ''DataFieldWindSpeed'' 0x436 UT_SV,
    EncT ''DataFieldAirQualityIndex'' 0x437 UT_SV,
    EncT ''DataFieldEquivalentCo2'' 0x438 UT_SV,
    EncT ''DataFieldVolatileOrganicCompoundConcentration'' 0x439 UT_SV,
    EncT ''DataFieldObjectPresence'' 0x43A UT_SF,
    EncT ''DataFieldObjectProximityRange'' 0x43B UT_SV,
    EncT ''DataFieldObjectProximityOutOfRange'' 0x43C UT_SF,
    EncT ''PropertyEnvironmental'' 0x440 UT_SV,
    EncT ''PropertyReferencePressure'' 0x441 UT_SV,
    EncT ''DataFieldMotion'' 0x450 UT_DV,
    EncT ''DataFieldMotionState'' 0x451 UT_SF,
    EncT ''DataFieldAcceleration'' 0x452 UT_SV,
    EncT ''DataFieldAccelerationAxisX'' 0x453 UT_SV,
    EncT ''DataFieldAccelerationAxisY'' 0x454 UT_SV,
    EncT ''DataFieldAccelerationAxisZ'' 0x455 UT_SV,
    EncT ''DataFieldAngularVelocity'' 0x456 UT_SV,
    EncT ''DataFieldAngularVelocityAboutXAxis'' 0x457 UT_SV,
    EncT ''DataFieldAngularVelocityAboutYAxis'' 0x458 UT_SV,
    EncT ''DataFieldAngularVelocityAboutZAxis'' 0x459 UT_SV,
    EncT ''DataFieldAngularPosition'' 0x45A UT_SV,
    EncT ''DataFieldAngularPositionAboutXAxis'' 0x45B UT_SV,
    EncT ''DataFieldAngularPositionAboutYAxis'' 0x45C UT_SV,
    EncT ''DataFieldAngularPositionAboutZAxis'' 0x45D UT_SV,
    EncT ''DataFieldMotionSpeed'' 0x45E UT_SV,
    EncT ''DataFieldMotionIntensity'' 0x45F UT_SV,
    EncT ''DataFieldOrientation'' 0x470 UT_DV,
    EncT ''DataFieldHeading'' 0x471 UT_SV,
    EncT ''DataFieldHeadingXAxis'' 0x472 UT_SV,
    EncT ''DataFieldHeadingYAxis'' 0x473 UT_SV,
    EncT ''DataFieldHeadingZAxis'' 0x474 UT_SV,
    EncT ''DataFieldHeadingCompensatedMagneticNorth'' 0x475 UT_SV,
    EncT ''DataFieldHeadingCompensatedTrueNorth'' 0x476 UT_SV,
    EncT ''DataFieldHeadingMagneticNorth'' 0x477 UT_SV,
    EncT ''DataFieldHeadingTrueNorth'' 0x478 UT_SV,
    EncT ''DataFieldDistance'' 0x479 UT_SV,
    EncT ''DataFieldDistanceXAxis'' 0x47A UT_SV,
    EncT ''DataFieldDistanceYAxis'' 0x47B UT_SV,
    EncT ''DataFieldDistanceZAxis'' 0x47C UT_SV,
    EncT ''DataFieldDistanceOutOfRange'' 0x47D UT_SF,
    EncT ''DataFieldTilt'' 0x47E UT_SV,
    EncT ''DataFieldTiltXAxis'' 0x47F UT_SV,
    EncT ''DataFieldTiltYAxis'' 0x480 UT_SV,
    EncT ''DataFieldTiltZAxis'' 0x481 UT_SV,
    EncT ''DataFieldRotationMatrix'' 0x482 UT_SV,
    EncT ''DataFieldQuaternion'' 0x483 UT_SV,
    EncT ''DataFieldMagneticFlux'' 0x484 UT_SV,
    EncT ''DataFieldMagneticFluxXAxis'' 0x485 UT_SV,
    EncT ''DataFieldMagneticFluxYAxis'' 0x486 UT_SV,
    EncT ''DataFieldMagneticFluxZAxis'' 0x487 UT_SV,
    EncT ''DataFieldMagnetometerAccuracy'' 0x488 UT_NARY,
    EncT ''DataFieldSimpleOrientationDirection'' 0x489 UT_NARY,
    EncT ''DataFieldMechanical'' 0x490 UT_DV,
    EncT ''DataFieldBooleanSwitchState'' 0x491 UT_SF,
    EncT ''DataFieldBooleanSwitchArrayStates'' 0x492 UT_SV,
    EncT ''DataFieldMultivalueSwitchValue'' 0x493 UT_SV,
    EncT ''DataFieldField'' 0x494 UT_SV,
    EncT ''DataFieldAbsolutePressure'' 0x495 UT_SV,
    EncT ''DataFieldGaugePressure'' 0x496 UT_SV,
    EncT ''DataFieldStrain'' 0x497 UT_SV,
    EncT ''DataFieldWeight'' 0x498 UT_SV,
    EncT ''PropertyMechanical'' 0x4A0 UT_DV,
    EncT ''PropertyVibrationState'' 0x4A1 UT_DF,
    EncT ''PropertyForwardVibrationSpeed'' 0x4A2 UT_DV,
    EncT ''PropertyBackwardVibrationSpeed'' 0x4A3 UT_DV,
    EncT ''DataFieldBiometric'' 0x4B0 UT_DV,
    EncT ''DataFieldHumanPresence'' 0x4B1 UT_SF,
    EncT ''DataFieldHumanProximityRange'' 0x4B2 UT_SV,
    EncT ''DataFieldHumanProximityOutOfRange'' 0x4B3 UT_SF,
    EncT ''DataFieldHumanTouchState'' 0x4B4 UT_SF,
    EncT ''DataFieldBloodPressure'' 0x4B5 UT_SV,
    EncT ''DataFieldBloodPressureDiastolic'' 0x4B6 UT_SV,
    EncT ''DataFieldBloodPressureSystolic'' 0x4B7 UT_SV,
    EncT ''DataFieldHeartRate'' 0x4B8 UT_SV,
    EncT ''DataFieldRestingHeartRate'' 0x4B9 UT_SV,
    EncT ''DataFieldHeartbeatInterval'' 0x4BA UT_SV,
    EncT ''DataFieldRespiratoryRate'' 0x4BB UT_SV,
    EncT ''DataFieldSpo2'' 0x4BC UT_SV,
    EncT ''DataFieldLight'' 0x4D0 UT_DV,
    EncT ''DataFieldIlluminance'' 0x4D1 UT_SV,
    EncT ''DataFieldColorTemperature'' 0x4D2 UT_SV,
    EncT ''DataFieldChromaticity'' 0x4D3 UT_SV,
    EncT ''DataFieldChromaticityX'' 0x4D4 UT_SV,
    EncT ''DataFieldChromaticityY'' 0x4D5 UT_SV,
    EncT ''DataFieldConsumerIrSentenceReceive'' 0x4D6 UT_SV,
    EncT ''DataFieldInfraredLight'' 0x4D7 UT_SV,
    EncT ''DataFieldRedLight'' 0x4D8 UT_SV,
    EncT ''DataFieldGreenLight'' 0x4D9 UT_SV,
    EncT ''DataFieldBlueLight'' 0x4DA UT_SV,
    EncT ''DataFieldUltravioletALight'' 0x4DB UT_SV,
    EncT ''DataFieldUltravioletBLight'' 0x4DC UT_SV,
    EncT ''DataFieldUltravioletIndex'' 0x4DD UT_SV,
    EncT ''DataFieldNearInfraredLight'' 0x4DE UT_SV,
    EncT ''PropertyLight'' 0x4DF UT_DV,
    EncT ''PropertyConsumerIrSentenceSend'' 0x4E0 UT_DV,
    EncT ''PropertyAutoBrightnessPreferred'' 0x4E2 UT_DF,
    EncT ''PropertyAutoColorPreferred'' 0x4E3 UT_DF,
    EncT ''DataFieldScanner'' 0x4F0 UT_DV,
    EncT ''DataFieldRfidTag40Bit'' 0x4F1 UT_SV,
    EncT ''DataFieldNfcSentenceReceive'' 0x4F2 UT_SV,
    EncT ''PropertyScanner'' 0x4F8 UT_DV,
    EncT ''PropertyNfcSentenceSend'' 0x4F9 UT_SV,
    EncT ''DataFieldElectrical'' 0x500 UT_SV,
    EncT ''DataFieldCapacitance'' 0x501 UT_SV,
    EncT ''DataFieldCurrent'' 0x502 UT_SV,
    EncT ''DataFieldElectricalPower'' 0x503 UT_SV,
    EncT ''DataFieldInductance'' 0x504 UT_SV,
    EncT ''DataFieldResistance'' 0x505 UT_SV,
    EncT ''DataFieldVoltage'' 0x506 UT_SV,
    EncT ''DataFieldFrequency'' 0x507 UT_SV,
    EncT ''DataFieldPeriod'' 0x508 UT_SV,
    EncT ''DataFieldPercentOfRange'' 0x509 UT_SV,
    EncT ''DataFieldTime'' 0x520 UT_DV,
    EncT ''DataFieldYear'' 0x521 UT_SV,
    EncT ''DataFieldMonth'' 0x522 UT_SV,
    EncT ''DataFieldDay'' 0x523 UT_SV,
    EncT ''DataFieldDayOfWeek'' 0x524 UT_NARY,
    EncT ''DataFieldHour'' 0x525 UT_SV,
    EncT ''DataFieldMinute'' 0x526 UT_SV,
    EncT ''DataFieldSecond'' 0x527 UT_SV,
    EncT ''DataFieldMillisecond'' 0x528 UT_SV,
    EncT ''DataFieldTimestamp'' 0x529 UT_SV,
    EncT ''DataFieldJulianDayOfYear'' 0x52A UT_SV,
    EncT ''DataFieldTimeSinceSystemBoot'' 0x52B UT_SV,
    EncT ''PropertyTime'' 0x530 UT_DV,
    EncT ''PropertyTimeZoneOffsetFromUtc'' 0x531 UT_DV,
    EncT ''PropertyTimeZoneName'' 0x532 UT_DV,
    EncT ''PropertyDaylightSavingsTimeObserved'' 0x533 UT_DF,
    EncT ''PropertyTimeTrimAdjustment'' 0x534 UT_DV,
    EncT ''PropertyArmAlarm'' 0x535 UT_DF,
    EncT ''DataFieldCustom'' 0x540 UT_DV,
    EncT ''DataFieldCustomUsage'' 0x541 UT_SV,
    EncT ''DataFieldCustomBooleanArray'' 0x542 UT_SV,
    EncT ''DataFieldCustomValue'' 0x543 UT_SV,
    EncT ''DataFieldCustomValue1'' 0x544 UT_SV,
    EncT ''DataFieldCustomValue2'' 0x545 UT_SV,
    EncT ''DataFieldCustomValue3'' 0x546 UT_SV,
    EncT ''DataFieldCustomValue4'' 0x547 UT_SV,
    EncT ''DataFieldCustomValue5'' 0x548 UT_SV,
    EncT ''DataFieldCustomValue6'' 0x549 UT_SV,
    EncT ''DataFieldCustomValue7'' 0x54A UT_SV,
    EncT ''DataFieldCustomValue8'' 0x54B UT_SV,
    EncT ''DataFieldCustomValue9'' 0x54C UT_SV,
    EncT ''DataFieldCustomValue10'' 0x54D UT_SV,
    EncT ''DataFieldCustomValue11'' 0x54E UT_SV,
    EncT ''DataFieldCustomValue12'' 0x54F UT_SV,
    EncT ''DataFieldCustomValue13'' 0x550 UT_SV,
    EncT ''DataFieldCustomValue14'' 0x551 UT_SV,
    EncT ''DataFieldCustomValue15'' 0x552 UT_SV,
    EncT ''DataFieldCustomValue16'' 0x553 UT_SV,
    EncT ''DataFieldCustomValue17'' 0x554 UT_SV,
    EncT ''DataFieldCustomValue18'' 0x555 UT_SV,
    EncT ''DataFieldCustomValue19'' 0x556 UT_SV,
    EncT ''DataFieldCustomValue20'' 0x557 UT_SV,
    EncT ''DataFieldCustomValue21'' 0x558 UT_SV,
    EncT ''DataFieldCustomValue22'' 0x559 UT_SV,
    EncT ''DataFieldCustomValue23'' 0x55A UT_SV,
    EncT ''DataFieldCustomValue24'' 0x55B UT_SV,
    EncT ''DataFieldCustomValue25'' 0x55C UT_SV,
    EncT ''DataFieldCustomValue26'' 0x55D UT_SV,
    EncT ''DataFieldCustomValue27'' 0x55E UT_SV,
    EncT ''DataFieldCustomValue28'' 0x55F UT_SV,
    EncT ''DataFieldGeneric'' 0x560 UT_DV,
    EncT ''DataFieldGenericGuidOrPropertykey'' 0x561 UT_SV,
    EncT ''DataFieldGenericCategoryGuid'' 0x562 UT_SV,
    EncT ''DataFieldGenericTypeGuid'' 0x563 UT_SV,
    EncT ''DataFieldGenericEventPropertykey'' 0x564 UT_SV,
    EncT ''DataFieldGenericPropertyPropertykey'' 0x565 UT_SV,
    EncT ''DataFieldGenericDataFieldPropertykey'' 0x566 UT_SV,
    EncT ''DataFieldGenericEvent'' 0x567 UT_SV,
    EncT ''DataFieldGenericProperty'' 0x568 UT_SV,
    EncT ''DataFieldGenericDataField'' 0x569 UT_SV,
    EncT ''DataFieldEnumeratorTableRowIndex'' 0x56A UT_SV,
    EncT ''DataFieldEnumeratorTableRowCount'' 0x56B UT_SV,
    EncT ''DataFieldGenericGuidOrPropertykeyKind'' 0x56C UT_NARY,
    EncT ''DataFieldGenericGuid'' 0x56D UT_SV,
    EncT ''DataFieldGenericPropertykey'' 0x56E UT_SV,
    EncT ''DataFieldGenericTopLevelCollectionId'' 0x56F UT_SV,
    EncT ''DataFieldGenericReportId'' 0x570 UT_SV,
    EncT ''DataFieldGenericReportItemPositionIndex'' 0x571 UT_SV,
    EncT ''DataFieldGenericFirmwareVartype'' 0x572 UT_NARY,
    EncT ''DataFieldGenericUnitOfMessure'' 0x573 UT_NARY,
    EncT ''DataFieldGenericUnitExponent'' 0x574 UT_NARY,
    EncT ''DataFieldGenericReportSize'' 0x575 UT_SV,
    EncT ''DataFieldGenericReportCount'' 0x576 UT_SV,
    EncT ''PropertyGeneric'' 0x580 UT_DV,
    EncT ''PropertyEnumeratorTableRowIndex'' 0x581 UT_DV,
    EncT ''PropertyEnumeratorTableRowCount'' 0x582 UT_SV,
    EncT ''DataFieldPersonalActivity'' 0x590 UT_DV,
    EncT ''DataFieldActivityType'' 0x591 UT_NARY,
    EncT ''DataFieldActivityState'' 0x592 UT_NARY,
    EncT ''DataFieldDevicePosition'' 0x593 UT_NARY,
    EncT ''DataFieldStepCount'' 0x594 UT_SV,
    EncT ''DataFieldStepCountReset'' 0x595 UT_DF,
    EncT ''DataFieldStepDuration'' 0x596 UT_SV,
    EncT ''DataFieldStepType'' 0x597 UT_NARY,
    EncT ''PropertyMinimumActivityDetectionInterval'' 0x5A0 UT_DV,
    EncT ''PropertySupportedActivityTypes'' 0x5A1 UT_NARY,
    EncT ''PropertySubscribedActivityTypes'' 0x5A2 UT_NARY,
    EncT ''PropertySupportedStepTypes'' 0x5A3 UT_NARY,
    EncT ''PropertySubscribedStepTypes'' 0x5A4 UT_NARY,
    EncT ''PropertyFloorHeight'' 0x5A5 UT_DV,
    EncT ''DataFieldCustomTypeId'' 0x5B0 UT_SV,
    EncT ''PropertyCustom'' 0x5C0 UT_DV,
    EncT ''PropertyCustomValue1'' 0x5C1 UT_DV,
    EncT ''PropertyCustomValue2'' 0x5C2 UT_DV,
    EncT ''PropertyCustomValue3'' 0x5C3 UT_DV,
    EncT ''PropertyCustomValue4'' 0x5C4 UT_DV,
    EncT ''PropertyCustomValue5'' 0x5C5 UT_DV,
    EncT ''PropertyCustomValue6'' 0x5C6 UT_DV,
    EncT ''PropertyCustomValue7'' 0x5C7 UT_DV,
    EncT ''PropertyCustomValue8'' 0x5C8 UT_DV,
    EncT ''PropertyCustomValue9'' 0x5C9 UT_DV,
    EncT ''PropertyCustomValue10'' 0x5CA UT_DV,
    EncT ''PropertyCustomValue11'' 0x5CB UT_DV,
    EncT ''PropertyCustomValue12'' 0x5CC UT_DV,
    EncT ''PropertyCustomValue13'' 0x5CD UT_DV,
    EncT ''PropertyCustomValue14'' 0x5CE UT_DV,
    EncT ''PropertyCustomValue15'' 0x5CF UT_DV,
    EncT ''PropertyCustomValue16'' 0x5D0 UT_DV,
    EncT ''DataFieldHinge'' 0x5E0 (UT_SV OR UT_DV),
    EncT ''DataFieldHingeAngle'' 0x5E1 (UT_SV OR UT_DV),
    EncT ''DataFieldGestureSensor'' 0x5F0 UT_DV,
    EncT ''DataFieldGestureState'' 0x5F1 UT_NARY,
    EncT ''DataFieldHingeFoldInitialAngle'' 0x5F2 UT_SV,
    EncT ''DataFieldHingeFoldFinalAngle'' 0x5F3 UT_SV,
    EncT ''DataFieldHingeFoldContributionPanel'' 0x5F4 UT_NARY,
    EncT ''DataFieldHingeFoldType'' 0x5F5 UT_NARY,
    EncT ''SensorStateUndefined'' 0x800 UT_SEL,
    EncT ''SensorStateReady'' 0x801 UT_SEL,
    EncT ''SensorStateNotAvailable'' 0x802 UT_SEL,
    EncT ''SensorStateNoData'' 0x803 UT_SEL,
    EncT ''SensorStateInitializing'' 0x804 UT_SEL,
    EncT ''SensorStateAccessDenied'' 0x805 UT_SEL,
    EncT ''SensorStateError'' 0x806 UT_SEL,
    EncT ''SensorEventUnknown'' 0x810 UT_SEL,
    EncT ''SensorEventStateChanged'' 0x811 UT_SEL,
    EncT ''SensorEventPropertyChanged'' 0x812 UT_SEL,
    EncT ''SensorEventDataUploaded'' 0x813 UT_SEL,
    EncT ''SensorEventPollResponse'' 0x814 UT_SEL,
    EncT ''SensorEventChangeSensitivity'' 0x815 UT_SEL,
    EncT ''SensorEventRangeMaximumReached'' 0x816 UT_SEL,
    EncT ''SensorEventRangeMinimumReached'' 0x817 UT_SEL,
    EncT ''SensorEventHighThresholdCrossUpward'' 0x818 UT_SEL,
    EncT ''SensorEventHighThresholdCrossDownward'' 0x819 UT_SEL,
    EncT ''SensorEventLowThresholdCrossUpward'' 0x81A UT_SEL,
    EncT ''SensorEventLowThresholdCrossDownward'' 0x81B UT_SEL,
    EncT ''SensorEventZeroThresholdCrossUpward'' 0x81C UT_SEL,
    EncT ''SensorEventZeroThresholdCrossDownward'' 0x81D UT_SEL,
    EncT ''SensorEventPeriodExceeded'' 0x81E UT_SEL,
    EncT ''SensorEventFrequencyExceeded'' 0x81F UT_SEL,
    EncT ''SensorEventComplexTrigger'' 0x820 UT_SEL,
    EncT ''ConnectionTypePcIntegrated'' 0x830 UT_SEL,
    EncT ''ConnectionTypePcAttached'' 0x831 UT_SEL,
    EncT ''ConnectionTypePcExternal'' 0x832 UT_SEL,
    EncT ''ReportingStateReportNoEvents'' 0x840 UT_SEL,
    EncT ''ReportingStateReportAllEvents'' 0x841 UT_SEL,
    EncT ''ReportingStateReportThresholdEvents'' 0x842 UT_SEL,
    EncT ''ReportingStateWakeOnNoEvents'' 0x843 UT_SEL,
    EncT ''ReportingStateWakeOnAllEvents'' 0x844 UT_SEL,
    EncT ''ReportingStateWakeOnThresholdEvents'' 0x845 UT_SEL,
    EncT ''PowerStateUndefined'' 0x850 UT_SEL,
    EncT ''PowerStateD0FullPower'' 0x851 UT_SEL,
    EncT ''PowerStateD1LowPower'' 0x852 UT_SEL,
    EncT ''PowerStateD2StandbyPowerWithWakeup'' 0x853 UT_SEL,
    EncT ''PowerStateD3SleepWithWakeup'' 0x854 UT_SEL,
    EncT ''PowerStateD4PowerOff'' 0x855 UT_SEL,
    EncT ''FixQualityNoFix'' 0x870 UT_SEL,
    EncT ''FixQualityGps'' 0x871 UT_SEL,
    EncT ''FixQualityDgps'' 0x872 UT_SEL,
    EncT ''FixTypeNoFix'' 0x880 UT_SEL,
    EncT ''FixTypeGpsSpsModeFixValid'' 0x881 UT_SEL,
    EncT ''FixTypeDgpsSpsModeFixValid'' 0x882 UT_SEL,
    EncT ''FixTypeGpsPpsModeFixValid'' 0x883 UT_SEL,
    EncT ''FixTypeRealTimeKinematic'' 0x884 UT_SEL,
    EncT ''FixTypeFloatRtk'' 0x885 UT_SEL,
    EncT ''FixTypeEstimatedDeadReckoned'' 0x886 UT_SEL,
    EncT ''FixTypeManualInputMode'' 0x887 UT_SEL,
    EncT ''FixTypeSimulatorMode'' 0x888 UT_SEL,
    EncT ''GpsOperationModeManual'' 0x890 UT_SEL,
    EncT ''GpsOperationModeAutomatic'' 0x891 UT_SEL,
    EncT ''GpsSelectionModeAutonomous'' 0x8A0 UT_SEL,
    EncT ''GpsSelectionModeDgps'' 0x8A1 UT_SEL,
    EncT ''GpsSelectionModeEstimatedDeadReckoned'' 0x8A2 UT_SEL,
    EncT ''GpsSelectionModeManualInput'' 0x8A3 UT_SEL,
    EncT ''GpsSelectionModeSimulator'' 0x8A4 UT_SEL,
    EncT ''GpsSelectionModeDataNotValid'' 0x8A5 UT_SEL,
    EncT ''GpsStatusDataValid'' 0x8B0 UT_SEL,
    EncT ''GpsStatusDataNotValid'' 0x8B1 UT_SEL,
    EncT ''AccuracyDefault'' 0x860 UT_SEL,
    EncT ''AccuracyHigh'' 0x861 UT_SEL,
    EncT ''AccuracyMedium'' 0x862 UT_SEL,
    EncT ''AccuracyLow'' 0x863 UT_SEL,
    EncT ''DayOfWeekSunday'' 0x8C0 UT_SEL,
    EncT ''DayOfWeekMonday'' 0x8C1 UT_SEL,
    EncT ''DayOfWeekTuesday'' 0x8C2 UT_SEL,
    EncT ''DayOfWeekWednesday'' 0x8C3 UT_SEL,
    EncT ''DayOfWeekThursday'' 0x8C4 UT_SEL,
    EncT ''DayOfWeekFriday'' 0x8C5 UT_SEL,
    EncT ''DayOfWeekSaturday'' 0x8C6 UT_SEL,
    EncT ''KindCategory'' 0x8D0 UT_SEL,
    EncT ''KindType'' 0x8D1 UT_SEL,
    EncT ''KindEvent'' 0x8D2 UT_SEL,
    EncT ''KindProperty'' 0x8D3 UT_SEL,
    EncT ''KindDataField'' 0x8D4 UT_SEL,
    EncT ''MagnetometerAccuracyLow'' 0x8E0 UT_SEL,
    EncT ''MagnetometerAccuracyMedium'' 0x8E1 UT_SEL,
    EncT ''MagnetometerAccuracyHigh'' 0x8E2 UT_SEL,
    EncT ''SimpleOrientationDirectionNotRotated'' 0x8F0 UT_SEL,
    EncT ''SimpleOrientationDirectionRotated90DegreesCcw'' 0x8F1 UT_SEL,
    EncT ''SimpleOrientationDirectionRotated180DegreesCcw'' 0x8F2 UT_SEL,
    EncT ''SimpleOrientationDirectionRotated270DegreesCcw'' 0x8F3 UT_SEL,
    EncT ''SimpleOrientationDirectionFaceUp'' 0x8F4 UT_SEL,
    EncT ''SimpleOrientationDirectionFaceDown'' 0x8F5 UT_SEL,
    EncT ''VtNull'' 0x900 UT_SEL,
    EncT ''VtBool'' 0x901 UT_SEL,
    EncT ''VtUi1'' 0x902 UT_SEL,
    EncT ''VtI1'' 0x903 UT_SEL,
    EncT ''VtUi2'' 0x904 UT_SEL,
    EncT ''VtI2'' 0x905 UT_SEL,
    EncT ''VtUi4'' 0x906 UT_SEL,
    EncT ''VtI4'' 0x907 UT_SEL,
    EncT ''VtUi8'' 0x908 UT_SEL,
    EncT ''VtI8'' 0x909 UT_SEL,
    EncT ''VtR4'' 0x90A UT_SEL,
    EncT ''VtR8'' 0x90B UT_SEL,
    EncT ''VtWstr'' 0x90C UT_SEL,
    EncT ''VtStr'' 0x90D UT_SEL,
    EncT ''VtClsid'' 0x90E UT_SEL,
    EncT ''VtVectorVtUi1'' 0x90F UT_SEL,
    EncT ''VtF16E0'' 0x910 UT_SEL,
    EncT ''VtF16E1'' 0x911 UT_SEL,
    EncT ''VtF16E2'' 0x912 UT_SEL,
    EncT ''VtF16E3'' 0x913 UT_SEL,
    EncT ''VtF16E4'' 0x914 UT_SEL,
    EncT ''VtF16E5'' 0x915 UT_SEL,
    EncT ''VtF16E6'' 0x916 UT_SEL,
    EncT ''VtF16E7'' 0x917 UT_SEL,
    EncT ''VtF16E8'' 0x918 UT_SEL,
    EncT ''VtF16E9'' 0x919 UT_SEL,
    EncT ''VtF16EA'' 0x91A UT_SEL,
    EncT ''VtF16EB'' 0x91B UT_SEL,
    EncT ''VtF16EC'' 0x91C UT_SEL,
    EncT ''VtF16ED'' 0x91D UT_SEL,
    EncT ''VtF16EE'' 0x91E UT_SEL,
    EncT ''VtF16EF'' 0x91F UT_SEL,
    EncT ''VtF32E0'' 0x920 UT_SEL,
    EncT ''VtF32E1'' 0x921 UT_SEL,
    EncT ''VtF32E2'' 0x922 UT_SEL,
    EncT ''VtF32E3'' 0x923 UT_SEL,
    EncT ''VtF32E4'' 0x924 UT_SEL,
    EncT ''VtF32E5'' 0x925 UT_SEL,
    EncT ''VtF32E6'' 0x926 UT_SEL,
    EncT ''VtF32E7'' 0x927 UT_SEL,
    EncT ''VtF32E8'' 0x928 UT_SEL,
    EncT ''VtF32E9'' 0x929 UT_SEL,
    EncT ''VtF32EA'' 0x92A UT_SEL,
    EncT ''VtF32EB'' 0x92B UT_SEL,
    EncT ''VtF32EC'' 0x92C UT_SEL,
    EncT ''VtF32ED'' 0x92D UT_SEL,
    EncT ''VtF32EE'' 0x92E UT_SEL,
    EncT ''VtF32EF'' 0x92F UT_SEL,
    EncT ''ActivityTypeUnknown'' 0x930 UT_SEL,
    EncT ''ActivityTypeStationary'' 0x931 UT_SEL,
    EncT ''ActivityTypeFidgeting'' 0x932 UT_SEL,
    EncT ''ActivityTypeWalking'' 0x933 UT_SEL,
    EncT ''ActivityTypeRunning'' 0x934 UT_SEL,
    EncT ''ActivityTypeInVehicle'' 0x935 UT_SEL,
    EncT ''ActivityTypeBiking'' 0x936 UT_SEL,
    EncT ''ActivityTypeIdle'' 0x937 UT_SEL,
    EncT ''UnitNotSpecified'' 0x940 UT_SEL,
    EncT ''UnitLux'' 0x941 UT_SEL,
    EncT ''UnitDegreesKelvin'' 0x942 UT_SEL,
    EncT ''UnitDegreesCelsius'' 0x943 UT_SEL,
    EncT ''UnitPascal'' 0x944 UT_SEL,
    EncT ''UnitNewton'' 0x945 UT_SEL,
    EncT ''UnitMetersPerSecond'' 0x946 UT_SEL,
    EncT ''UnitKilogram'' 0x947 UT_SEL,
    EncT ''UnitMeter'' 0x948 UT_SEL,
    EncT ''UnitMetersPerSecondSquared'' 0x949 UT_SEL,
    EncT ''UnitFarad'' 0x94A UT_SEL,
    EncT ''UnitAmpere'' 0x94B UT_SEL,
    EncT ''UnitWatt'' 0x94C UT_SEL,
    EncT ''UnitHenry'' 0x94D UT_SEL,
    EncT ''UnitOhm'' 0x94E UT_SEL,
    EncT ''UnitVolt'' 0x94F UT_SEL,
    EncT ''UnitHerz'' 0x950 UT_SEL,
    EncT ''UnitBar'' 0x951 UT_SEL,
    EncT ''UnitDegreesAntiClockwise'' 0x952 UT_SEL,
    EncT ''UnitDegreesClockwise'' 0x953 UT_SEL,
    EncT ''UnitDegrees'' 0x954 UT_SEL,
    EncT ''UnitDegreesPerSecond'' 0x955 UT_SEL,
    EncT ''UnitDegreesPerSecondSquared'' 0x956 UT_SEL,
    EncT ''UnitKnot'' 0x957 UT_SEL,
    EncT ''UnitPercent'' 0x958 UT_SEL,
    EncT ''UnitSecond'' 0x959 UT_SEL,
    EncT ''UnitMillisecond'' 0x95A UT_SEL,
    EncT ''UnitG'' 0x95B UT_SEL,
    EncT ''UnitBytes'' 0x95C UT_SEL,
    EncT ''UnitMilligauss'' 0x95D UT_SEL,
    EncT ''UnitBits'' 0x95E UT_SEL,
    EncT ''ActivityStateNoStateChange'' 0x960 UT_SEL,
    EncT ''ActivityStateStartActivity'' 0x961 UT_SEL,
    EncT ''ActivityStateEndActivity'' 0x962 UT_SEL,
    EncT ''Exponent0'' 0x970 UT_SEL,
    EncT ''Exponent1'' 0x971 UT_SEL,
    EncT ''Exponent2'' 0x972 UT_SEL,
    EncT ''Exponent3'' 0x973 UT_SEL,
    EncT ''Exponent4'' 0x974 UT_SEL,
    EncT ''Exponent5'' 0x975 UT_SEL,
    EncT ''Exponent6'' 0x976 UT_SEL,
    EncT ''Exponent7'' 0x977 UT_SEL,
    EncT ''Exponent8'' 0x978 UT_SEL,
    EncT ''Exponent9'' 0x979 UT_SEL,
    EncT ''ExponentA'' 0x97A UT_SEL,
    EncT ''ExponentB'' 0x97B UT_SEL,
    EncT ''ExponentC'' 0x97C UT_SEL,
    EncT ''ExponentD'' 0x97D UT_SEL,
    EncT ''ExponentE'' 0x97E UT_SEL,
    EncT ''ExponentF'' 0x97F UT_SEL,
    EncT ''DevicePositionUnknown'' 0x980 UT_SEL,
    EncT ''DevicePositionUnchanged'' 0x981 UT_SEL,
    EncT ''DevicePositionOnDesk'' 0x982 UT_SEL,
    EncT ''DevicePositionInHand'' 0x983 UT_SEL,
    EncT ''DevicePositionMovingInBag'' 0x984 UT_SEL,
    EncT ''DevicePositionStationaryInBag'' 0x985 UT_SEL,
    EncT ''StepTypeUnknown'' 0x990 UT_SEL,
    EncT ''StepTypeRunning'' 0x991 UT_SEL,
    EncT ''StepTypeWalking'' 0x992 UT_SEL,
    EncT ''GestureStateUnknown'' 0x9A0 UT_SEL,
    EncT ''GestureStateStarted'' 0x9A1 UT_SEL,
    EncT ''GestureStateCompleted'' 0x9A2 UT_SEL,
    EncT ''GestureStateCancelled'' 0x9A3 UT_SEL,
    EncT ''HingeFoldContributionPanelUnknown'' 0x9B0 UT_SEL,
    EncT ''HingeFoldContributionPanelPanel1'' 0x9B1 UT_SEL,
    EncT ''HingeFoldContributionPanelPanel2'' 0x9B2 UT_SEL,
    EncT ''HingeFoldContributionPanelBoth'' 0x9B3 UT_SEL,
    EncT ''HingeFoldTypeUnknown'' 0x9B4 UT_SEL,
    EncT ''HingeFoldTypeIncreasing'' 0x9B5 UT_SEL,
    EncT ''HingeFoldTypeDecreasing'' 0x9B6 UT_SEL,
    EncT ''ModifierChangeSensitivityAbsolute'' 0x1000 UT_US,
    EncT ''ModifierMaximum'' 0x2000 UT_US,
    EncT ''ModifierMinimum'' 0x3000 UT_US,
    EncT ''ModifierAccuracy'' 0x4000 UT_US,
    EncT ''ModifierResolution'' 0x5000 UT_US,
    EncT ''ModifierThresholdHigh'' 0x6000 UT_US,
    EncT ''ModifierThresholdLow'' 0x7000 UT_US,
    EncT ''ModifierCalibrationOffset'' 0x8000 UT_US,
    EncT ''ModifierCalibrationMultiplier'' 0x9000 UT_US,
    EncT ''ModifierReportInterval'' 0xA000 UT_US,
    EncT ''ModifierFrequencyMax'' 0xB000 UT_US,
    EncT ''ModifierPeriodMax'' 0xC000 UT_US,
    EncT ''ModifierChangeSensitivityPercentOfRange'' 0xD000 UT_US,
    EncT ''ModifierChangeSensitivityPercentRelative'' 0xE000 UT_US,
    EncT ''ModifierVendorReserved'' 0xF000 UT_US
  ]"

definition medInstMap_entries :: "Encoding list" where
  "medInstMap_entries = [
    EncT ''MedicalUlrasound'' 0x01 UT_CA,
    EncT ''VcrAcquisition'' 0x20 UT_OOC,
    EncT ''FreezeThaw'' 0x21 UT_OOC,
    EncT ''ClipStore'' 0x22 UT_OSC,
    EncT ''Update'' 0x23 UT_OSC,
    EncT ''Next'' 0x24 UT_OSC,
    EncT ''Save'' 0x25 UT_OSC,
    EncT ''Print'' 0x26 UT_OSC,
    EncT ''MicrophoneEnable'' 0x27 UT_OSC,
    EncT ''Cine'' 0x40 UT_LC,
    EncT ''TransmitPower'' 0x41 UT_LC,
    EncT ''Volume'' 0x42 UT_LC,
    EncT ''Focus'' 0x43 UT_LC,
    EncT ''Depth'' 0x44 UT_LC,
    EncT ''SoftStepPrimary'' 0x60 UT_LC,
    EncT ''SoftStepSecondary'' 0x61 UT_LC,
    EncT ''DepthGainCompensation'' 0x70 UT_LC,
    EncT ''ZoomSelect'' 0x80 UT_OSC,
    EncT ''ZoomAdjust'' 0x81 UT_LC,
    EncT ''SpectralDopplerModeSelect'' 0x82 UT_OSC,
    EncT ''SpectralDopplerAdjust'' 0x83 UT_LC,
    EncT ''ColorDopplerModeSelect'' 0x84 UT_OSC,
    EncT ''ColorDopplerAdjust'' 0x85 UT_LC,
    EncT ''MotionModeSelect'' 0x86 UT_OSC,
    EncT ''MotionModeAdjust'' 0x87 UT_LC,
    EncT ''Mode2dSelect'' 0x88 UT_OSC,
    EncT ''Mode2dAdjust'' 0x89 UT_LC,
    EncT ''SoftControlSelect'' 0xA0 UT_OSC,
    EncT ''SoftControlAdjust'' 0xA1 UT_LC
  ]"

definition brailleMap_entries :: "Encoding list" where
  "brailleMap_entries = [
    EncT ''BrailleDisplay'' 0x01 UT_CA,
    EncT ''BrailleRow'' 0x02 UT_NARY,
    EncT ''Dot8BrailleCell'' 0x03 UT_DV,
    EncT ''Dot6BrailleCell'' 0x04 UT_DV,
    EncT ''NumberOfBrailleCells'' 0x05 UT_DV,
    EncT ''ScreenReaderControl'' 0x06 UT_NARY,
    EncT ''ScreenReaderIdentifier'' 0x07 UT_DV,
    EncT ''RouterSet1'' 0xFA UT_NARY,
    EncT ''RouterSet2'' 0xFB UT_NARY,
    EncT ''RouterSet3'' 0xFC UT_NARY,
    EncT ''RouterKey'' 0x100 UT_SEL,
    EncT ''RowRouterKey'' 0x101 UT_SEL,
    EncT ''BrailleButtons'' 0x200 UT_NARY,
    EncT ''BrailleKeyboardDot1'' 0x201 UT_SEL,
    EncT ''BrailleKeyboardDot2'' 0x202 UT_SEL,
    EncT ''BrailleKeyboardDot3'' 0x203 UT_SEL,
    EncT ''BrailleKeyboardDot4'' 0x204 UT_SEL,
    EncT ''BrailleKeyboardDot5'' 0x205 UT_SEL,
    EncT ''BrailleKeyboardDot6'' 0x206 UT_SEL,
    EncT ''BrailleKeyboardDot7'' 0x207 UT_SEL,
    EncT ''BrailleKeyboardDot8'' 0x208 UT_SEL,
    EncT ''BrailleKeyboardSpace'' 0x209 UT_SEL,
    EncT ''BrailleKeyboardLeftSpace'' 0x20A UT_SEL,
    EncT ''BrailleKeyboardRightSpace'' 0x20B UT_SEL,
    EncT ''BrailleFaceConrols'' 0x20C UT_NARY,
    EncT ''BrailleLeftControls'' 0x20D UT_NARY,
    EncT ''BrailleRightControls'' 0x20E UT_NARY,
    EncT ''BrailleTopControls'' 0x20F UT_NARY,
    EncT ''BrailleJoystickCenter'' 0x210 UT_SEL,
    EncT ''BrailleJoystickUp'' 0x211 UT_SEL,
    EncT ''BrailleJoystickDown'' 0x212 UT_SEL,
    EncT ''BrailleJoystickLeft'' 0x213 UT_SEL,
    EncT ''BrailleJoystickRight'' 0x214 UT_SEL,
    EncT ''BrailleDPadCenter'' 0x215 UT_SEL,
    EncT ''BrailleDPadUp'' 0x216 UT_SEL,
    EncT ''BrailleDPadDown'' 0x217 UT_SEL,
    EncT ''BrailleDPadLeft'' 0x218 UT_SEL,
    EncT ''BrailleDPadRight'' 0x219 UT_SEL,
    EncT ''BraillePanLeft'' 0x21A UT_SEL,
    EncT ''BraillePanRight'' 0x21B UT_SEL,
    EncT ''BrailleRockerUp'' 0x21C UT_SEL,
    EncT ''BrailleRockerDown'' 0x21D UT_SEL,
    EncT ''BrailleRockerPress'' 0x21E UT_SEL
  ]"

definition lightMap_entries :: "Encoding list" where
  "lightMap_entries = [
    EncT ''LampArray'' 0x01 UT_CA,
    EncT ''LampArrayAttributesReport'' 0x02 UT_CL,
    EncT ''LampCount'' 0x03 (UT_SV OR UT_DV),
    EncT ''BoundingBoxWidthInMicrometers'' 0x04 UT_SV,
    EncT ''BoundingBoxHeightInMicrometers'' 0x05 UT_SV,
    EncT ''BoundingBoxDepthInMicrometers'' 0x06 UT_SV,
    EncT ''LampArrayKind'' 0x07 UT_SV,
    EncT ''MinUpdateIntervalInMicroseconds'' 0x08 UT_SV,
    EncT ''LampAtributesRequestReport'' 0x20 UT_CL,
    EncT ''LampId'' 0x21 (UT_SV OR UT_DV),
    EncT ''LampAtributesResponseReport'' 0x22 UT_CL,
    EncT ''PositionXInMicrometers'' 0x23 UT_DV,
    EncT ''PositionYInMicrometers'' 0x24 UT_DV,
    EncT ''PositionZInMicrometers'' 0x25 UT_DV,
    EncT ''LampPurposes'' 0x26 UT_DV,
    EncT ''UpdateLatencyInMicroseconds'' 0x27 UT_DV,
    EncT ''RedLevelCount'' 0x28 UT_DV,
    EncT ''GreenLevelCount'' 0x29 UT_DV,
    EncT ''BlueLevelCount'' 0x2A UT_DV,
    EncT ''IntensityLevelCount'' 0x2B UT_DV,
    EncT ''IsProgrammable'' 0x2C UT_DV,
    EncT ''InputBinding'' 0x2D UT_DV,
    EncT ''LampMultiUpdateReport'' 0x50 UT_CL,
    EncT ''RedUpdateChannel'' 0x51 UT_DV,
    EncT ''GreenUpdateChannel'' 0x52 UT_DV,
    EncT ''BlueUpdateChannel'' 0x53 UT_DV,
    EncT ''IntensityUpdateChannel'' 0x54 UT_DV,
    EncT ''LampUpdateFlags'' 0x55 UT_DV,
    EncT ''LampRangeUpdateReport'' 0x60 UT_CL,
    EncT ''LampIdStart'' 0x61 UT_DV,
    EncT ''LampIdEnd'' 0x62 UT_DV,
    EncT ''LampArrayControlReport'' 0x70 UT_CL,
    EncT ''AutonomousMode'' 0x71 UT_DV
  ]"

definition monitorMap_entries :: "Encoding list" where
  "monitorMap_entries = [
    Enc ''MonitorControl'' 0x01,
    Enc ''EdidInformation'' 0x02,
    Enc ''VdifInformation'' 0x03,
    Enc ''VesaVersion'' 0x04
  ]"

definition monitorEnumMap_entries :: "Encoding list" where
  "monitorEnumMap_entries = [
    Enc ''Enum#'' 0x00,
    Enc ''Enum#'' 0x3E
  ]"

definition vesaCtrlMap_entries :: "Encoding list" where
  "vesaCtrlMap_entries = [
    Enc ''Brightness'' 0x10,
    Enc ''Contrast'' 0x12,
    Enc ''RedVideoGain'' 0x16,
    Enc ''GreenVideoGain'' 0x18,
    Enc ''BlueVideoGain'' 0x1A,
    Enc ''Focus'' 0x1C,
    Enc ''HorizontalPosition'' 0x20,
    Enc ''HorizontalSize'' 0x22,
    Enc ''HorizontalPincushion'' 0x24,
    Enc ''HorizontalPincushionBalance'' 0x26,
    Enc ''HorizontalMisconvergence'' 0x28,
    Enc ''HorizontalLinearity'' 0x2A,
    Enc ''HorizontalLinearityBalance'' 0x2C,
    Enc ''VerticalPosition'' 0x30,
    Enc ''VerticalSize'' 0x32,
    Enc ''VerticalPincushion'' 0x34,
    Enc ''VerticalPincushionBalance'' 0x36,
    Enc ''VerticalMisconvergence'' 0x38,
    Enc ''VerticalLinearity'' 0x3A,
    Enc ''VerticalLinearityBalance'' 0x3C,
    Enc ''ParallelogramDistortionKeyBalance'' 0x40,
    Enc ''TrapezoidalDistortionKey'' 0x42,
    Enc ''TiltRotation'' 0x44,
    Enc ''TopCornerDistortionControl'' 0x46,
    Enc ''TopCornerDistortionBalance'' 0x48,
    Enc ''BottomCornerDistortionControl'' 0x4A,
    Enc ''BottomCornerDistortionBalance'' 0x4C,
    Enc ''HorizontalMoire'' 0x56,
    Enc ''VerticalMoire'' 0x58,
    Enc ''RedVideoBlackLevel'' 0x6C,
    Enc ''GreenVideoBlackLevel'' 0x6E,
    Enc ''BlueVideoBlackLevel'' 0x70,
    Enc ''InputLevelSelect'' 0x5E,
    Enc ''InputSourceSelect'' 0x60,
    Enc ''OnScreenDisplay'' 0xCA,
    Enc ''StereoMode'' 0xD4,
    Enc ''AutoSizeCenter'' 0xA2,
    Enc ''PolarityHorizontalSynchronization'' 0xA4,
    Enc ''PolarityVerticalSynchronization'' 0xA6,
    Enc ''SynchronizationType'' 0xA8,
    Enc ''ScreenOrientation'' 0xAA,
    Enc ''HorizontalFrequency'' 0xAC,
    Enc ''VerticalFrequency'' 0xAE,
    Enc ''Degauss'' 0x01,
    Enc ''Settings'' 0xB0
  ]"

definition pwrDevMap_entries :: "Encoding list" where
  "pwrDevMap_entries = [
    EncT ''IName'' 0x01 UT_SV,
    EncT ''PresentStatus'' 0x02 UT_CL,
    EncT ''ChangedStatus'' 0x03 UT_CL,
    EncT ''Ups'' 0x04 UT_CA,
    EncT ''PowerSupply'' 0x05 UT_CA,
    EncT ''BatterySystem'' 0x10 UT_CP,
    EncT ''BatterySystemId'' 0x11 UT_SV,
    EncT ''Battery'' 0x12 UT_CP,
    EncT ''BatteryId'' 0x13 UT_SV,
    EncT ''Charger'' 0x14 UT_CP,
    EncT ''ChargerId'' 0x15 UT_SV,
    EncT ''PowerConverer'' 0x16 UT_CP,
    EncT ''PowerConvererId'' 0x17 UT_SV,
    EncT ''OutletSystem'' 0x18 UT_CP,
    EncT ''OutletSystemId'' 0x19 UT_SV,
    EncT ''Input'' 0x1A UT_CP,
    EncT ''InputId'' 0x1B UT_SV,
    EncT ''Output'' 0x1C UT_CP,
    EncT ''OutputId'' 0x1D UT_SV,
    EncT ''Flow'' 0x1E UT_CP,
    EncT ''FlowId'' 0x1F UT_SV,
    EncT ''Outlet'' 0x20 UT_CP,
    EncT ''OutletId'' 0x21 UT_SV,
    EncT ''Gang'' 0x22 (UT_CL OR UT_CP),
    EncT ''GangId'' 0x23 UT_SV,
    EncT ''PowerSummary'' 0x24 (UT_CL OR UT_CP),
    EncT ''PowerSummaryId'' 0x25 UT_SV,
    EncT ''Voltage'' 0x30 UT_DV,
    EncT ''Current'' 0x31 UT_DV,
    EncT ''Frequency'' 0x32 UT_DV,
    EncT ''ApparentPower'' 0x33 UT_DV,
    EncT ''ActivePower'' 0x34 UT_DV,
    EncT ''PercentLoad'' 0x35 UT_DV,
    EncT ''Temperature'' 0x36 UT_DV,
    EncT ''Humidity'' 0x37 UT_DV,
    EncT ''BadCount'' 0x38 UT_DV,
    EncT ''ConfigVoltage'' 0x40 (UT_SV OR UT_DV),
    EncT ''ConfigCurrent'' 0x41 (UT_SV OR UT_DV),
    EncT ''ConfigFrequency'' 0x42 (UT_SV OR UT_DV),
    EncT ''ConfigApparentPower'' 0x43 (UT_SV OR UT_DV),
    EncT ''ConfigActivePower'' 0x44 (UT_SV OR UT_DV),
    EncT ''ConfigPercentLoad'' 0x45 (UT_SV OR UT_DV),
    EncT ''ConfigTemperature'' 0x46 (UT_SV OR UT_DV),
    EncT ''ConfigHumidity'' 0x47 (UT_SV OR UT_DV),
    EncT ''SwitchOnControl'' 0x50 UT_DV,
    EncT ''SwitchOffControl'' 0x51 UT_DV,
    EncT ''ToggleControl'' 0x52 UT_DV,
    EncT ''LowVoltageTransfer'' 0x53 UT_DV,
    EncT ''HighVoltageTransfer'' 0x54 UT_DV,
    EncT ''DelayBeforeReboot'' 0x55 UT_DV,
    EncT ''DelayBeforeStartup'' 0x56 UT_DV,
    EncT ''DelayBeforeShutdown'' 0x57 UT_DV,
    EncT ''Test'' 0x58 UT_DV,
    EncT ''ModuleReset'' 0x59 UT_DV,
    EncT ''AudibleAlarmControl'' 0x5A UT_DV,
    EncT ''Present'' 0x60 UT_DF,
    EncT ''Good'' 0x61 UT_DF,
    EncT ''InternalFailure'' 0x62 UT_DF,
    EncT ''VoltageOutOfRange'' 0x63 UT_DF,
    EncT ''FrequencyOutOfRange'' 0x64 UT_DF,
    EncT ''Overload'' 0x65 UT_DF,
    EncT ''OverCharged'' 0x66 UT_DF,
    EncT ''OverTemperature'' 0x67 UT_DF,
    EncT ''ShutdownRequested'' 0x68 UT_DF,
    EncT ''ShutdownImminent'' 0x69 UT_DF,
    EncT ''SwitchOnOff'' 0x6B UT_DF,
    EncT ''Switchable'' 0x6C UT_DF,
    EncT ''Used'' 0x6D UT_DF,
    EncT ''Boost'' 0x6E UT_DF,
    EncT ''Buck'' 0x6F UT_DF,
    EncT ''Initialized'' 0x70 UT_DF,
    EncT ''Tested'' 0x71 UT_DF,
    EncT ''AwaitingPower'' 0x72 UT_DF,
    EncT ''CommunicationLost'' 0x73 UT_DF,
    EncT ''IManufacturer'' 0xFD UT_SV,
    EncT ''IProduct'' 0xFE UT_SV,
    EncT ''ISerialNumber'' 0xFF UT_SV
  ]"

definition barcodeMap_entries :: "Encoding list" where
  "barcodeMap_entries = [
    EncT ''BarCodeBadgeReader'' 0x01 UT_CA,
    EncT ''BarCodeScanner'' 0x02 UT_CA,
    EncT ''DumbBarCodeScanner'' 0x03 UT_CA,
    EncT ''CordlessScannerBase'' 0x04 UT_CA,
    EncT ''BarCodeScannerCradle'' 0x05 UT_CA,
    EncT ''AttributeReport'' 0x10 UT_CL,
    EncT ''SettingsReport'' 0x11 UT_CL,
    EncT ''ScannedDataReport'' 0x12 UT_CL,
    EncT ''RawScannedDataReport'' 0x13 UT_CL,
    EncT ''TriggerReport'' 0x14 UT_CL,
    EncT ''StatusReport'' 0x15 UT_CL,
    EncT ''UpsEanControlReport'' 0x16 UT_CL,
    EncT ''Ean23LabelControlReport'' 0x17 UT_CL,
    EncT ''Code39ControlReport'' 0x18 UT_CL,
    EncT ''Interleaved2Of5ControlReport'' 0x19 UT_CL,
    EncT ''Standard2Of5ConrolReport'' 0x1A UT_CL,
    EncT ''MsiPlesseyControlReport'' 0x1B UT_CL,
    EncT ''CodabarControlReport'' 0x1C UT_CL,
    EncT ''Code128ControlReport'' 0x1D UT_CL,
    EncT ''Misc2dConrolReport'' 0x1E UT_CL,
    EncT ''Control2dReport'' 0x1F UT_CL,
    EncT ''AimingPoinerMode'' 0x30 UT_SF,
    EncT ''BarCodePresentSensor'' 0x31 UT_SF,
    EncT ''Class1aLaser'' 0x32 UT_SF,
    EncT ''Class2Laser'' 0x33 UT_SF,
    EncT ''HeaterPresent'' 0x34 UT_SF,
    EncT ''ContactScanner'' 0x35 UT_SF,
    EncT ''ElectronicArticleSurveillanceNotification'' 0x36 UT_SF,
    EncT ''ConstantElectronicArticleSurveillance'' 0x37 UT_SF,
    EncT ''ErrorIndication'' 0x38 UT_SF,
    EncT ''FixedBeeper'' 0x39 UT_SF,
    EncT ''GoodDecoderIndication'' 0x3A UT_SF,
    EncT ''HandsFreeScanning'' 0x3B UT_SF,
    EncT ''IntrinsicallySafe'' 0x3C UT_SF,
    EncT ''KlasseEinsLaser'' 0x3D UT_SF,
    EncT ''LongRangeScanner'' 0x3E UT_SF,
    EncT ''MirrorSpeedControl'' 0x3F UT_SF,
    EncT ''NotOnFileIndication'' 0x40 UT_SF,
    EncT ''ProgrammableBeeper'' 0x41 UT_SF,
    EncT ''Triggerless'' 0x42 UT_SF,
    EncT ''Wand'' 0x43 UT_SF,
    EncT ''WaterResistant'' 0x44 UT_SF,
    EncT ''MultiRangeScanner'' 0x45 UT_SF,
    EncT ''ProximitySensor'' 0x46 UT_SF,
    EncT ''FragmentDecoder'' 0x4D UT_DF,
    EncT ''ScannerReadConfidence'' 0x4E UT_DV,
    EncT ''DataPrefix'' 0x4F UT_NARY,
    EncT ''PrefixAimi'' 0x50 UT_SEL,
    EncT ''PrefixNone'' 0x51 UT_SEL,
    EncT ''PrefixProprietary'' 0x52 UT_SEL,
    EncT ''ActiveTime'' 0x55 UT_DV,
    EncT ''AimingLaserPattern'' 0x56 UT_DF,
    EncT ''BarCodePresent'' 0x57 UT_OOC,
    EncT ''BeeperState'' 0x58 UT_OOC,
    EncT ''LaserOnTime'' 0x59 UT_DV,
    EncT ''LaserState'' 0x5A UT_OOC,
    EncT ''LockoutTime'' 0x5B UT_DV,
    EncT ''MotorState'' 0x5C UT_OOC,
    EncT ''MotorTimeout'' 0x5D UT_DV,
    EncT ''PowerOnResetScanner'' 0x5E UT_DF,
    EncT ''PreventReadOfBarcodes'' 0x5F UT_DF,
    EncT ''InitiateBarcodeRead'' 0x60 UT_DF,
    EncT ''TriggerState'' 0x61 UT_OOC,
    EncT ''TriggerMode'' 0x62 UT_NARY,
    EncT ''TriggerModeBlinkingLaserOn'' 0x63 UT_SEL,
    EncT ''TriggerModeContinuousLaserOn'' 0x64 UT_SEL,
    EncT ''TriggerModeLaserOnWhilePulled'' 0x65 UT_SEL,
    EncT ''TriggerModeLaserStaysOnAfterTriggerRelease'' 0x66 UT_SEL,
    EncT ''CommitParametersToNvm'' 0x6D UT_DF,
    EncT ''ParameterScanning'' 0x6E UT_DF,
    EncT ''ParametersChanged'' 0x6F UT_OOC,
    EncT ''SetParameterDefaultValues'' 0x70 UT_DF,
    EncT ''ScannerInCradle'' 0x75 UT_OOC,
    EncT ''ScannerInRange'' 0x76 UT_OOC,
    EncT ''AimDuration'' 0x7A UT_DV,
    EncT ''GoodReadLampDuration'' 0x7B UT_DV,
    EncT ''GoodReadLampIntensity'' 0x7C UT_DV,
    EncT ''GoodReadLed'' 0x7D UT_DF,
    EncT ''GoodReadToneFrequency'' 0x7E UT_DV,
    EncT ''GoodReadToneLength'' 0x7F UT_DV,
    EncT ''GoodReadToneVolume'' 0x80 UT_DV,
    EncT ''NoReadMessage'' 0x82 UT_DF,
    EncT ''NotOnFileVolume'' 0x83 UT_DV,
    EncT ''PowerupBeep'' 0x84 UT_DF,
    EncT ''SoundErrorBeep'' 0x85 UT_DF,
    EncT ''SoundGoodReadBeep'' 0x86 UT_DF,
    EncT ''SoundNotOnFileBeep'' 0x87 UT_DF,
    EncT ''GoodReadWhenToWrite'' 0x88 UT_NARY,
    EncT ''GrwtiAfterDecode'' 0x89 UT_SEL,
    EncT ''GrwtiBeepLampAferTransmit'' 0x8A UT_SEL,
    EncT ''GrwtiNoBeepLampUseAtAll'' 0x8B UT_SEL,
    EncT ''BooklandEan'' 0x91 UT_DF,
    EncT ''ConvertEan8To13Type'' 0x92 UT_DF,
    EncT ''ConvertUpcAToEan13'' 0x93 UT_DF,
    EncT ''ConvertUpcEToA'' 0x94 UT_DF,
    EncT ''Ean13'' 0x95 UT_DF,
    EncT ''Ean8'' 0x96 UT_DF,
    EncT ''Ean99128Mandatory'' 0x97 UT_DF,
    EncT ''Ean99P5128Optional'' 0x98 UT_DF,
    EncT ''UpcEan'' 0x9A UT_DF,
    EncT ''UpcEanCouponCode'' 0x9B UT_DF,
    EncT ''UpcEanPeriodicals'' 0x9C UT_DV,
    EncT ''UpcA'' 0x9D UT_DF,
    EncT ''UpcAWith128Mandatory'' 0x9E UT_DF,
    EncT ''UpcAWith128Optional'' 0x9F UT_DF,
    EncT ''UpcAWithP5Optional'' 0xA0 UT_DF,
    EncT ''UpcE'' 0xA1 UT_DF,
    EncT ''UpcE1'' 0xA2 UT_DF,
    EncT ''Periodical'' 0xA9 UT_NARY,
    EncT ''PeriodicalAutoDiscriminatePlus2'' 0xAA UT_SEL,
    EncT ''PeriodicalOnlyDecodeWidthPlus2'' 0xAB UT_SEL,
    EncT ''PeriodicalIgnorePlus2'' 0xAC UT_SEL,
    EncT ''PeriodicalAutoDiscriminatePlus5'' 0xAD UT_SEL,
    EncT ''PeriodicalOnlyDecodeWidthPlus5'' 0xAE UT_SEL,
    EncT ''PeriodicalIgnorePlus5'' 0xAF UT_SEL,
    EncT ''Check'' 0xB0 UT_NARY,
    EncT ''CheckDisablePrice'' 0xB1 UT_SEL,
    EncT ''CheckEnable4DigitPrice'' 0xB2 UT_SEL,
    EncT ''CheckEnable5DigitPrice'' 0xB3 UT_SEL,
    EncT ''CheckEnableEuropean4DigitPrice'' 0xB4 UT_SEL,
    EncT ''CheckEnableEuropean5DigitPrice'' 0xB5 UT_SEL,
    EncT ''EanTwoLabel'' 0xB7 UT_DF,
    EncT ''EanThreeLabel'' 0xB8 UT_DF,
    EncT ''Ean8FlagDigit1'' 0xB9 UT_DV,
    EncT ''Ean8FlagDigit2'' 0xBA UT_DV,
    EncT ''Ean8FlagDigit3'' 0xBB UT_DV,
    EncT ''Ean13FlagDigit1'' 0xBC UT_DV,
    EncT ''Ean13FlagDigit2'' 0xBD UT_DV,
    EncT ''Ean13FlagDigit3'' 0xBE UT_DV,
    EncT ''AddEan23LabelDefinition'' 0xBF UT_DF,
    EncT ''ClearAllEan23LabelDefinitions'' 0xC0 UT_DF,
    EncT ''Codabar'' 0xC3 UT_DF,
    EncT ''Code128'' 0xC4 UT_DF,
    EncT ''Code39'' 0xC7 UT_DF,
    EncT ''Code93'' 0xC8 UT_DF,
    EncT ''FullAsciiConversion'' 0xC9 UT_DF,
    EncT ''Interleaved2Of5'' 0xCA UT_DF,
    EncT ''ItalianPharmacyCode'' 0xCB UT_DF,
    EncT ''MsiPlessey'' 0xCC UT_DF,
    EncT ''Standard2Of5Iata'' 0xCD UT_DF,
    EncT ''Standard2Of5'' 0xCE UT_DF,
    EncT ''TransmitStartStop'' 0xD3 UT_DF,
    EncT ''TriOptic'' 0xD4 UT_DF,
    EncT ''UccEan128'' 0xD5 UT_DF,
    EncT ''CheckDigit'' 0xD6 UT_NARY,
    EncT ''CheckDigitDisable'' 0xD7 UT_SEL,
    EncT ''CheckDigitEnableInerleaved2Of5Opcc'' 0xD8 UT_SEL,
    EncT ''CheckDigitEnableInterleaved2Of5Uss'' 0xD9 UT_SEL,
    EncT ''CheckDigitEnableStandard2Of5Opcc'' 0xDA UT_SEL,
    EncT ''CheckDigitEnableStandard2Of5Uss'' 0xDB UT_SEL,
    EncT ''CheckDigitEnableOneMsiPlessey'' 0xDC UT_SEL,
    EncT ''CheckDigitEnableTwoMsiPlessey'' 0xDD UT_SEL,
    EncT ''CheckDigitCodabarEnable'' 0xDE UT_SEL,
    EncT ''CheckDigitCode39Enable'' 0xDF UT_SEL,
    EncT ''TransmitCheckDigit'' 0xF0 UT_NARY,
    EncT ''DisableCheckDigitTransmit'' 0xF1 UT_SEL,
    EncT ''EnableCheckDigitTransmit'' 0xF2 UT_SEL,
    EncT ''SymbologyIdentifier1'' 0xFB UT_DV,
    EncT ''SymbologyIdentifier2'' 0xFC UT_DV,
    EncT ''SymbologyIdentifier3'' 0xFD UT_DV,
    EncT ''DecodedData'' 0xFE UT_DV,
    EncT ''DecodedDataContinued'' 0xFF UT_DF,
    EncT ''BarSpaceData'' 0x100 UT_DV,
    EncT ''ScannerDataAccuracy'' 0x101 UT_DV,
    EncT ''RawDataPolarity'' 0x102 UT_NARY,
    EncT ''PolarityInvertedBarCode'' 0x103 UT_SEL,
    EncT ''PolarityNormalBarCode'' 0x104 UT_SEL,
    EncT ''MinimumLengthToDecode'' 0x106 UT_DV,
    EncT ''MaximumLengthToDecode'' 0x107 UT_DV,
    EncT ''FirstDiscreteLengthToDecode'' 0x108 UT_DV,
    EncT ''SecondDiscreteLengthToDecode'' 0x109 UT_DV,
    EncT ''DataLengthMethod'' 0x10A UT_NARY,
    EncT ''DlMethodReadAny'' 0x10B UT_SEL,
    EncT ''DlMethodCheckInRange'' 0x10C UT_SEL,
    EncT ''DlMethodCheckForDiscrete'' 0x10D UT_SEL,
    EncT ''AztecCode'' 0x110 UT_DF,
    EncT ''Bc412'' 0x111 UT_DF,
    EncT ''ChannelCode'' 0x112 UT_DF,
    EncT ''Code16'' 0x113 UT_DF,
    EncT ''Code32'' 0x114 UT_DF,
    EncT ''Code49'' 0x115 UT_DF,
    EncT ''CodeOne'' 0x116 UT_DF,
    EncT ''ColorCode'' 0x117 UT_DF,
    EncT ''DataMatrix'' 0x118 UT_DF,
    EncT ''MaxiCode'' 0x119 UT_DF,
    EncT ''MicroPdf'' 0x11A UT_DF,
    EncT ''Pdf417'' 0x11B UT_DF,
    EncT ''PosiCode'' 0x11C UT_DF,
    EncT ''QrCode'' 0x11D UT_DF,
    EncT ''SuperCode'' 0x11E UT_DF,
    EncT ''UltraCode'' 0x11F UT_DF,
    EncT ''Usd5SlugCode'' 0x120 UT_DF,
    EncT ''VeriCode'' 0x121 UT_DF
  ]"

definition weightDevMap_entries :: "Encoding list" where
  "weightDevMap_entries = [
    EncT ''WeighingDevice'' 0x01 UT_CA,
    EncT ''ScaleDevice'' 0x20 UT_CL,
    EncT ''ScaleClass'' 0x21 UT_CL,
    EncT ''ScaleClassIMetric'' 0x22 UT_SEL,
    EncT ''ScaleClassIiMetric'' 0x23 UT_SEL,
    EncT ''ScaleClassIiiMetric'' 0x24 UT_SEL,
    EncT ''ScaleClassIiilMetric'' 0x25 UT_SEL,
    EncT ''ScaleClassIvMetric'' 0x26 UT_SEL,
    EncT ''ScaleClassIiiEnglish'' 0x27 UT_SEL,
    EncT ''ScaleClassIiilEnglish'' 0x28 UT_SEL,
    EncT ''ScaleClassIvEnglish'' 0x29 UT_SEL,
    EncT ''ScaleClassGeneric'' 0x2A UT_SEL,
    EncT ''ScaleAttributeReport'' 0x30 UT_CL,
    EncT ''ScaleControlReport'' 0x31 UT_CL,
    EncT ''ScaleDataReport'' 0x32 UT_CL,
    EncT ''ScaleStatusReport'' 0x33 UT_CL,
    EncT ''ScaleWeightLimitReport'' 0x34 UT_CL,
    EncT ''ScaleStatisticsReport'' 0x35 UT_CL,
    EncT ''DataWeight'' 0x40 UT_DV,
    EncT ''DataScaling'' 0x41 UT_DV,
    EncT ''WeightUnit'' 0x50 UT_CL,
    EncT ''WeightUnitMilligram'' 0x51 UT_SEL,
    EncT ''WeightUnitGram'' 0x52 UT_SEL,
    EncT ''WeightUnitKilogram'' 0x53 UT_SEL,
    EncT ''WeightUnitCarats'' 0x54 UT_SEL,
    EncT ''WeightUnitTaels'' 0x55 UT_SEL,
    EncT ''WeightUnitGrains'' 0x56 UT_SEL,
    EncT ''WeightUnitPennyweights'' 0x57 UT_SEL,
    EncT ''WeightUnitMetricTon'' 0x58 UT_SEL,
    EncT ''WeightUnitAvoirTon'' 0x59 UT_SEL,
    EncT ''WeightUnitTroyOunce'' 0x5A UT_SEL,
    EncT ''WeightUnitOunce'' 0x5B UT_SEL,
    EncT ''WeightUnitPound'' 0x5C UT_SEL,
    EncT ''CalibrationCount'' 0x60 UT_DV,
    EncT ''ReZeroCount'' 0x61 UT_DV,
    EncT ''ScaleStatus'' 0x70 UT_CL,
    EncT ''ScaleStatusFault'' 0x71 UT_SEL,
    EncT ''ScaleStatusStableAtCenterOfZero'' 0x72 UT_SEL,
    EncT ''ScaleStatusInMotion'' 0x73 UT_SEL,
    EncT ''ScaleStatusWeightStable'' 0x74 UT_SEL,
    EncT ''ScaleStatusUnderZero'' 0x75 UT_SEL,
    EncT ''ScaleStatusOverWeightLimit'' 0x76 UT_SEL,
    EncT ''ScaleStatusRequiresCalibration'' 0x77 UT_SEL,
    EncT ''ScaleStatusRequiresRezeroing'' 0x78 UT_SEL,
    EncT ''ZeroScale'' 0x80 UT_OOC,
    EncT ''EnforcedZeroReturn'' 0x81 UT_OOC
  ]"

definition msrMap_entries :: "Encoding list" where
  "msrMap_entries = [
    EncT ''MsrDeviceReadOnly'' 0x01 UT_CA,
    EncT ''Track1Length'' 0x11 (UT_SF OR UT_DF OR UT_SEL),
    EncT ''Track2Length'' 0x12 (UT_SF OR UT_DF OR UT_SEL),
    EncT ''Track3Length'' 0x13 (UT_SF OR UT_DF OR UT_SEL),
    EncT ''TrackJisLength'' 0x14 (UT_SF OR UT_DF OR UT_SEL),
    EncT ''TrackData'' 0x20 (UT_SF OR UT_DF OR UT_SEL),
    EncT ''Track1Data'' 0x21 (UT_SF OR UT_DF OR UT_SEL),
    EncT ''Track2Data'' 0x22 (UT_SF OR UT_DF OR UT_SEL),
    EncT ''Track3Data'' 0x23 (UT_SF OR UT_DF OR UT_SEL),
    EncT ''TrackJisData'' 0x24 (UT_SF OR UT_DF OR UT_SEL)
  ]"

definition cameraCtrlMap_entries :: "Encoding list" where
  "cameraCtrlMap_entries = [
    EncT ''CameraAutoFocus'' 0x20 UT_OSC,
    EncT ''CameraShutter'' 0x21 UT_OSC
  ]"

definition arcadeMap_entries :: "Encoding list" where
  "arcadeMap_entries = [
    EncT ''GeneralPurposeIoCard'' 0x01 UT_CA,
    EncT ''CoinDoor'' 0x02 UT_CA,
    EncT ''WatchdogTimer'' 0x03 UT_CA,
    EncT ''GeneralPurposeAnalogInputState'' 0x30 UT_DV,
    EncT ''GeneralPurposeDigitalInputState'' 0x31 UT_DV,
    EncT ''GeneralPurposeOpticalInputState'' 0x32 UT_DV,
    EncT ''GeneralPurposeDigitalOutputState'' 0x33 UT_DV,
    EncT ''NumberOfCoinDoors'' 0x34 UT_DV,
    EncT ''CoinDrawerDropCount'' 0x35 UT_DV,
    EncT ''CoinDrawerDropStart'' 0x36 UT_OOC,
    EncT ''CoinDrawerDropService'' 0x37 UT_OOC,
    EncT ''CoinDrawerDropTilt'' 0x38 UT_OOC,
    EncT ''CoinDoorTest'' 0x39 UT_OOC,
    EncT ''CoinDoorLockout'' 0x40 UT_OOC,
    EncT ''WatchdogTimeout'' 0x41 UT_DV,
    EncT ''WatchdogAction'' 0x42 UT_NARY,
    EncT ''WatchdogReboot'' 0x43 UT_SEL,
    EncT ''WatchdogRestart'' 0x44 UT_SEL,
    EncT ''AlarmInput'' 0x45 UT_DV,
    EncT ''CoinDoorCounter'' 0x46 UT_OOC,
    EncT ''IoDirectionMapping'' 0x47 UT_DV,
    EncT ''SetIoDirection'' 0x48 UT_OOC,
    EncT ''ExtendedOpticalInputState'' 0x49 UT_DV,
    EncT ''PinPadInputState'' 0x4A UT_DV,
    EncT ''PinPadStatus'' 0x4B UT_DV,
    EncT ''PinPadOutput'' 0x4C UT_OOC,
    EncT ''PinPadCommand'' 0x4D UT_DV
  ]"

definition fidoMap_entries :: "Encoding list" where
  "fidoMap_entries = [
    EncT ''U2fAuthenticatorDevice'' 0x01 UT_CA,
    EncT ''InputReportData'' 0x20 UT_DV,
    EncT ''OutputReportData'' 0x21 UT_DV
  ]"

definition usagePageMap_entries :: "Encoding list" where
  "usagePageMap_entries = [
    EncA ''GenericDesktop'' 0x01 genDeskMap,
    EncA ''SimulationControls'' 0x02 simCtrlMap,
    EncA ''VrControls'' 0x03 vrCtrlMap,
    EncA ''SportControls'' 0x04 sportCtrlMap,
    EncA ''GameControls'' 0x05 gameCtrlMap,
    EncA ''GenericDeviceControls'' 0x06 genDevCtrlMap,
    EncA ''Keyboard'' 0x07 keyboardMap,
    EncA ''Led'' 0x08 ledMap,
    EncA ''Button'' 0x09 buttonMap,
    EncA ''Ordinal'' 0x0A ordinalMap,
    EncA ''TelephonyDevice'' 0x0B telDevMap,
    EncA ''Consumer'' 0x0C consumerMap,
    EncA ''Digitizers'' 0x0D digitizersMap,
    EncA ''Haptics'' 0x0E hapticsMap,
    EncA ''Pid'' 0x0F pidMap,
    EncA ''Unicode'' 0x10 unicodeMap,
    EncA ''EyeAndHeadTrackers'' 0x12 eyeHeadMap,
    EncA ''AuxiliaryDisplay'' 0x14 auxDisplayMap,
    EncA ''Sensors'' 0x20 sensorMap,
    EncA ''MediacalInstrument'' 0x40 medInstMap,
    EncA ''BrailleDisplay'' 0x41 brailleMap,
    EncA ''LightingAndIllumination'' 0x59 lightMap,
    EncA ''Monitor'' 0x80 monitorMap,
    EncA ''MonitorEnumeratedValues'' 0x81 monitorEnumMap,
    EncA ''VesaVirtualControls'' 0x82 vesaCtrlMap,
    EncA ''Power'' 0x84 pwrDevMap,
    EncA ''BarCodeScanner'' 0x8C barcodeMap,
    EncA ''WeighingDevices'' 0x8D weightDevMap,
    EncA ''MagneticStripeReaderDevices'' 0x8E msrMap,
    EncA ''CameraControl'' 0x90 cameraCtrlMap,
    EncA ''Arcade'' 0x91 arcadeMap,
    Enc ''GamingDevice'' 0x92,
    EncA ''FidoAlliance'' 0xF1D0 fidoMap
  ]"

definition itemMap_entries :: "Encoding list" where
  "itemMap_entries = [
    EncA ''Input'' 0x80 inputArgMap,
    EncA ''Output'' 0x90 outputFeatureArgMap,
    EncA ''Feature'' 0xB0 outputFeatureArgMap,
    EncA ''Collection'' 0xA0 colArgMap,
    EncA ''EndCollection'' 0xC0 endCol,
    EncA ''UsagePage'' 0x04 usagePageMap,
    EncA ''LogicalMinimum'' 0x14 signedNumArg,
    EncA ''LogicalMaximum'' 0x24 signedNumArg,
    EncA ''PhysicalMinimum'' 0x34 signedNumArg,
    EncA ''PhysicalMaximum'' 0x44 signedNumArg,
    EncA ''UnitExponent'' 0x54 unitExpMap,
    EncA ''Unit'' 0x64 unitSystemMap,
    EncA ''ReportSize'' 0x74 numArg,
    EncA ''ReportId'' 0x84 numArg,
    EncA ''ReportCount'' 0x94 numArg,
    Enc ''Push'' 0xA4,
    Enc ''Pop'' 0xB4,
    EncA ''Usage'' 0x08 usageArg,
    EncA ''UsageMinimum'' 0x18 usageArg,
    EncA ''UsageMaximum'' 0x28 usageArg,
    EncA ''DesignatorIndex'' 0x38 numArg,
    EncA ''DesignatorMinimum'' 0x48 numArg,
    EncA ''DesignatorMaximum'' 0x58 numArg,
    EncA ''StringIndex'' 0x78 numArg,
    EncA ''StringMinimum'' 0x88 numArg,
    EncA ''StringMaximum'' 0x98 numArg,
    EncA ''Delimiter'' 0xA8 delimMap
  ]"

text \<open>
  \<open>entries\<close> dereferences a table pointer. The five marker tables hold \<^verbatim>\<open>endOfMap\<close> only.
  Dereferencing \<^verbatim>\<open>NULL\<close> is undefined in the source and does not occur (the compiler
  tests for it first); the model gives it no entries.
\<close>

primrec entries :: "EncodingMap \<Rightarrow> Encoding list" where
  "entries NULL = []"
| "entries numArg = []"
| "entries signedNumArg = []"
| "entries clearArg = []"
| "entries usageArg = []"
| "entries endCol = []"
| "entries colArgMap = colArgMap_entries"
| "entries inputArgMap = inputArgMap_entries"
| "entries outputFeatureArgMap = outputFeatureArgMap_entries"
| "entries unitExpMap = unitExpMap_entries"
| "entries unitMap = unitMap_entries"
| "entries unitSystemMap = unitSystemMap_entries"
| "entries delimMap = delimMap_entries"
| "entries genDeskMap = genDeskMap_entries"
| "entries simCtrlMap = simCtrlMap_entries"
| "entries vrCtrlMap = vrCtrlMap_entries"
| "entries sportCtrlMap = sportCtrlMap_entries"
| "entries gameCtrlMap = gameCtrlMap_entries"
| "entries genDevCtrlMap = genDevCtrlMap_entries"
| "entries keyboardMap = keyboardMap_entries"
| "entries ledMap = ledMap_entries"
| "entries buttonMap = buttonMap_entries"
| "entries ordinalMap = ordinalMap_entries"
| "entries telDevMap = telDevMap_entries"
| "entries consumerMap = consumerMap_entries"
| "entries digitizersMap = digitizersMap_entries"
| "entries hapticsMap = hapticsMap_entries"
| "entries pidMap = pidMap_entries"
| "entries unicodeMap = unicodeMap_entries"
| "entries eyeHeadMap = eyeHeadMap_entries"
| "entries auxDisplayMap = auxDisplayMap_entries"
| "entries sensorMap = sensorMap_entries"
| "entries medInstMap = medInstMap_entries"
| "entries brailleMap = brailleMap_entries"
| "entries lightMap = lightMap_entries"
| "entries monitorMap = monitorMap_entries"
| "entries monitorEnumMap = monitorEnumMap_entries"
| "entries vesaCtrlMap = vesaCtrlMap_entries"
| "entries pwrDevMap = pwrDevMap_entries"
| "entries barcodeMap = barcodeMap_entries"
| "entries weightDevMap = weightDevMap_entries"
| "entries msrMap = msrMap_entries"
| "entries cameraCtrlMap = cameraCtrlMap_entries"
| "entries arcadeMap = arcadeMap_entries"
| "entries fidoMap = fidoMap_entries"
| "entries usagePageMap = usagePageMap_entries"
| "entries itemMap = itemMap_entries"
section \<open>Name resolver\<close>

text \<open>
  The digit loop of \<^verbatim>\<open>findEncoding\<close> over the token's bytes from \<^verbatim>\<open>idx\<close> on;
  \<^verbatim>\<open>num\<close> is \<^verbatim>\<open>uint32_t\<close> and wraps around.
\<close>

fun indexNum :: "string \<Rightarrow> 32 word \<Rightarrow> EMessage + 32 word" where
  "indexNum [] num = Inr num"
| "indexNum (c # cs) num =
     (if \<not> isDigit (ord c) then Inl E_Unexpected_argument_name_character
      else let oldNum = num; num' = (num * 10) + word_of_int (ord c) - 48
           in if oldNum > num' then Inl E_Argument_index_out_of_range
              else indexNum cs num')"

text \<open>
  \<^verbatim>\<open>findEncoding(token, map, res, error)\<close>, on the token's bytes and the entries of the
  table; \<open>i\<close> is the loop counter. The result is the entry found (a copy of the table
  entry, or of \<^verbatim>\<open>res\<close> with name and value set; \<^verbatim>\<open>res\<close> is \<^verbatim>\<open>dynMap\<close>, whose type and
  \<^verbatim>\<open>arg\<close> keep their default values) or \<open>None\<close> for \<^verbatim>\<open>NULL\<close>, and the new value of
  \<^verbatim>\<open>error\<close>. An indexed entry that is the last one of its table would make the source
  compare its name with the \<^verbatim>\<open>NULL\<close> name of \<^verbatim>\<open>endOfMap\<close>; no table of the source is so,
  and the model answers as for any other malformed pair.
\<close>

fun findEncoding_loop :: "string \<Rightarrow> Encoding list \<Rightarrow> nat \<Rightarrow> EMessage \<Rightarrow> Encoding option \<times> EMessage" where
  "findEncoding_loop token [] i error = (None, error)"
| "findEncoding_loop token (m # rest) i error =
     (if equalsI token (enc_name m) then (Some m, E_NO_ERROR)
      else if i < 3 \<and> strFindChr (enc_name m) (CHR ''#'') \<ge> 0 then
        (let idx = nat (strFindChr (enc_name m) (CHR ''#''))
         in if idx + 1 < length (enc_name m)
               \<or> (case rest of [] \<Rightarrow> True | m1 # _ \<Rightarrow> \<not> equals (enc_name m) (enc_name m1))
            then (None, E_Internal_error)
            else if length token \<le> idx \<or> \<not> startWidthIN (enc_name m) idx token
            then (None, E_Invalid_argument_name)
            else (case indexNum (drop idx token) 0 of
                    Inl e \<Rightarrow> (None, e)
                  | Inr num \<Rightarrow>
                      if num < enc_value m \<or> num > enc_value (hd rest)
                      then (None, E_Argument_index_out_of_range)
                      else if num \<noteq> 0 \<and> token ! idx = CHR ''0''
                      then (None, E_Invalid_argument_name)
                      else (Some (endOfMap\<lparr>enc_name := enc_name m, enc_value := num\<rparr>), E_NO_ERROR)))
      else findEncoding_loop token rest (i + 1) error)"

definition findEncoding :: "string \<Rightarrow> Encoding list \<Rightarrow> EMessage \<Rightarrow> Encoding option \<times> EMessage" where
  "findEncoding token map' error =
     (if length token = 0 then (None, error) else findEncoding_loop token map' 0 error)"

section \<open>Compiler state machine\<close>

text \<open>
  The enum \<^verbatim>\<open>State\<close> names the bits of \<^verbatim>\<open>flags\<close>. The source only assigns, sets, clears
  and tests these bits, so \<^verbatim>\<open>flags\<close> is modelled as the set of the bits that are set:
  \<^verbatim>\<open>flags |= X\<close> inserts, \<^verbatim>\<open>flags &= ~X\<close> removes, \<^verbatim>\<open>_HID_WITHIN(x)\<close> is membership and
  \<^verbatim>\<open>HID_START\<close> is the empty set.
\<close>

datatype State =
    HID_WITHIN_COMMENT
  | HID_WITHIN_ITEM
  | HID_WITHIN_ARG_LIST
  | HID_WITHIN_ARG
  | HID_WITHIN_PARAM
  | HID_WITHIN_HEX_LIT
  | HID_WITHIN_NUM_LIT
  | HID_WITHIN_UNIT_SYS
  | HID_WITHIN_UNIT_DESC
  | HID_WITHIN_UNIT
  | HID_WITHIN_UNIT_EXP

definition HID_START :: "State set" where
  "HID_START = {}"

text \<open>
  The local variables of \<^verbatim>\<open>compile\<close>, and the bytes written to \<^verbatim>\<open>out\<close> so far. The
  pointer \<^verbatim>\<open>ptr\<close> always is \<^verbatim>\<open>source.data() + n\<close> and is not a field of its own. The
  \<^verbatim>\<open>int\<close> counters are unbounded integers (their overflow is undefined in the source and
  needs more than \<open>2^31\<close> items); the \<^verbatim>\<open>size_t\<close> counters are natural numbers. The three
  \<^verbatim>\<open>Encoding\<close> pointers are \<open>None\<close> for \<^verbatim>\<open>NULL\<close>, else the entry pointed to.
  \<^verbatim>\<open>subError\<close> and \<^verbatim>\<open>dynMap\<close> only carry the result of one call of \<^verbatim>\<open>findEncoding\<close> to
  the following lines and are local to the steps below.
\<close>

record Vars =
  colLevel :: int
  delimLevel :: int
  usageAtLevel :: int
  reportSizes :: nat
  reportCounts :: nat
  tItem :: Token
  tArg :: Token
  hasUsagePage :: bool
  hasArg :: bool
  multiArg :: bool
  negLit :: bool
  encMap :: "Encoding option"
  usagePage :: "Encoding option"
  encUnit :: "Encoding option"
  flags :: "State set"
  item :: "32 word"
  arg :: "32 word"
  lit :: "32 word"
  n :: nat
  out :: Writer

definition init :: Vars where
  "init = \<lparr>colLevel = 0, delimLevel = 0, usageAtLevel = -1, reportSizes = 0, reportCounts = 0,
     tItem = \<lparr>start = 0, tlength = 0\<rparr>, tArg = \<lparr>start = 0, tlength = 0\<rparr>,
     hasUsagePage = False, hasArg = False, multiArg = False, negLit = False,
     encMap = None, usagePage = None, encUnit = None, flags = HID_START,
     item = 0, arg = 0, lit = 0, n = 0, out = []\<rparr>"

text \<open>
  \<open>deref p\<close> reads through an \<^verbatim>\<open>Encoding\<close> pointer. The source dereferences \<^verbatim>\<open>encMap\<close>
  and \<^verbatim>\<open>encUnit\<close> only in states entered after they were set, so the \<open>None\<close> case is
  not reached; it is given the default entry to keep the model total.
\<close>

definition deref :: "Encoding option \<Rightarrow> Encoding" where
  "deref p = (case p of None \<Rightarrow> endOfMap | Some e \<Rightarrow> e)"

text \<open>
  The result of \<^verbatim>\<open>compile\<close>: the returned \<^verbatim>\<open>bool\<close> with the final value of \<^verbatim>\<open>error\<close>, and
  the bytes written. The caller's \<^verbatim>\<open>error\<close> is only ever written, by \<^verbatim>\<open>ErrorWriter::at\<close>
  and on success, so its initial value is no input of the model.

  What one pass through the loop body ends with: \<^verbatim>\<open>return errorMsg.at(...)\<close> (with the
  bytes written so far), \<^verbatim>\<open>continue\<close> (the same byte is processed again), or the end of
  the body, where \<^verbatim>\<open>n++; ptr++\<close> follows.
\<close>

type_synonym Result = "(bool \<times> Info) \<times> Writer"

datatype Flow = Return Result | Continue Vars | Advance Vars

definition error_at :: "string \<Rightarrow> Vars \<Rightarrow> nat \<Rightarrow> EMessage \<Rightarrow> Result" where
  "error_at source s pos msg = (at source pos msg, out s)"

definition cur :: "string \<Rightarrow> Vars \<Rightarrow> char" where
  "cur source s = source ! n s"

definition grow :: "Token \<Rightarrow> Token" where
  "grow t = t\<lparr>tlength := tlength t + 1\<rparr>"

text \<open>
  The whitespace skipping after an item name or a unit system name: the cursor moves to
  the last whitespace of the run and then onto a following opening parenthesis.
\<close>

function skipWhitespace :: "string \<Rightarrow> nat \<Rightarrow> nat" where
  "skipWhitespace source k =
     (if k + 1 < length source \<and> isWhitespace (ord (source ! (k + 1)))
      then skipWhitespace source (k + 1) else k)"
  by pat_completeness auto
termination
  by (relation "measure (\<lambda>(source, k). length source - k)") auto

definition skipToParen :: "string \<Rightarrow> nat \<Rightarrow> nat" where
  "skipToParen source k =
     (let k1 = skipWhitespace source k
      in if k1 + 1 < length source \<and> source ! (k1 + 1) = CHR ''('' then k1 + 1 else k1)"

subsection \<open>\<^verbatim>\<open>flags == HID_START\<close>\<close>

definition stepStart :: "string \<Rightarrow> Vars \<Rightarrow> Flow" where
  "stepStart source s =
     (let c = cur source s in
      if isItemChar (ord c) then
        Advance (s\<lparr>flags := {HID_WITHIN_ITEM}, tItem := \<lparr>start = n s, tlength = 1\<rparr>\<rparr>)
      else if c = CHR ''{'' then
        Advance (s\<lparr>flags := {HID_WITHIN_PARAM}, tArg := \<lparr>start = n s + 1, tlength = 0\<rparr>\<rparr>)
      else if c = CHR ''0'' \<and> n s + 1 < length source \<and> source ! (n s + 1) = CHR ''x'' then
        (if n s + 2 \<ge> length source then Return (error_at source s (n s + 2) E_Unexpected_end_of_source)
         else if \<not> isHexDigit (ord (source ! (n s + 2))) then
           Return (error_at source s (n s + 2) E_Invalid_hex_value)
         else Advance (s\<lparr>flags := {HID_WITHIN_HEX_LIT}, lit := 0, n := n s + 1\<rparr>))
      else if isDigit (ord c) then
        Continue (s\<lparr>flags := {HID_WITHIN_NUM_LIT}, lit := 0\<rparr>)
      else if c = CHR ''-'' then
        Return (error_at source s (n s) E_Negative_numbers_are_not_allowed_in_this_context)
      else if isComment (ord c) then
        Advance (s\<lparr>flags := {HID_WITHIN_COMMENT}\<rparr>)
      else if \<not> isWhitespace (ord c) then
        Return (error_at source s (n s) E_Unexpected_token)
      else Advance s)"

subsection \<open>\<^verbatim>\<open>_HID_WITHIN(COMMENT)\<close>\<close>

definition stepComment :: "string \<Rightarrow> Vars \<Rightarrow> Flow" where
  "stepComment source s =
     (let c = cur source s in
      if c = CR \<or> c = LF then Advance (s\<lparr>flags := HID_START\<rparr>) else Advance s)"

subsection \<open>\<^verbatim>\<open>_HID_WITHIN(PARAM)\<close>\<close>

text \<open>
  \<open>sfind\<close> is \<^verbatim>\<open>source.find\<close>, applied to the bytes of the token. The \<^verbatim>\<open>int64_t\<close> value
  is compared as a signed number (\<open>sint\<close>) and converted to \<^verbatim>\<open>uint32_t\<close> by \<open>ucast\<close>.
\<close>

definition stepParam :: "string \<Rightarrow> (string \<Rightarrow> ParamMatch) \<Rightarrow> Vars \<Rightarrow> Flow" where
  "stepParam source sfind s =
     (let c = cur source s in
      if c = CHR ''}'' then
        (let s1 = s\<lparr>flags := flags s - {HID_WITHIN_PARAM}\<rparr>;
             param = sfind (text_of source (tArg s1))
         in if \<not> valid param then Return (error_at source s1 (n s1) E_Expected_valid_parameter_name_here)
            else if HID_WITHIN_ARG_LIST \<in> flags s1 then
              (if (if enc_arg (deref (encMap s1)) = signedNumArg
                   then sint (match_value param) < - 0x80000000 \<or> sint (match_value param) > 0x7FFFFFFF
                   else sint (match_value param) < 0 \<or> sint (match_value param) > 0xFFFFFFFF)
               then Return (error_at source s1 (n s1) E_Parameter_value_out_of_range)
               else Advance (s1\<lparr>arg := arg s1 OR ucast (match_value param), hasArg := True\<rparr>))
            else if sint (match_value param) < 0 then
              Return (error_at source s1 (n s1) E_Negative_numbers_are_not_allowed_in_this_context)
            else if sint (match_value param) > 0xFFFFFFFF then
              Return (error_at source s1 (n s1) E_Parameter_value_out_of_range)
            else Advance (s1\<lparr>out := encodeUnsigned (out s1) (ucast (match_value param))\<rparr>))
      else Advance (s\<lparr>tArg := grow (tArg s)\<rparr>))"

subsection \<open>\<^verbatim>\<open>_HID_WITHIN(ITEM)\<close>\<close>

text \<open>
  The bookkeeping after the item name was resolved to the entry \<open>e\<close> (the new \<^verbatim>\<open>encMap\<close>):
  Collection, EndCollection and Usage. The result is \<open>Inl\<close> for a \<^verbatim>\<open>return\<close>.
\<close>

definition itemLevels :: "string \<Rightarrow> Vars \<Rightarrow> Encoding \<Rightarrow> Result + Vars" where
  "itemLevels source s e =
     (if enc_arg e = colArgMap then
        (if usageAtLevel s \<noteq> colLevel s then
           Inl (error_at source s (n s) E_Missing_Usage_for_Collection)
         else Inr (s\<lparr>colLevel := colLevel s + 1\<rparr>))
      else if enc_arg e = endCol then
        (if colLevel s \<le> 0 then Inl (error_at source s (n s) E_Unexpected_EndCollection)
         else if reportSizes s < reportCounts s then
           Inl (error_at source s (n s) E_Missing_ReportSize)
         else if reportCounts s < reportSizes s then
           Inl (error_at source s (n s) E_Missing_ReportCount)
         else Inr (s\<lparr>colLevel := colLevel s - 1, usageAtLevel := usageAtLevel s - 1\<rparr>))
      else if equalsI (text_of source (tItem s)) ''Usage'' then
        Inr (s\<lparr>usageAtLevel := colLevel s\<rparr>)
      else Inr s)"

definition stepItem :: "string \<Rightarrow> Vars \<Rightarrow> Flow" where
  "stepItem source s =
     (let c = cur source s in
      if isItemChar (ord c) then Advance (s\<lparr>tItem := grow (tItem s)\<rparr>)
      else if isWhitespace (ord c) \<or> c = CHR ''('' then
        (let s1 = s\<lparr>n := (if isWhitespace (ord c) then skipToParen source (n s) else n s),
                     flags := flags s - {HID_WITHIN_ITEM}\<rparr>
         in case findEncoding (text_of source (tItem s1)) (entries itemMap) E_Invalid_item_name of
              (None, subError) \<Rightarrow> Return (error_at source s1 (n s1) subError)
            | (Some e, subError) \<Rightarrow>
                (case itemLevels source (s1\<lparr>encMap := Some e\<rparr>) e of
                   Inl r \<Rightarrow> Return r
                 | Inr s2 \<Rightarrow>
                     if cur source s2 = CHR ''('' then
                       (if enc_arg e = NULL then
                          Return (error_at source s2 (n s2) E_This_item_has_no_arguments)
                        else Advance (s2\<lparr>flags := (if enc_arg e = unitSystemMap
                                                     then insert HID_WITHIN_UNIT_SYS (insert HID_WITHIN_ARG_LIST (flags s2))
                                                     else insert HID_WITHIN_ARG_LIST (flags s2)),
                                         item := enc_value e, arg := 0, hasArg := False,
                                         multiArg := (enc_arg e = inputArgMap \<or> enc_arg e = outputFeatureArgMap)\<rparr>))
                     else if enc_arg e \<noteq> NULL \<and> (entries (enc_arg e) \<noteq> [] \<or> enc_arg e = usageArg) then
                       Return (error_at source s2 (n s2) E_Missing_argument)
                     else Advance (s2\<lparr>out := encodeUnsigned (out s2) (enc_value e)\<rparr>)))
      else Return (error_at source s (n s) E_Unexpected_item_name_character))"

subsection \<open>\<^verbatim>\<open>_HID_WITHIN(ARG)\<close>\<close>

text \<open>
  \<open>setNibble a offset v\<close> is \<^verbatim>\<open>arg &= ~uint32_t(0xF << offset); arg |= uint32_t(v << offset)\<close>.
  The offsets are \<open>4 * value\<close> of an entry of \<^verbatim>\<open>unitMap\<close>, at most 24, so that the shifts of
  the source stay within 32 bits.
\<close>

definition setNibble :: "32 word \<Rightarrow> 32 word \<Rightarrow> 32 word \<Rightarrow> 32 word" where
  "setNibble a offset v = (a AND NOT (push_bit (unat offset) 0xF)) OR push_bit (unat offset) v"

definition stepUnit :: "string \<Rightarrow> Vars \<Rightarrow> Flow" where
  "stepUnit source s =
     (let c = cur source s in
      if isAlpha (ord c) then Advance (s\<lparr>tArg := grow (tArg s)\<rparr>)
      else if isWhitespace (ord c) \<or> c = CHR '')'' \<or> c = CHR ''^'' then
        (let s1 = s\<lparr>flags := flags s - {HID_WITHIN_UNIT}\<rparr>
         in case findEncoding (text_of source (tArg s1)) (entries (enc_arg (deref (encMap s1)))) E_Invalid_unit_name of
              (None, subError) \<Rightarrow> Return (error_at source s1 (n s1) subError)
            | (Some u, subError) \<Rightarrow>
                if c = CHR ''^'' then
                  Advance (s1\<lparr>encUnit := Some u, flags := insert HID_WITHIN_UNIT_EXP (flags s1),
                              tArg := \<lparr>start = n s1 + 1, tlength = 0\<rparr>\<rparr>)
                else
                  Continue (s1\<lparr>encUnit := Some u, arg := setNibble (arg s1) (4 * enc_value u) 1\<rparr>))
      else Return (error_at source s (n s) E_Unexpected_unit_name_character))"

definition stepUnitExp :: "string \<Rightarrow> Vars \<Rightarrow> Flow" where
  "stepUnitExp source s =
     (let c = cur source s in
      if c = CHR ''-'' then
        (if tlength (tArg s) > 0 then Return (error_at source s (n s) E_Invalid_unit_exponent)
         else Advance (s\<lparr>tArg := grow (tArg s)\<rparr>))
      else if isDigit (ord c) then Advance (s\<lparr>tArg := grow (tArg s)\<rparr>)
      else
        (let s1 = s\<lparr>flags := flags s - {HID_WITHIN_UNIT_EXP}\<rparr>
         in case findEncoding (text_of source (tArg s1)) (entries (enc_arg (deref (encUnit s1)))) E_Invalid_unit_exponent of
              (None, subError) \<Rightarrow> Return (error_at source s1 (n s1) subError)
            | (Some encUnitExp, subError) \<Rightarrow>
                Continue (s1\<lparr>arg := setNibble (arg s1) (4 * enc_value (deref (encUnit s1))) (enc_value encUnitExp),
                             flags := insert HID_WITHIN_UNIT_DESC (flags s1)\<rparr>)))"

definition stepUnitDesc :: "string \<Rightarrow> Vars \<Rightarrow> Flow" where
  "stepUnitDesc source s =
     (let c = cur source s in
      if HID_WITHIN_UNIT \<in> flags s then stepUnit source s
      else if HID_WITHIN_UNIT_EXP \<in> flags s then stepUnitExp source s
      else if isAlpha (ord c) then
        Advance (s\<lparr>flags := insert HID_WITHIN_UNIT (flags s), tArg := \<lparr>start = n s, tlength = 1\<rparr>\<rparr>)
      else if c = CHR '')'' then
        Advance (s\<lparr>flags := flags s - {HID_WITHIN_ARG, HID_WITHIN_UNIT_SYS, HID_WITHIN_UNIT_DESC}\<rparr>)
      else if \<not> isWhitespace (ord c) then Return (error_at source s (n s) E_Unexpected_unit_name_character)
      else Advance s)"

definition stepUnitSys :: "string \<Rightarrow> Vars \<Rightarrow> Flow" where
  "stepUnitSys source s =
     (let c = cur source s in
      if hasArg s then Return (error_at source s (n s) E_Internal_error)
      else if isWhitespace (ord c) \<or> c = CHR ''('' then
        (let s1 = s\<lparr>n := (if isWhitespace (ord c) then skipToParen source (n s) else n s)\<rparr>
         in case findEncoding (text_of source (tArg s1)) (entries (enc_arg (deref (encMap s1)))) E_Invalid_unit_system_name of
              (None, subError) \<Rightarrow> Return (error_at source s1 (n s1) subError)
            | (Some encUnitSys, subError) \<Rightarrow>
                Advance (s1\<lparr>flags := insert HID_WITHIN_UNIT_DESC (flags s1), arg := enc_value encUnitSys,
                            encMap := Some encUnitSys, hasArg := True\<rparr>))
      else if c = CHR '')'' then Continue (s\<lparr>flags := flags s - {HID_WITHIN_UNIT_SYS}\<rparr>)
      else Return (error_at source s (n s) E_Unexpected_argument_name_character))"

text \<open>
  The end of an argument name. For a Usage, UsageMinimum or UsageMaximum item
  (\<^verbatim>\<open>encMap->arg == usageArg\<close>) the name is looked up in the table of the current usage
  page, which replaces \<^verbatim>\<open>encMap\<close>.
\<close>

definition stepArgEnd :: "string \<Rightarrow> Vars \<Rightarrow> Flow" where
  "stepArgEnd source s =
     (let c = cur source s;
          s1 = s\<lparr>flags := flags s - {HID_WITHIN_ARG}\<rparr>
      in if enc_arg (deref (encMap s1)) = usageArg
            \<and> (usagePage s1 = None \<or> enc_arg (deref (usagePage s1)) = NULL) then
           (if hasUsagePage s1 then Return (error_at source s1 (n s1) E_Missing_named_UsagePage)
            else Return (error_at source s1 (n s1) E_Missing_UsagePage))
         else
           (let s2 = (if enc_arg (deref (encMap s1)) = usageArg then s1\<lparr>encMap := usagePage s1\<rparr> else s1)
            in case findEncoding (text_of source (tArg s2)) (entries (enc_arg (deref (encMap s2)))) E_Invalid_argument_name of
                 (None, subError) \<Rightarrow> Return (error_at source s2 (n s2) subError)
               | (Some encItem, subError) \<Rightarrow>
                   (let s3 = (if enc_arg (deref (encMap s2)) = usagePageMap
                              then s2\<lparr>usagePage := Some encItem\<rparr> else s2);
                        s4 = s3\<lparr>arg := (if enc_arg encItem = clearArg
                                          then arg s3 AND NOT (enc_value encItem)
                                          else arg s3 OR enc_value encItem),
                                  hasArg := (\<not> multiArg s3 \<or> c \<noteq> CHR '','')\<rparr>
                    in if c = CHR '')'' then Continue s4 else Advance s4)))"

definition stepArg :: "string \<Rightarrow> Vars \<Rightarrow> Flow" where
  "stepArg source s =
     (let c = cur source s in
      if HID_WITHIN_UNIT_DESC \<in> flags s then stepUnitDesc source s
      else if isArgChar (ord c) then Advance (s\<lparr>tArg := grow (tArg s)\<rparr>)
      else if HID_WITHIN_UNIT_SYS \<in> flags s then stepUnitSys source s
      else if isWhitespace (ord c) \<or> c = CHR '')'' \<or> (multiArg s \<and> c = CHR '','') then
        stepArgEnd source s
      else Return (error_at source s (n s) E_Unexpected_argument_name_character))"

subsection \<open>\<^verbatim>\<open>_HID_WITHIN(HEX_LIT)\<close> and \<^verbatim>\<open>_HID_WITHIN(NUM_LIT)\<close>\<close>

definition hexValue :: "char \<Rightarrow> 32 word" where
  "hexValue c =
     (if ord c < 65 then word_of_int (ord c - 48)
      else if ord c < 97 then word_of_int (ord c - 65 + 10)
      else word_of_int (ord c - 97 + 10))"

definition stepHexLit :: "string \<Rightarrow> Vars \<Rightarrow> Flow" where
  "stepHexLit source s =
     (let c = cur source s in
      if isHexDigit (ord c) then
        (let oldLit = lit s; lit1 = push_bit 4 (lit s)
         in if lit1 < oldLit then Return (error_at source s (n s) E_Number_overflow)
            else Advance (s\<lparr>lit := lit1 OR hexValue c\<rparr>))
      else if HID_WITHIN_ARG_LIST \<in> flags s then
        (if isWhitespace (ord c) \<or> c = CHR '')'' \<or> (multiArg s \<and> c = CHR '','') then
           (let s1 = s\<lparr>flags := flags s - {HID_WITHIN_HEX_LIT}\<rparr>
            in if enc_arg (deref (encMap s1)) = signedNumArg \<and> lit s1 > 0x7FFFFFFF then
                 Return (error_at source s1 (n s1) E_Number_overflow)
               else
                 (let s2 = s1\<lparr>arg := arg s1 OR lit s1, hasArg := (\<not> multiArg s1 \<or> c \<noteq> CHR '','')\<rparr>
                  in if c = CHR '')'' then Continue s2 else Advance s2))
         else Return (error_at source s (n s) E_Invalid_hex_value))
      else if isWhitespace (ord c) then
        Advance (s\<lparr>flags := flags s - {HID_WITHIN_HEX_LIT}, out := encodeUnsigned (out s) (lit s)\<rparr>)
      else Return (error_at source s (n s) E_Invalid_hex_value))"

definition stepNumLit :: "string \<Rightarrow> Vars \<Rightarrow> Flow" where
  "stepNumLit source s =
     (let c = cur source s in
      if isDigit (ord c) then
        (let oldLit = lit s; lit1 = lit s * 10
         in if lit1 < oldLit then Return (error_at source s (n s) E_Number_overflow)
            else
              (let lit2 = lit1 + word_of_int (ord c - 48)
               in if lit2 < oldLit then Return (error_at source s (n s) E_Number_overflow)
                  else Advance (s\<lparr>lit := lit2\<rparr>)))
      else if HID_WITHIN_ARG_LIST \<in> flags s then
        (if isWhitespace (ord c) \<or> c = CHR '')'' \<or> (multiArg s \<and> c = CHR '','') then
           (let s1 = s\<lparr>flags := flags s - {HID_WITHIN_NUM_LIT}\<rparr>
            in if negLit s1 then
                 (if lit s1 > 0x80000000 then Return (error_at source s1 (n s1) E_Number_overflow)
                  else
                    (let s2 = s1\<lparr>arg := arg s1 OR (- lit s1), negLit := False,
                                  hasArg := (\<not> multiArg s1 \<or> c \<noteq> CHR '','')\<rparr>
                     in if c = CHR '')'' then Continue s2 else Advance s2))
               else if enc_arg (deref (encMap s1)) = signedNumArg \<and> lit s1 > 0x7FFFFFFF then
                 Return (error_at source s1 (n s1) E_Number_overflow)
               else
                 (let s2 = s1\<lparr>arg := arg s1 OR lit s1, hasArg := (\<not> multiArg s1 \<or> c \<noteq> CHR '','')\<rparr>
                  in if c = CHR '')'' then Continue s2 else Advance s2))
         else Return (error_at source s (n s) E_Invalid_numeric_value))
      else if isWhitespace (ord c) then
        Advance (s\<lparr>flags := flags s - {HID_WITHIN_NUM_LIT}, out := encodeUnsigned (out s) (lit s)\<rparr>)
      else Return (error_at source s (n s) E_Invalid_numeric_value))"

subsection \<open>\<^verbatim>\<open>_HID_WITHIN(ARG_LIST)\<close>\<close>

text \<open>
  The closing parenthesis of an argument list: the item is emitted. \<^verbatim>\<open>int32_t(arg)\<close> is
  the same 32 bits read as two's complement.
\<close>

definition closeArgList :: "string \<Rightarrow> Vars \<Rightarrow> Flow" where
  "closeArgList source s =
     (let s1 = s\<lparr>flags := flags s - {HID_WITHIN_ARG_LIST, HID_WITHIN_UNIT_SYS}\<rparr>
      in if enc_arg (deref (encMap s1)) = signedNumArg then
           (let item1 = item s1 OR encodedSizeValue (encodedSize_signed (arg s1))
            in Advance (s1\<lparr>item := item1,
                           out := encodeSigned (encodeUnsigned (out s1) item1) (arg s1),
                           multiArg := False\<rparr>))
         else if enc_arg (deref (encMap s1)) = unitExpMap then
           (if 7 <s arg s1 \<or> arg s1 <s - 8 then
              Return (error_at source s1 (n s1) E_Argument_value_out_of_range)
            else Advance (s1\<lparr>out := encodeUnsigned (encodeUnsigned (out s1) (item s1 OR 1)) (arg s1 AND 0xF),
                            multiArg := False\<rparr>))
         else
           (let emit = (\<lambda>s2. let item1 = item s2 OR encodedSizeValue (encodedSize (arg s2))
                              in Advance (s2\<lparr>item := item1,
                                             out := encodeUnsigned (encodeUnsigned (out s2) item1) (arg s2),
                                             multiArg := False\<rparr>))
            in if enc_arg (deref (encMap s1)) = delimMap then
                 (if arg s1 = 0 then
                    (if delimLevel s1 \<le> 0 then Return (error_at source s1 (n s1) E_Unexpected_DelimiterClose)
                     else emit (s1\<lparr>delimLevel := delimLevel s1 - 1\<rparr>))
                  else if arg s1 = 1 then emit (s1\<lparr>delimLevel := delimLevel s1 + 1\<rparr>)
                  else Return (error_at source s1 (n s1) E_Unexpected_Delimiter_value))
               else if enc_arg (deref (encMap s1)) = usagePageMap \<or> enc_arg (deref (encMap s1)) = usageArg then
                 (if arg s1 > 0xFFFF then Return (error_at source s1 (n s1) E_Argument_value_out_of_range)
                  else if enc_arg (deref (encMap s1)) = usagePageMap then emit (s1\<lparr>hasUsagePage := True\<rparr>)
                  else emit s1)
               else if enc_value (deref (encMap s1)) = 0x74 then emit (s1\<lparr>reportSizes := reportSizes s1 + 1\<rparr>)
               else if enc_value (deref (encMap s1)) = 0x94 then emit (s1\<lparr>reportCounts := reportCounts s1 + 1\<rparr>)
               else emit s1))"

definition stepArgList :: "string \<Rightarrow> Vars \<Rightarrow> Flow" where
  "stepArgList source s =
     (let c = cur source s in
      if hasArg s then
        (if c = CHR '')'' then closeArgList source s
         else if multiArg s \<and> c = CHR '','' then Advance (s\<lparr>hasArg := False\<rparr>)
         else if \<not> isWhitespace (ord c) then Return (error_at source s (n s) E_Unexpected_token)
         else Advance s)
      else if isItemChar (ord c) then
        Advance (s\<lparr>flags := insert HID_WITHIN_ARG (flags s), tArg := \<lparr>start = n s, tlength = 1\<rparr>\<rparr>)
      else if c = CHR ''0'' \<and> n s + 1 < length source \<and> source ! (n s + 1) = CHR ''x'' then
        (if n s + 2 \<ge> length source then Return (error_at source s (n s + 2) E_Unexpected_end_of_source)
         else if \<not> isHexDigit (ord (source ! (n s + 2))) then
           Return (error_at source s (n s + 2) E_Invalid_hex_value)
         else Advance (s\<lparr>flags := insert HID_WITHIN_HEX_LIT (flags s), lit := 0, n := n s + 1\<rparr>))
      else if c = CHR ''-'' then
        (if enc_arg (deref (encMap s)) \<noteq> signedNumArg \<and> enc_arg (deref (encMap s)) \<noteq> unitExpMap then
           Return (error_at source s (n s) E_Negative_numbers_are_not_allowed_in_this_context)
         else Advance (s\<lparr>flags := insert HID_WITHIN_NUM_LIT (flags s), lit := 0, negLit := True\<rparr>))
      else if isDigit (ord c) then
        Continue (s\<lparr>flags := insert HID_WITHIN_NUM_LIT (flags s), lit := 0\<rparr>)
      else if c = CHR ''{'' then
        Advance (s\<lparr>flags := insert HID_WITHIN_PARAM (flags s), tArg := \<lparr>start = n s + 1, tlength = 0\<rparr>\<rparr>)
      else if c = CHR '')'' then Return (error_at source s (n s) E_Missing_argument)
      else if \<not> isWhitespace (ord c) then Return (error_at source s (n s) E_Unexpected_argument_name_character)
      else Advance s)"

subsection \<open>The scan loop\<close>

text \<open>The body of the \<^verbatim>\<open>for\<close> loop: the chain of tests on \<^verbatim>\<open>flags\<close>, in the order of the source.\<close>

definition body :: "string \<Rightarrow> (string \<Rightarrow> ParamMatch) \<Rightarrow> Vars \<Rightarrow> Flow" where
  "body source sfind s =
     (if flags s = HID_START then stepStart source s
      else if HID_WITHIN_COMMENT \<in> flags s then stepComment source s
      else if HID_WITHIN_PARAM \<in> flags s then stepParam source sfind s
      else if HID_WITHIN_ITEM \<in> flags s then stepItem source s
      else if HID_WITHIN_ARG \<in> flags s then stepArg source s
      else if HID_WITHIN_HEX_LIT \<in> flags s then stepHexLit source s
      else if HID_WITHIN_NUM_LIT \<in> flags s then stepNumLit source s
      else if HID_WITHIN_ARG_LIST \<in> flags s then stepArgList source s
      else Advance s)"

text \<open>
  The \<^verbatim>\<open>for\<close> loop: it runs while \<^verbatim>\<open>n < len && *ptr != 0\<close> and ends with the variables
  at that point, or with the result of a \<^verbatim>\<open>return\<close> in its body.
\<close>

function loop :: "string \<Rightarrow> (string \<Rightarrow> ParamMatch) \<Rightarrow> Vars \<Rightarrow> Result + Vars" where
  "loop source sfind s =
     (if n s < length source \<and> source ! n s \<noteq> NUL then
        (case body source sfind s of
           Return r \<Rightarrow> Inl r
         | Continue s' \<Rightarrow> loop source sfind s'
         | Advance s' \<Rightarrow> loop source sfind (s'\<lparr>n := n s' + 1\<rparr>))
      else Inr s)"
  by pat_completeness auto

text \<open>
  The same loop, recording the variables each time the loop condition is evaluated (the
  last element is where the loop was left, unless its body returned).
\<close>

function states :: "string \<Rightarrow> (string \<Rightarrow> ParamMatch) \<Rightarrow> Vars \<Rightarrow> Vars list" where
  "states source sfind s =
     (if n s < length source \<and> source ! n s \<noteq> NUL then
        s # (case body source sfind s of
               Return r \<Rightarrow> []
             | Continue s' \<Rightarrow> states source sfind s'
             | Advance s' \<Rightarrow> states source sfind (s'\<lparr>n := n s' + 1\<rparr>))
      else [s])"
  by pat_completeness auto

subsection \<open>End of source\<close>

text \<open>The bookkeeping for a pending item; as in the loop, but without the Usage case.\<close>

definition endLevels :: "string \<Rightarrow> Vars \<Rightarrow> Encoding \<Rightarrow> Result + Vars" where
  "endLevels source s e =
     (if enc_arg e = colArgMap then
        (if usageAtLevel s \<noteq> colLevel s then
           Inl (error_at source s (n s) E_Missing_Usage_for_Collection)
         else Inr (s\<lparr>colLevel := colLevel s + 1\<rparr>))
      else if enc_arg e = endCol then
        (if colLevel s \<le> 0 then Inl (error_at source s (n s) E_Unexpected_EndCollection)
         else if reportSizes s < reportCounts s then
           Inl (error_at source s (n s) E_Missing_ReportSize)
         else if reportCounts s < reportSizes s then
           Inl (error_at source s (n s) E_Missing_ReportCount)
         else Inr (s\<lparr>colLevel := colLevel s - 1, usageAtLevel := usageAtLevel s - 1\<rparr>))
      else Inr s)"

definition endLiteral :: "Vars \<Rightarrow> Vars" where
  "endLiteral s =
     (if HID_WITHIN_HEX_LIT \<in> flags s \<or> HID_WITHIN_NUM_LIT \<in> flags s then
        (let s1 = s\<lparr>flags := flags s - {HID_WITHIN_HEX_LIT, HID_WITHIN_NUM_LIT}\<rparr>
         in if flags s1 = HID_START then s1\<lparr>out := encodeUnsigned (out s1) (lit s1)\<rparr> else s1)
      else s)"

definition endItem :: "string \<Rightarrow> Vars \<Rightarrow> Result + Vars" where
  "endItem source s =
     (if HID_WITHIN_ITEM \<in> flags s then
        (let s1 = s\<lparr>flags := flags s - {HID_WITHIN_ITEM}\<rparr>
         in case findEncoding (text_of source (tItem s1)) (entries itemMap) E_Invalid_item_name of
              (None, subError) \<Rightarrow> Inl (error_at source s1 (n s1) subError)
            | (Some e, subError) \<Rightarrow>
                (case endLevels source (s1\<lparr>encMap := Some e\<rparr>) e of
                   Inl r \<Rightarrow> Inl r
                 | Inr s2 \<Rightarrow>
                     if enc_arg e \<noteq> NULL \<and> (entries (enc_arg e) \<noteq> [] \<or> enc_arg e = usageArg) then
                       Inl (error_at source s2 (n s2) E_Missing_argument)
                     else if flags s2 = HID_START then
                       Inr (s2\<lparr>out := encodeUnsigned (out s2) (enc_value e)\<rparr>)
                     else Inr s2))
      else Inr s)"

definition finish :: "string \<Rightarrow> Vars \<Rightarrow> Result" where
  "finish source s =
     (case endItem source (endLiteral s) of
        Inl r \<Rightarrow> r
      | Inr s1 \<Rightarrow>
          if colLevel s1 > 0 then error_at source s1 (n s1) E_Missing_EndCollection
          else if delimLevel s1 > 0 then error_at source s1 (n s1) E_Missing_DelimiterClose
          else if flags s1 \<noteq> HID_START \<and> flags s1 \<noteq> {HID_WITHIN_COMMENT} then
            error_at source s1 (n s1) E_Unexpected_end_of_source
          else ((True, Info_default), out s1))"

text \<open>
  \<^verbatim>\<open>compile(source, out, error)\<close>, for a source with the bytes \<open>source\<close> (\<^verbatim>\<open>data()\<close>, of
  length \<^verbatim>\<open>size()\<close>) and the parameter lookup \<open>sfind\<close>.
\<close>

definition compile :: "string \<Rightarrow> (string \<Rightarrow> ParamMatch) \<Rightarrow> Result" where
  "compile source sfind =
     (case loop source sfind init of Inl r \<Rightarrow> r | Inr s \<Rightarrow> finish source s)"

text \<open>
  The measure of the loop. A pass that ends with \<^verbatim>\<open>continue\<close> leaves \<^verbatim>\<open>n\<close> as it is and
  either clears one of six flags or enters a number literal on a digit, which the next
  pass consumes; \<open>rank\<close> counts what is left of that.
\<close>

definition weight :: "State set \<Rightarrow> nat" where
  "weight f = card (f \<inter> {HID_WITHIN_UNIT, HID_WITHIN_UNIT_EXP, HID_WITHIN_UNIT_SYS,
                           HID_WITHIN_ARG, HID_WITHIN_HEX_LIT, HID_WITHIN_NUM_LIT})"

definition inNumLit :: "State set \<Rightarrow> bool" where
  "inNumLit f = (f \<noteq> HID_START \<and> HID_WITHIN_COMMENT \<notin> f \<and> HID_WITHIN_PARAM \<notin> f
                 \<and> HID_WITHIN_ITEM \<notin> f \<and> HID_WITHIN_ARG \<notin> f \<and> HID_WITHIN_HEX_LIT \<notin> f
                 \<and> HID_WITHIN_NUM_LIT \<in> f)"

definition rank :: "string \<Rightarrow> Vars \<Rightarrow> nat" where
  "rank source s =
     (if inNumLit (flags s) \<and> isDigit (ord (cur source s)) then 0 else 1 + weight (flags s))"

text \<open>The loop condition \<^verbatim>\<open>n < len && *ptr != 0\<close>.\<close>

definition running :: "string \<Rightarrow> Vars \<Rightarrow> bool" where
  "running source s = (n s < length source \<and> source ! n s \<noteq> NUL)"

text \<open>
  A result is a failure if it is what \<^verbatim>\<open>return errorMsg.at(pos, msg)\<close> gives for some
  position and some message other than \<^verbatim>\<open>E_NO_ERROR\<close>.
\<close>

definition isFailure :: "string \<Rightarrow> Result \<Rightarrow> bool" where
  "isFailure source r = (\<exists>pos msg. msg \<noteq> E_NO_ERROR \<and> fst r = at source pos msg)"

text \<open>\<open>stepsTo f s'\<close>: the pass through the body ended without \<^verbatim>\<open>return\<close>, with the variables \<open>s'\<close>.\<close>

definition stepsTo :: "Flow \<Rightarrow> Vars \<Rightarrow> bool" where
  "stepsTo f s' = (f = Continue s' \<or> f = Advance s')"

text \<open>
  The variables at the final checks of \<^verbatim>\<open>compile\<close> (after the loop and after a pending
  literal or item was handled), if they are reached.
\<close>

definition endOfSource :: "string \<Rightarrow> (string \<Rightarrow> ParamMatch) \<Rightarrow> Vars option" where
  "endOfSource source sfind =
     (case loop source sfind init of
        Inl r \<Rightarrow> None
      | Inr s \<Rightarrow> (case endItem source (endLiteral s) of Inl r \<Rightarrow> None | Inr s1 \<Rightarrow> Some s1))"


text \<open>
  Where an EndCollection is handled. In the loop: the byte after an item name is reached
  (whitespace or an opening parenthesis, in the branch for \<^verbatim>\<open>_HID_WITHIN(ITEM)\<close>) and the name
  resolves to the entry of \<^verbatim>\<open>itemMap\<close> whose \<^verbatim>\<open>arg\<close> is \<^verbatim>\<open>endCol\<close>; \<open>itemEnd\<close> is the value
  of \<^verbatim>\<open>n\<close> after the whitespace was skipped, where errors are reported. At the end of the
  source: the item name is pending and resolves to that entry.
\<close>

definition itemEnd :: "string \<Rightarrow> Vars \<Rightarrow> nat" where
  "itemEnd source t = (if isWhitespace (ord (cur source t)) then skipToParen source (n t) else n t)"

definition atEndCollection :: "string \<Rightarrow> Vars \<Rightarrow> bool" where
  "atEndCollection source t =
     (running source t \<and> flags t \<noteq> HID_START \<and> HID_WITHIN_COMMENT \<notin> flags t
      \<and> HID_WITHIN_PARAM \<notin> flags t \<and> HID_WITHIN_ITEM \<in> flags t
      \<and> (isWhitespace (ord (cur source t)) \<or> cur source t = CHR ''('')
      \<and> map_option enc_arg
            (fst (findEncoding (text_of source (tItem t)) (entries itemMap) E_Invalid_item_name))
          = Some endCol)"

definition pendingEndCollection :: "string \<Rightarrow> Vars \<Rightarrow> bool" where
  "pendingEndCollection source t =
     (HID_WITHIN_ITEM \<in> flags t
      \<and> map_option enc_arg
            (fst (findEncoding (text_of source (tItem t)) (entries itemMap) E_Invalid_item_name))
          = Some endCol)"

text \<open>
  The branch of the loop for the closing parenthesis of an argument list, after an argument,
  tests \<^verbatim>\<open>encMap->arg\<close> against \<^verbatim>\<open>signedNumArg\<close>, \<^verbatim>\<open>unitExpMap\<close>, \<^verbatim>\<open>delimMap\<close>, \<^verbatim>\<open>usagePageMap\<close> and
  \<^verbatim>\<open>usageArg\<close> and then \<^verbatim>\<open>encMap->value\<close> against 0x74 and 0x94. \<open>generalArg s v\<close>: none of the
  tests on \<^verbatim>\<open>encMap->arg\<close> holds and \<^verbatim>\<open>encMap->value\<close> is \<open>v\<close>. \<open>closesWith source v t\<close>: in the
  state \<open>t\<close> the loop is at such a parenthesis and \<open>generalArg t v\<close> holds.
\<close>

definition generalArg :: "Vars \<Rightarrow> 32 word \<Rightarrow> bool" where
  "generalArg s v =
     (enc_arg (deref (encMap s)) \<noteq> signedNumArg \<and> enc_arg (deref (encMap s)) \<noteq> unitExpMap
      \<and> enc_arg (deref (encMap s)) \<noteq> delimMap \<and> enc_arg (deref (encMap s)) \<noteq> usagePageMap
      \<and> enc_arg (deref (encMap s)) \<noteq> usageArg \<and> enc_value (deref (encMap s)) = v)"

definition closesWith :: "string \<Rightarrow> 32 word \<Rightarrow> Vars \<Rightarrow> bool" where
  "closesWith source v t =
     (running source t \<and> flags t \<noteq> HID_START \<and> HID_WITHIN_COMMENT \<notin> flags t
      \<and> HID_WITHIN_PARAM \<notin> flags t \<and> HID_WITHIN_ITEM \<notin> flags t \<and> HID_WITHIN_ARG \<notin> flags t
      \<and> HID_WITHIN_HEX_LIT \<notin> flags t \<and> HID_WITHIN_NUM_LIT \<notin> flags t
      \<and> HID_WITHIN_ARG_LIST \<in> flags t \<and> hasArg t \<and> cur source t = CHR '')''
      \<and> enc_arg (deref (encMap t)) \<noteq> signedNumArg \<and> enc_arg (deref (encMap t)) \<noteq> unitExpMap
      \<and> enc_arg (deref (encMap t)) \<noteq> delimMap \<and> enc_arg (deref (encMap t)) \<noteq> usagePageMap
      \<and> enc_arg (deref (encMap t)) \<noteq> usageArg \<and> enc_value (deref (encMap t)) = v)"

text \<open>Two states with the same values of \<^verbatim>\<open>reportSizes\<close> and \<^verbatim>\<open>reportCounts\<close>.\<close>

definition sameCounts :: "Vars \<Rightarrow> Vars \<Rightarrow> bool" where
  "sameCounts s s' = (reportSizes s' = reportSizes s \<and> reportCounts s' = reportCounts s)"
section \<open>Notions of the specification\<close>



text \<open>
  Positions as the specification describes them. A byte whose top two bits are binary 10
  (a UTF-8 continuation byte) has a value from 128 to 191, that is, \<open>value div 64 = 2\<close>.
  \<open>lastLine bs\<close> is what follows the last line feed of \<open>bs\<close> (all of \<open>bs\<close> if there is none).
\<close>

definition isContinuation :: "char \<Rightarrow> bool" where
  "isContinuation b = ((of_char b :: nat) div 64 = 2)"

definition lastLine :: "string \<Rightarrow> string" where
  "lastLine bs = rev (takeWhile (\<lambda>b. b \<noteq> LF) (rev bs))"

definition spec_character :: "string \<Rightarrow> nat \<Rightarrow> nat" where
  "spec_character source pos = length (filter (\<lambda>b. \<not> isContinuation b) (take pos source))"

definition spec_line :: "string \<Rightarrow> nat \<Rightarrow> nat" where
  "spec_line source pos = 1 + length (filter (\<lambda>b. b = LF) (take pos source))"

definition spec_column :: "string \<Rightarrow> nat \<Rightarrow> nat" where
  "spec_column source pos =
     1 + length (filter (\<lambda>b. \<not> isContinuation b \<and> b \<noteq> CR) (lastLine (take pos source)))"

section \<open>Termination of the scan loop\<close>

lemma skipWhitespace_ge: "k \<le> skipWhitespace source k"
proof (induction source k rule: skipWhitespace.induct)
  case (1 source k)
  show ?case
  proof (cases "k + 1 < length source \<and> isWhitespace (ord (source ! (k + 1)))")
    case True
    with 1 have "k + 1 \<le> skipWhitespace source (k + 1)" by simp
    moreover from True have "skipWhitespace source k = skipWhitespace source (k + 1)"
      by (subst skipWhitespace.simps) simp
    ultimately show ?thesis by simp
  next
    case False
    then have "skipWhitespace source k = k" by (subst skipWhitespace.simps) auto
    then show ?thesis by simp
  qed
qed

declare skipWhitespace.simps [simp del]

lemma skipToParen_ge: "k \<le> skipToParen source k"
proof -
  have "k \<le> skipWhitespace source k" by (rule skipWhitespace_ge)
  then show ?thesis by (simp add: skipToParen_def Let_def)
qed

lemma weight_le: "weight f \<le> 6"
proof -
  have "card (f \<inter> {HID_WITHIN_UNIT, HID_WITHIN_UNIT_EXP, HID_WITHIN_UNIT_SYS,
                     HID_WITHIN_ARG, HID_WITHIN_HEX_LIT, HID_WITHIN_NUM_LIT})
        \<le> card {HID_WITHIN_UNIT, HID_WITHIN_UNIT_EXP, HID_WITHIN_UNIT_SYS,
                 HID_WITHIN_ARG, HID_WITHIN_HEX_LIT, HID_WITHIN_NUM_LIT}"
    by (rule card_mono) auto
  then show ?thesis by (simp add: weight_def)
qed

lemma weight_remove:
  assumes "x \<in> f"
    and "x \<in> {HID_WITHIN_UNIT, HID_WITHIN_UNIT_EXP, HID_WITHIN_UNIT_SYS,
               HID_WITHIN_ARG, HID_WITHIN_HEX_LIT, HID_WITHIN_NUM_LIT}"
  shows "weight (f - {x}) < weight f"
proof -
  let ?W = "{HID_WITHIN_UNIT, HID_WITHIN_UNIT_EXP, HID_WITHIN_UNIT_SYS,
             HID_WITHIN_ARG, HID_WITHIN_HEX_LIT, HID_WITHIN_NUM_LIT}"
  have fin: "finite (f \<inter> ?W)" by simp
  have mem: "x \<in> f \<inter> ?W" using assms by blast
  have "(f - {x}) \<inter> ?W = (f \<inter> ?W) - {x}" by blast
  then have "weight (f - {x}) = card ((f \<inter> ?W) - {x})" by (simp only: weight_def)
  also have "\<dots> < card (f \<inter> ?W)" using fin mem by (rule card_Diff1_less)
  finally show ?thesis by (simp only: weight_def)
qed

lemma weight_insert_UNIT_DESC: "weight (insert HID_WITHIN_UNIT_DESC f) = weight f"
  by (simp add: weight_def)

lemma rank_le: "rank source s \<le> 7"
  using weight_le [of "flags s"] by (simp add: rank_def)

lemma rank_less:
  assumes "\<not> isDigit (ord (cur source s))" and "weight (flags s') < weight (flags s)"
  shows "rank source s' < rank source s"
  using assms by (simp add: rank_def)

lemma rank_enter_NUM_LIT:
  assumes "isDigit (ord (cur source s))" and "n s' = n s" and "inNumLit (flags s')"
    and "\<not> inNumLit (flags s)"
  shows "rank source s' < rank source s"
  using assms by (simp add: rank_def cur_def)

lemma isDigit_not_sep:
  "isDigit (ord c) \<Longrightarrow> \<not> isWhitespace (ord c) \<and> c \<noteq> CHR '')'' \<and> c \<noteq> CHR ''^'' \<and> c \<noteq> CHR '',''"
  by (auto simp: isDigit_def isWhitespace_def ord_def)

lemma stepStart_Continue:
  assumes "flags s = HID_START" and "stepStart source s = Continue s'"
  shows "n s' = n s \<and> rank source s' < rank source s"
proof -
  from assms(2) have d: "isDigit (ord (cur source s))" and s': "s' = s\<lparr>flags := {HID_WITHIN_NUM_LIT}, lit := 0\<rparr>"
    by (auto simp: stepStart_def Let_def error_at_def split: if_splits)
  have "rank source s' < rank source s"
    using d by (rule rank_enter_NUM_LIT) (simp_all add: s' inNumLit_def assms(1) HID_START_def)
  then show ?thesis by (simp add: s')
qed

lemma stepStart_Advance: "stepStart source s = Advance s' \<Longrightarrow> n s \<le> n s'"
  by (auto simp: stepStart_def Let_def split: if_splits)

lemma stepComment_Continue: "stepComment source s \<noteq> Continue s'"
  by (simp add: stepComment_def Let_def)

lemma stepComment_Advance: "stepComment source s = Advance s' \<Longrightarrow> n s \<le> n s'"
  by (auto simp: stepComment_def Let_def split: if_splits)

lemma stepParam_Continue: "stepParam source sfind s \<noteq> Continue s'"
  by (simp add: stepParam_def Let_def)

lemma stepParam_Advance: "stepParam source sfind s = Advance s' \<Longrightarrow> n s \<le> n s'"
  by (auto simp: stepParam_def Let_def split: if_splits)

lemma stepItem_Continue: "stepItem source s \<noteq> Continue s'"
  by (auto simp: stepItem_def Let_def split: prod.splits option.splits sum.splits)

lemma itemLevels_n: "itemLevels source s e = Inr s' \<Longrightarrow> n s' = n s"
  by (auto simp: itemLevels_def split: if_splits)

lemma stepItem_Advance: "stepItem source s = Advance s' \<Longrightarrow> n s \<le> n s'"
  using skipToParen_ge [of "n s" source]
  by (auto simp: stepItem_def Let_def dest!: itemLevels_n split: if_splits prod.splits option.splits sum.splits)

lemma stepUnit_Continue:
  assumes "HID_WITHIN_UNIT \<in> flags s" and "stepUnit source s = Continue s'"
  shows "n s' = n s \<and> rank source s' < rank source s"
proof -
  from assms(2) have nd: "\<not> isDigit (ord (cur source s))"
    by (auto simp: stepUnit_def Let_def dest: isDigit_not_sep split: if_splits)
  from assms(2) have f: "flags s' = flags s - {HID_WITHIN_UNIT}" and k: "n s' = n s"
    by (auto simp: stepUnit_def Let_def split: if_splits prod.splits option.splits)
  have "weight (flags s') < weight (flags s)"
    unfolding f using assms(1) by (rule weight_remove) simp
  with nd have "rank source s' < rank source s" by (rule rank_less)
  with k show ?thesis by simp
qed

lemma stepUnit_Advance: "stepUnit source s = Advance s' \<Longrightarrow> n s \<le> n s'"
  by (auto simp: stepUnit_def Let_def split: if_splits prod.splits option.splits)

lemma stepUnitExp_Continue:
  assumes "HID_WITHIN_UNIT_EXP \<in> flags s" and "stepUnitExp source s = Continue s'"
  shows "n s' = n s \<and> rank source s' < rank source s"
proof -
  from assms(2) have nd: "\<not> isDigit (ord (cur source s))"
    by (auto simp: stepUnitExp_def Let_def split: if_splits)
  from assms(2) have f: "flags s' = insert HID_WITHIN_UNIT_DESC (flags s - {HID_WITHIN_UNIT_EXP})"
    and k: "n s' = n s"
    by (auto simp: stepUnitExp_def Let_def split: if_splits prod.splits option.splits)
  have "weight (flags s - {HID_WITHIN_UNIT_EXP}) < weight (flags s)"
    using assms(1) by (rule weight_remove) simp
  then have "weight (flags s') < weight (flags s)"
    by (simp only: f weight_insert_UNIT_DESC)
  with nd have "rank source s' < rank source s" by (rule rank_less)
  with k show ?thesis by simp
qed

lemma stepUnitExp_Advance: "stepUnitExp source s = Advance s' \<Longrightarrow> n s \<le> n s'"
  by (auto simp: stepUnitExp_def Let_def split: if_splits prod.splits option.splits)

lemma stepUnitDesc_Continue:
  "stepUnitDesc source s = Continue s' \<Longrightarrow> n s' = n s \<and> rank source s' < rank source s"
  by (auto simp: stepUnitDesc_def Let_def dest: stepUnit_Continue stepUnitExp_Continue split: if_splits)

lemma stepUnitDesc_Advance: "stepUnitDesc source s = Advance s' \<Longrightarrow> n s \<le> n s'"
  by (auto simp: stepUnitDesc_def Let_def dest: stepUnit_Advance stepUnitExp_Advance split: if_splits)

lemma stepUnitSys_Continue:
  assumes "HID_WITHIN_UNIT_SYS \<in> flags s" and "stepUnitSys source s = Continue s'"
  shows "n s' = n s \<and> rank source s' < rank source s"
proof -
  from assms(2) have c: "cur source s = CHR '')''"
    by (auto simp: stepUnitSys_def Let_def split: if_splits prod.splits option.splits)
  then have nd: "\<not> isDigit (ord (cur source s))" by (simp add: isDigit_def ord_def)
  from assms(2) have f: "flags s' = flags s - {HID_WITHIN_UNIT_SYS}" and k: "n s' = n s"
    by (auto simp: stepUnitSys_def Let_def split: if_splits prod.splits option.splits)
  have "weight (flags s') < weight (flags s)"
    unfolding f using assms(1) by (rule weight_remove) simp
  with nd have "rank source s' < rank source s" by (rule rank_less)
  with k show ?thesis by simp
qed

lemma stepUnitSys_Advance: "stepUnitSys source s = Advance s' \<Longrightarrow> n s \<le> n s'"
  using skipToParen_ge [of "n s" source]
  by (auto simp: stepUnitSys_def Let_def split: if_splits prod.splits option.splits)

lemma stepArgEnd_Continue:
  assumes "HID_WITHIN_ARG \<in> flags s" and "stepArgEnd source s = Continue s'"
  shows "n s' = n s \<and> rank source s' < rank source s"
proof -
  from assms(2) have c: "cur source s = CHR '')''"
    by (auto simp: stepArgEnd_def Let_def split: if_splits prod.splits option.splits)
  then have nd: "\<not> isDigit (ord (cur source s))" by (simp add: isDigit_def ord_def)
  from assms(2) have f: "flags s' = flags s - {HID_WITHIN_ARG}" and k: "n s' = n s"
    by (auto simp: stepArgEnd_def Let_def split: if_splits prod.splits option.splits)
  have "weight (flags s') < weight (flags s)"
    unfolding f using assms(1) by (rule weight_remove) simp
  with nd have "rank source s' < rank source s" by (rule rank_less)
  with k show ?thesis by simp
qed

lemma stepArgEnd_Advance: "stepArgEnd source s = Advance s' \<Longrightarrow> n s \<le> n s'"
  by (auto simp: stepArgEnd_def Let_def split: if_splits prod.splits option.splits)

lemma stepArg_Continue:
  "HID_WITHIN_ARG \<in> flags s \<Longrightarrow> stepArg source s = Continue s' \<Longrightarrow>
   n s' = n s \<and> rank source s' < rank source s"
  by (auto simp: stepArg_def Let_def
           dest: stepUnitDesc_Continue stepUnitSys_Continue stepArgEnd_Continue split: if_splits)

lemma stepArg_Advance: "stepArg source s = Advance s' \<Longrightarrow> n s \<le> n s'"
  by (auto simp: stepArg_def Let_def
           dest: stepUnitDesc_Advance stepUnitSys_Advance stepArgEnd_Advance split: if_splits)

lemma stepHexLit_Continue:
  assumes "HID_WITHIN_HEX_LIT \<in> flags s" and "stepHexLit source s = Continue s'"
  shows "n s' = n s \<and> rank source s' < rank source s"
proof -
  from assms(2) have c: "cur source s = CHR '')''"
    by (auto simp: stepHexLit_def Let_def split: if_splits)
  then have nd: "\<not> isDigit (ord (cur source s))" by (simp add: isDigit_def ord_def)
  from assms(2) have f: "flags s' = flags s - {HID_WITHIN_HEX_LIT}" and k: "n s' = n s"
    by (auto simp: stepHexLit_def Let_def split: if_splits)
  have "weight (flags s') < weight (flags s)"
    unfolding f using assms(1) by (rule weight_remove) simp
  with nd have "rank source s' < rank source s" by (rule rank_less)
  with k show ?thesis by simp
qed

lemma stepHexLit_Advance: "stepHexLit source s = Advance s' \<Longrightarrow> n s \<le> n s'"
  by (auto simp: stepHexLit_def Let_def split: if_splits)

lemma stepNumLit_Continue:
  assumes "HID_WITHIN_NUM_LIT \<in> flags s" and "stepNumLit source s = Continue s'"
  shows "n s' = n s \<and> rank source s' < rank source s"
proof -
  from assms(2) have c: "cur source s = CHR '')''"
    by (auto simp: stepNumLit_def Let_def split: if_splits)
  then have nd: "\<not> isDigit (ord (cur source s))" by (simp add: isDigit_def ord_def)
  from assms(2) have f: "flags s' = flags s - {HID_WITHIN_NUM_LIT}" and k: "n s' = n s"
    by (auto simp: stepNumLit_def Let_def split: if_splits)
  have "weight (flags s') < weight (flags s)"
    unfolding f using assms(1) by (rule weight_remove) simp
  with nd have "rank source s' < rank source s" by (rule rank_less)
  with k show ?thesis by simp
qed

lemma stepNumLit_Advance: "stepNumLit source s = Advance s' \<Longrightarrow> n s \<le> n s'"
  by (auto simp: stepNumLit_def Let_def split: if_splits)

lemma closeArgList_Continue: "closeArgList source s \<noteq> Continue s'"
  by (simp add: closeArgList_def Let_def)

lemma closeArgList_Advance: "closeArgList source s = Advance s' \<Longrightarrow> n s \<le> n s'"
  by (auto simp: closeArgList_def Let_def split: if_splits)

lemma stepArgList_Continue:
  assumes "flags s \<noteq> HID_START" and "HID_WITHIN_COMMENT \<notin> flags s" and "HID_WITHIN_PARAM \<notin> flags s"
    and "HID_WITHIN_ITEM \<notin> flags s" and "HID_WITHIN_ARG \<notin> flags s" and "HID_WITHIN_HEX_LIT \<notin> flags s"
    and "HID_WITHIN_NUM_LIT \<notin> flags s" and "stepArgList source s = Continue s'"
  shows "n s' = n s \<and> rank source s' < rank source s"
proof -
  from assms(8) have d: "isDigit (ord (cur source s))"
    and s': "s' = s\<lparr>flags := insert HID_WITHIN_NUM_LIT (flags s), lit := 0\<rparr>"
    by (auto simp: stepArgList_def Let_def closeArgList_Continue split: if_splits)
  have "rank source s' < rank source s"
    using d by (rule rank_enter_NUM_LIT) (simp_all add: s' inNumLit_def assms HID_START_def)
  then show ?thesis by (simp add: s')
qed

lemma stepArgList_Advance: "stepArgList source s = Advance s' \<Longrightarrow> n s \<le> n s'"
  by (auto simp: stepArgList_def Let_def dest: closeArgList_Advance split: if_splits)

lemma body_Continue:
  assumes "body source sfind s = Continue s'"
  shows "n s' = n s \<and> rank source s' < rank source s"
proof -
  consider (start) "flags s = HID_START"
    | (comment) "flags s \<noteq> HID_START" "HID_WITHIN_COMMENT \<in> flags s"
    | (param) "flags s \<noteq> HID_START" "HID_WITHIN_COMMENT \<notin> flags s" "HID_WITHIN_PARAM \<in> flags s"
    | (item) "flags s \<noteq> HID_START" "HID_WITHIN_COMMENT \<notin> flags s" "HID_WITHIN_PARAM \<notin> flags s"
        "HID_WITHIN_ITEM \<in> flags s"
    | (arg) "flags s \<noteq> HID_START" "HID_WITHIN_COMMENT \<notin> flags s" "HID_WITHIN_PARAM \<notin> flags s"
        "HID_WITHIN_ITEM \<notin> flags s" "HID_WITHIN_ARG \<in> flags s"
    | (hex) "flags s \<noteq> HID_START" "HID_WITHIN_COMMENT \<notin> flags s" "HID_WITHIN_PARAM \<notin> flags s"
        "HID_WITHIN_ITEM \<notin> flags s" "HID_WITHIN_ARG \<notin> flags s" "HID_WITHIN_HEX_LIT \<in> flags s"
    | (num) "flags s \<noteq> HID_START" "HID_WITHIN_COMMENT \<notin> flags s" "HID_WITHIN_PARAM \<notin> flags s"
        "HID_WITHIN_ITEM \<notin> flags s" "HID_WITHIN_ARG \<notin> flags s" "HID_WITHIN_HEX_LIT \<notin> flags s"
        "HID_WITHIN_NUM_LIT \<in> flags s"
    | (other) "flags s \<noteq> HID_START" "HID_WITHIN_COMMENT \<notin> flags s" "HID_WITHIN_PARAM \<notin> flags s"
        "HID_WITHIN_ITEM \<notin> flags s" "HID_WITHIN_ARG \<notin> flags s" "HID_WITHIN_HEX_LIT \<notin> flags s"
        "HID_WITHIN_NUM_LIT \<notin> flags s"
    by blast
  then show ?thesis
  proof cases
    case start
    with assms have "stepStart source s = Continue s'" by (simp add: body_def)
    with start show ?thesis by (rule stepStart_Continue)
  next
    case comment
    with assms show ?thesis by (simp add: body_def stepComment_Continue)
  next
    case param
    with assms show ?thesis by (simp add: body_def stepParam_Continue)
  next
    case item
    with assms show ?thesis by (simp add: body_def stepItem_Continue)
  next
    case arg
    with assms have "stepArg source s = Continue s'" by (simp add: body_def)
    with arg(5) show ?thesis by (rule stepArg_Continue)
  next
    case hex
    with assms have "stepHexLit source s = Continue s'" by (simp add: body_def)
    with hex(6) show ?thesis by (rule stepHexLit_Continue)
  next
    case num
    with assms have "stepNumLit source s = Continue s'" by (simp add: body_def)
    with num(7) show ?thesis by (rule stepNumLit_Continue)
  next
    case other
    with assms have "stepArgList source s = Continue s'"
      by (simp add: body_def split: if_splits)
    with other show ?thesis by (rule stepArgList_Continue)
  qed
qed

lemma body_Advance: "body source sfind s = Advance s' \<Longrightarrow> n s \<le> n s'"
  unfolding body_def
  by (auto dest: stepStart_Advance stepComment_Advance stepParam_Advance stepItem_Advance
                 stepArg_Advance stepHexLit_Advance stepNumLit_Advance stepArgList_Advance
           split: if_splits)

lemma loop_measure_Continue:
  "body source sfind s = Continue s' \<Longrightarrow>
   8 * (length source - n s') + rank source s' < 8 * (length source - n s) + rank source s"
  using body_Continue [of source sfind s s'] by simp

lemma loop_measure_Advance:
  assumes "body source sfind s = Advance s'" and "n s < length source"
  shows "8 * (length source - n (s'\<lparr>n := n s' + 1\<rparr>)) + rank source (s'\<lparr>n := n s' + 1\<rparr>)
         < 8 * (length source - n s) + rank source s"
proof -
  have "n s \<le> n s'" using assms(1) by (rule body_Advance)
  moreover have "rank source (s'\<lparr>n := n s' + 1\<rparr>) \<le> 7" by (rule rank_le)
  ultimately show ?thesis using assms(2) by simp
qed

termination loop
  apply (relation "measure (\<lambda>(source, sfind, s). 8 * (length source - n s) + rank source s)")
    apply simp
   apply (simp only: in_measure prod.case)
   apply (erule loop_measure_Continue)
  apply (simp only: in_measure prod.case)
  apply (erule loop_measure_Advance)
  apply simp
  done

termination states
  apply (relation "measure (\<lambda>(source, sfind, s). 8 * (length source - n s) + rank source s)")
    apply simp
   apply (simp only: in_measure prod.case)
   apply (erule loop_measure_Continue)
  apply (simp only: in_measure prod.case)
  apply (erule loop_measure_Advance)
  apply simp
  done

declare loop.simps [simp del]
declare states.simps [simp del]

section \<open>Claims\<close>

text \<open>
  C1. For the source \<^verbatim>\<open>Unit(SiLin(Length^2 Mass^3 Time^4 Temp^5 Current^6 Luminous^7))\<close> and an
  empty parameter set, \<^verbatim>\<open>compile\<close> returns \<^verbatim>\<open>true\<close>, leaves the default diagnostic (message
  \<^verbatim>\<open>E_NO_ERROR\<close>) and writes exactly the bytes 0x67 0x21 0x43 0x65 0x07, in this order. This
  holds for the text alone (a source whose \<^verbatim>\<open>size()\<close> is the length of the text) and for the
  NUL-terminated copy that \<^verbatim>\<open>fromSource\<close> makes of it.
\<close>

theorem C1_unit_description_bytes:
  "compile ''Unit(SiLin(Length^2 Mass^3 Time^4 Temp^5 Current^6 Luminous^7))'' (Source_find [])
     = ((True, \<lparr>character = 0, line = 0, column = 0, message = E_NO_ERROR\<rparr>),
        [0x67, 0x21, 0x43, 0x65, 0x07])
   \<and> compile (fromSource ''Unit(SiLin(Length^2 Mass^3 Time^4 Temp^5 Current^6 Luminous^7))'')
       (Source_find [])
     = ((True, \<lparr>character = 0, line = 0, column = 0, message = E_NO_ERROR\<rparr>),
        [0x67, 0x21, 0x43, 0x65, 0x07])"
  by code_simp

section \<open>Integer codec: signed values round-trip\<close>




















section \<open>Diagnostic positions\<close>

lemma lead_iff: "(ord b AND 0xC0 \<noteq> 0x80) = (\<not> isContinuation b)"
proof (cases b)
  case (Char b0 b1 b2 b3 b4 b5 b6 b7)
  show ?thesis unfolding Char ord_def isContinuation_def
    by (cases b0; cases b1; cases b2; cases b3; cases b4; cases b5; cases b6; cases b7; simp)
qed

lemma LF_lead: "\<not> isContinuation LF"
  by (simp add: isContinuation_def LF_def)

lemma lastLine_Nil: "lastLine [] = []"
  by (simp add: lastLine_def)

lemma lastLine_no_LF:
  assumes "LF \<notin> set bs"
  shows "lastLine bs = bs"
proof -
  have "takeWhile (\<lambda>b. b \<noteq> LF) (rev bs) = rev bs"
    by (rule takeWhile_eq_all_conv [THEN iffD2]) (use assms in auto)
  then show ?thesis by (simp only: lastLine_def rev_rev_ident)
qed

lemma lastLine_Cons:
  "lastLine (b # bs) = (if LF \<in> set bs then lastLine bs else if b = LF then bs else b # bs)"
proof (cases "LF \<in> set bs")
  case True
  then have "LF \<in> set (rev bs)" by simp
  then have "takeWhile (\<lambda>b. b \<noteq> LF) (rev bs @ [b]) = takeWhile (\<lambda>b. b \<noteq> LF) (rev bs)"
    by (intro takeWhile_append1) auto
  with True show ?thesis by (simp add: lastLine_def)
next
  case False
  then have "\<And>x. x \<in> set (rev bs) \<Longrightarrow> x \<noteq> LF" by auto
  then have "takeWhile (\<lambda>b. b \<noteq> LF) (rev bs @ [b]) = rev bs @ takeWhile (\<lambda>b. b \<noteq> LF) [b]"
    by (rule takeWhile_append2)
  with False show ?thesis by (simp add: lastLine_def)
qed

lemma at_loop_message: "message (at_loop bs e) = message e"
  by (induction bs arbitrary: e) (simp_all add: Let_def)

lemma at_loop_character:
  "character (at_loop bs e) = character e + length (filter (\<lambda>b. \<not> isContinuation b) bs)"
  by (induction bs arbitrary: e) (simp_all add: Let_def lead_iff)

lemma at_loop_line: "line (at_loop bs e) = line e + length (filter (\<lambda>b. b = LF) bs)"
  by (induction bs arbitrary: e) (simp_all add: Let_def)

lemma at_loop_column:
  "column (at_loop bs e) =
     (if LF \<in> set bs then 1 else column e)
       + length (filter (\<lambda>b. \<not> isContinuation b \<and> b \<noteq> CR) (lastLine bs))"
proof (induction bs arbitrary: e)
  case Nil
  show ?case by (simp add: lastLine_Nil)
next
  case (Cons b bs)
  show ?case
  proof (cases "LF \<in> set bs")
    case True
    then show ?thesis by (simp add: Cons.IH Let_def lastLine_Cons)
  next
    case False
    then have "lastLine bs = bs" by (rule lastLine_no_LF)
    with False show ?thesis by (simp add: Cons.IH Let_def lastLine_Cons lead_iff LF_lead)
  qed
qed

text \<open>
  C7. For every source and byte offset \<open>pos\<close>, \<^verbatim>\<open>ErrorWriter::at(pos, msg)\<close> sets
  \<^verbatim>\<open>character\<close> to the number of bytes in \<open>[0, pos)\<close> whose top two bits are not binary 10,
  \<^verbatim>\<open>line\<close> to 1 plus the number of line feeds in \<open>[0, pos)\<close>, \<^verbatim>\<open>column\<close> to 1 plus the number
  of such bytes, carriage returns left out, after the last line feed in \<open>[0, pos)\<close>, and
  \<^verbatim>\<open>message\<close> to \<open>msg\<close>, and returns \<^verbatim>\<open>false\<close>. (For \<open>pos\<close> within the source; the model reads
  no byte beyond the end of the source.)
\<close>

theorem C7_error_position:
  "at source pos msg =
     (False, \<lparr>character = spec_character source pos, line = spec_line source pos,
              column = spec_column source pos, message = msg\<rparr>)"
proof -
  let ?e = "\<lparr>character = 0, line = 1, column = 1, message = msg\<rparr>"
  let ?r = "at_loop (take pos source) ?e"
  have "character ?r = spec_character source pos"
    by (simp add: at_loop_character spec_character_def)
  moreover have "line ?r = spec_line source pos"
    by (simp add: at_loop_line spec_line_def)
  moreover have "column ?r = spec_column source pos"
    by (simp add: at_loop_column spec_column_def)
  moreover have "message ?r = msg"
    by (simp add: at_loop_message)
  ultimately have "?r = \<lparr>character = spec_character source pos, line = spec_line source pos,
              column = spec_column source pos, message = msg\<rparr>"
    by (cases ?r) simp
  then show ?thesis by (simp add: at_def)
qed

section \<open>The loop and its states\<close>

lemma loop_unfold:
  "loop source sfind s =
     (if running source s then
        (case body source sfind s of
           Return r \<Rightarrow> Inl r
         | Continue s' \<Rightarrow> loop source sfind s'
         | Advance s' \<Rightarrow> loop source sfind (s'\<lparr>n := n s' + 1\<rparr>))
      else Inr s)"
  unfolding running_def by (rule loop.simps)

lemma states_unfold:
  "states source sfind s =
     (if running source s then
        s # (case body source sfind s of
               Return r \<Rightarrow> []
             | Continue s' \<Rightarrow> states source sfind s'
             | Advance s' \<Rightarrow> states source sfind (s'\<lparr>n := n s' + 1\<rparr>))
      else [s])"
  unfolding running_def by (rule states.simps)

lemma states_self: "s \<in> set (states source sfind s)"
  by (subst states_unfold) simp


lemma loop_from_state:
  "t \<in> set (states source sfind s) \<Longrightarrow> loop source sfind t = loop source sfind s"
proof (induction source sfind s rule: states.induct)
  case (1 source sfind s)
  show ?case
  proof (cases "running source s")
    case False
    with "1.prems" show ?thesis by (subst (asm) states_unfold) simp
  next
    case True
    show ?thesis
    proof (cases "body source sfind s")
      case (Return r)
      with True "1.prems" show ?thesis by (subst (asm) states_unfold) simp
    next
      case (Continue s')
      from "1.prems" True Continue have "t = s \<or> t \<in> set (states source sfind s')"
        by (subst (asm) states_unfold) simp
      then show ?thesis
      proof
        assume "t = s" then show ?thesis by simp
      next
        assume "t \<in> set (states source sfind s')"
        then have "loop source sfind t = loop source sfind s'"
          using "1.IH"(1) True Continue by (simp add: running_def)
        also have "\<dots> = loop source sfind s"
          using True Continue by (subst (2) loop_unfold) simp
        finally show ?thesis .
      qed
    next
      case (Advance s')
      from "1.prems" True Advance have "t = s \<or> t \<in> set (states source sfind (s'\<lparr>n := n s' + 1\<rparr>))"
        by (subst (asm) states_unfold) simp
      then show ?thesis
      proof
        assume "t = s" then show ?thesis by simp
      next
        assume "t \<in> set (states source sfind (s'\<lparr>n := n s' + 1\<rparr>))"
        then have "loop source sfind t = loop source sfind (s'\<lparr>n := n s' + 1\<rparr>)"
          using "1.IH"(2) True Advance by (simp add: running_def)
        also have "\<dots> = loop source sfind s"
          using True Advance by (subst (2) loop_unfold) simp
        finally show ?thesis .
      qed
    qed
  qed
qed


lemma loop_Inl_state:
  "loop source sfind s = Inl r \<Longrightarrow>
   \<exists>t \<in> set (states source sfind s). running source t \<and> body source sfind t = Return r"
proof (induction source sfind s rule: loop.induct)
  case (1 source sfind s)
  show ?case
  proof (cases "running source s")
    case False
    with "1.prems" show ?thesis by (subst (asm) loop_unfold) simp
  next
    case True
    show ?thesis
    proof (cases "body source sfind s")
      case (Return r')
      with True "1.prems" have "r' = r" by (subst (asm) loop_unfold) simp
      with True Return show ?thesis using states_self by blast
    next
      case (Continue s')
      with True "1.prems" have "loop source sfind s' = Inl r" by (subst (asm) loop_unfold) simp
      then have "\<exists>t \<in> set (states source sfind s'). running source t \<and> body source sfind t = Return r"
        using "1.IH"(1) True Continue by (simp add: running_def)
      then show ?thesis using True Continue by (subst states_unfold) simp
    next
      case (Advance s')
      with True "1.prems" have "loop source sfind (s'\<lparr>n := n s' + 1\<rparr>) = Inl r"
        by (subst (asm) loop_unfold) simp
      then have "\<exists>t \<in> set (states source sfind (s'\<lparr>n := n s' + 1\<rparr>)).
                   running source t \<and> body source sfind t = Return r"
        using "1.IH"(2) True Advance by (simp add: running_def)
      then show ?thesis using True Advance by (subst states_unfold) simp
    qed
  qed
qed

lemma loop_Return_state:
  assumes "t \<in> set (states source sfind s)" and "running source t" and "body source sfind t = Return r"
  shows "loop source sfind s = Inl r"
proof -
  have "loop source sfind t = Inl r" using assms(2,3) by (subst loop_unfold) simp
  with assms(1) show ?thesis by (simp add: loop_from_state)
qed

section \<open>The dispatch of the loop body\<close>

lemma dispatch_cases [case_names start comment param item arg hex num list none]:
  obtains (start) "flags s = HID_START"
    | (comment) "flags s \<noteq> HID_START" "HID_WITHIN_COMMENT \<in> flags s"
    | (param) "flags s \<noteq> HID_START" "HID_WITHIN_COMMENT \<notin> flags s" "HID_WITHIN_PARAM \<in> flags s"
    | (item) "flags s \<noteq> HID_START" "HID_WITHIN_COMMENT \<notin> flags s" "HID_WITHIN_PARAM \<notin> flags s"
        "HID_WITHIN_ITEM \<in> flags s"
    | (arg) "flags s \<noteq> HID_START" "HID_WITHIN_COMMENT \<notin> flags s" "HID_WITHIN_PARAM \<notin> flags s"
        "HID_WITHIN_ITEM \<notin> flags s" "HID_WITHIN_ARG \<in> flags s"
    | (hex) "flags s \<noteq> HID_START" "HID_WITHIN_COMMENT \<notin> flags s" "HID_WITHIN_PARAM \<notin> flags s"
        "HID_WITHIN_ITEM \<notin> flags s" "HID_WITHIN_ARG \<notin> flags s" "HID_WITHIN_HEX_LIT \<in> flags s"
    | (num) "flags s \<noteq> HID_START" "HID_WITHIN_COMMENT \<notin> flags s" "HID_WITHIN_PARAM \<notin> flags s"
        "HID_WITHIN_ITEM \<notin> flags s" "HID_WITHIN_ARG \<notin> flags s" "HID_WITHIN_HEX_LIT \<notin> flags s"
        "HID_WITHIN_NUM_LIT \<in> flags s"
    | (list) "flags s \<noteq> HID_START" "HID_WITHIN_COMMENT \<notin> flags s" "HID_WITHIN_PARAM \<notin> flags s"
        "HID_WITHIN_ITEM \<notin> flags s" "HID_WITHIN_ARG \<notin> flags s" "HID_WITHIN_HEX_LIT \<notin> flags s"
        "HID_WITHIN_NUM_LIT \<notin> flags s" "HID_WITHIN_ARG_LIST \<in> flags s"
    | (none) "flags s \<noteq> HID_START" "HID_WITHIN_COMMENT \<notin> flags s" "HID_WITHIN_PARAM \<notin> flags s"
        "HID_WITHIN_ITEM \<notin> flags s" "HID_WITHIN_ARG \<notin> flags s" "HID_WITHIN_HEX_LIT \<notin> flags s"
        "HID_WITHIN_NUM_LIT \<notin> flags s" "HID_WITHIN_ARG_LIST \<notin> flags s"
proof (cases "flags s = HID_START")
  case True
  then show ?thesis by (rule start)
next
  case f: False
  show ?thesis
  proof (cases "HID_WITHIN_COMMENT \<in> flags s")
    case True
    with f show ?thesis by (rule comment)
  next
    case c: False
    show ?thesis
    proof (cases "HID_WITHIN_PARAM \<in> flags s")
      case True
      with f c show ?thesis by (rule param)
    next
      case p: False
      show ?thesis
      proof (cases "HID_WITHIN_ITEM \<in> flags s")
        case True
        with f c p show ?thesis by (rule item)
      next
        case i: False
        show ?thesis
        proof (cases "HID_WITHIN_ARG \<in> flags s")
          case True
          with f c p i show ?thesis by (rule arg)
        next
          case a: False
          show ?thesis
          proof (cases "HID_WITHIN_HEX_LIT \<in> flags s")
            case True
            with f c p i a show ?thesis by (rule hex)
          next
            case h: False
            show ?thesis
            proof (cases "HID_WITHIN_NUM_LIT \<in> flags s")
              case True
              with f c p i a h show ?thesis by (rule num)
            next
              case m: False
              show ?thesis
              proof (cases "HID_WITHIN_ARG_LIST \<in> flags s")
                case True
                with f c p i a h m show ?thesis by (rule list)
              next
                case False
                with f c p i a h m show ?thesis by (rule none)
              qed
            qed
          qed
        qed
      qed
    qed
  qed
qed

lemma body_start: "flags s = HID_START \<Longrightarrow> body source sfind s = stepStart source s"
  by (simp add: body_def)

lemma body_comment:
  "flags s \<noteq> HID_START \<Longrightarrow> HID_WITHIN_COMMENT \<in> flags s \<Longrightarrow> body source sfind s = stepComment source s"
  by (simp add: body_def)

lemma body_param:
  "flags s \<noteq> HID_START \<Longrightarrow> HID_WITHIN_COMMENT \<notin> flags s \<Longrightarrow> HID_WITHIN_PARAM \<in> flags s \<Longrightarrow>
   body source sfind s = stepParam source sfind s"
  by (simp add: body_def)

lemma body_item:
  "flags s \<noteq> HID_START \<Longrightarrow> HID_WITHIN_COMMENT \<notin> flags s \<Longrightarrow> HID_WITHIN_PARAM \<notin> flags s \<Longrightarrow>
   HID_WITHIN_ITEM \<in> flags s \<Longrightarrow> body source sfind s = stepItem source s"
  by (simp add: body_def)

lemma body_arg:
  "flags s \<noteq> HID_START \<Longrightarrow> HID_WITHIN_COMMENT \<notin> flags s \<Longrightarrow> HID_WITHIN_PARAM \<notin> flags s \<Longrightarrow>
   HID_WITHIN_ITEM \<notin> flags s \<Longrightarrow> HID_WITHIN_ARG \<in> flags s \<Longrightarrow> body source sfind s = stepArg source s"
  by (simp add: body_def)

lemma body_hex:
  "flags s \<noteq> HID_START \<Longrightarrow> HID_WITHIN_COMMENT \<notin> flags s \<Longrightarrow> HID_WITHIN_PARAM \<notin> flags s \<Longrightarrow>
   HID_WITHIN_ITEM \<notin> flags s \<Longrightarrow> HID_WITHIN_ARG \<notin> flags s \<Longrightarrow> HID_WITHIN_HEX_LIT \<in> flags s \<Longrightarrow>
   body source sfind s = stepHexLit source s"
  by (simp add: body_def)

lemma body_num:
  "flags s \<noteq> HID_START \<Longrightarrow> HID_WITHIN_COMMENT \<notin> flags s \<Longrightarrow> HID_WITHIN_PARAM \<notin> flags s \<Longrightarrow>
   HID_WITHIN_ITEM \<notin> flags s \<Longrightarrow> HID_WITHIN_ARG \<notin> flags s \<Longrightarrow> HID_WITHIN_HEX_LIT \<notin> flags s \<Longrightarrow>
   HID_WITHIN_NUM_LIT \<in> flags s \<Longrightarrow> body source sfind s = stepNumLit source s"
  by (simp add: body_def)

lemma body_list:
  "flags s \<noteq> HID_START \<Longrightarrow> HID_WITHIN_COMMENT \<notin> flags s \<Longrightarrow> HID_WITHIN_PARAM \<notin> flags s \<Longrightarrow>
   HID_WITHIN_ITEM \<notin> flags s \<Longrightarrow> HID_WITHIN_ARG \<notin> flags s \<Longrightarrow> HID_WITHIN_HEX_LIT \<notin> flags s \<Longrightarrow>
   HID_WITHIN_NUM_LIT \<notin> flags s \<Longrightarrow> HID_WITHIN_ARG_LIST \<in> flags s \<Longrightarrow>
   body source sfind s = stepArgList source s"
  by (simp add: body_def)

lemma body_none:
  "flags s \<noteq> HID_START \<Longrightarrow> HID_WITHIN_COMMENT \<notin> flags s \<Longrightarrow> HID_WITHIN_PARAM \<notin> flags s \<Longrightarrow>
   HID_WITHIN_ITEM \<notin> flags s \<Longrightarrow> HID_WITHIN_ARG \<notin> flags s \<Longrightarrow> HID_WITHIN_HEX_LIT \<notin> flags s \<Longrightarrow>
   HID_WITHIN_NUM_LIT \<notin> flags s \<Longrightarrow> HID_WITHIN_ARG_LIST \<notin> flags s \<Longrightarrow>
   body source sfind s = Advance s"
  by (simp add: body_def)

section \<open>Every return is one call of \<^verbatim>\<open>ErrorWriter::at\<close>\<close>

lemma isFailure_error_at: "msg \<noteq> E_NO_ERROR \<Longrightarrow> isFailure source (error_at source s pos msg)"
  unfolding isFailure_def error_at_def by auto

lemma indexNum_Inl: "indexNum ds k = Inl e \<Longrightarrow> e \<noteq> E_NO_ERROR"
  by (induction ds arbitrary: k) (auto simp: Let_def split: if_splits)

lemma findEncoding_loop_None:
  "findEncoding_loop tok ms i e0 = (None, e) \<Longrightarrow> e0 \<noteq> E_NO_ERROR \<Longrightarrow> e \<noteq> E_NO_ERROR"
proof (induction ms arbitrary: i)
  case Nil
  then show ?case by simp
next
  case (Cons m rest)
  show ?case
  proof (cases "equalsI tok (enc_name m)")
    case True
    with Cons.prems show ?thesis by simp
  next
    case False
    show ?thesis
    proof (cases "i < 3 \<and> strFindChr (enc_name m) (CHR ''#'') \<ge> 0")
      case True
      with False Cons.prems(1) show ?thesis
        by (auto simp: Let_def split: if_splits sum.splits dest: indexNum_Inl)
    next
      case False2: False
      with False Cons.prems(1) have "findEncoding_loop tok rest (i + 1) e0 = (None, e)" by auto
      then show ?thesis using Cons.prems(2) by (rule Cons.IH)
    qed
  qed
qed

lemma findEncoding_None:
  "findEncoding tok ms e0 = (None, e) \<Longrightarrow> e0 \<noteq> E_NO_ERROR \<Longrightarrow> e \<noteq> E_NO_ERROR"
  by (auto simp: findEncoding_def dest: findEncoding_loop_None split: if_splits)

lemma stepStart_Return: "stepStart source s = Return r \<Longrightarrow> isFailure source r"
  by (auto simp: stepStart_def Let_def intro!: isFailure_error_at split: if_splits)

lemma stepComment_Return: "stepComment source s \<noteq> Return r"
  by (simp add: stepComment_def Let_def)

lemma stepParam_Return: "stepParam source sfind s = Return r \<Longrightarrow> isFailure source r"
  by (auto simp: stepParam_def Let_def intro!: isFailure_error_at split: if_splits)

lemma itemLevels_Inl: "itemLevels source s e = Inl r \<Longrightarrow> isFailure source r"
  by (auto simp: itemLevels_def intro!: isFailure_error_at split: if_splits)

lemma stepItem_Return: "stepItem source s = Return r \<Longrightarrow> isFailure source r"
  by (auto simp: stepItem_def Let_def intro!: isFailure_error_at
           dest: findEncoding_None itemLevels_Inl split: if_splits prod.splits option.splits sum.splits)

lemma stepUnit_Return: "stepUnit source s = Return r \<Longrightarrow> isFailure source r"
  by (auto simp: stepUnit_def Let_def intro!: isFailure_error_at
           dest: findEncoding_None split: if_splits prod.splits option.splits)

lemma stepUnitExp_Return: "stepUnitExp source s = Return r \<Longrightarrow> isFailure source r"
  by (auto simp: stepUnitExp_def Let_def intro!: isFailure_error_at
           dest: findEncoding_None split: if_splits prod.splits option.splits)

lemma stepUnitDesc_Return: "stepUnitDesc source s = Return r \<Longrightarrow> isFailure source r"
  by (auto simp: stepUnitDesc_def Let_def intro!: isFailure_error_at
           dest: stepUnit_Return stepUnitExp_Return split: if_splits)

lemma stepUnitSys_Return: "stepUnitSys source s = Return r \<Longrightarrow> isFailure source r"
  by (auto simp: stepUnitSys_def Let_def intro!: isFailure_error_at
           dest: findEncoding_None split: if_splits prod.splits option.splits)

lemma stepArgEnd_Return: "stepArgEnd source s = Return r \<Longrightarrow> isFailure source r"
  by (auto simp: stepArgEnd_def Let_def intro!: isFailure_error_at
           dest: findEncoding_None split: if_splits prod.splits option.splits)

lemma stepArg_Return: "stepArg source s = Return r \<Longrightarrow> isFailure source r"
  by (auto simp: stepArg_def Let_def intro!: isFailure_error_at
           dest: stepUnitDesc_Return stepUnitSys_Return stepArgEnd_Return split: if_splits)

lemma stepHexLit_Return: "stepHexLit source s = Return r \<Longrightarrow> isFailure source r"
  by (auto simp: stepHexLit_def Let_def intro!: isFailure_error_at split: if_splits)

lemma stepNumLit_Return: "stepNumLit source s = Return r \<Longrightarrow> isFailure source r"
  by (auto simp: stepNumLit_def Let_def intro!: isFailure_error_at split: if_splits)

lemma closeArgList_Return: "closeArgList source s = Return r \<Longrightarrow> isFailure source r"
  by (auto simp: closeArgList_def Let_def intro!: isFailure_error_at split: if_splits)

lemma stepArgList_Return: "stepArgList source s = Return r \<Longrightarrow> isFailure source r"
  by (auto simp: stepArgList_def Let_def intro!: isFailure_error_at
           dest: closeArgList_Return split: if_splits)

lemma body_Return: "body source sfind s = Return r \<Longrightarrow> isFailure source r"
  unfolding body_def
  by (auto simp: stepComment_Return
           dest: stepStart_Return stepParam_Return stepItem_Return stepArg_Return
                 stepHexLit_Return stepNumLit_Return stepArgList_Return
           split: if_splits)

lemma loop_Inl_failure: "loop source sfind s = Inl r \<Longrightarrow> isFailure source r"
  by (drule loop_Inl_state) (auto dest: body_Return)

lemma endLevels_Inl: "endLevels source s e = Inl r \<Longrightarrow> isFailure source r"
  by (auto simp: endLevels_def intro!: isFailure_error_at split: if_splits)

lemma endItem_Inl: "endItem source s = Inl r \<Longrightarrow> isFailure source r"
  by (auto simp: endItem_def Let_def intro!: isFailure_error_at
           dest: findEncoding_None endLevels_Inl split: if_splits prod.splits option.splits sum.splits)

lemma finish_cases:
  "isFailure source (finish source s) \<or> fst (finish source s) = (True, Info_default)"
  by (auto simp: finish_def intro!: isFailure_error_at dest: endItem_Inl split: sum.splits)

lemma compile_cases:
  "isFailure source (compile source sfind) \<or> fst (compile source sfind) = (True, Info_default)"
  unfolding compile_def using finish_cases
  by (auto dest: loop_Inl_failure split: sum.splits)

lemma at_False: "fst (at source pos msg) = False"
  by (simp add: at_def)

lemma at_message: "message (snd (at source pos msg)) = msg"
  by (simp add: at_def at_loop_message)

text \<open>
  C9. \<^verbatim>\<open>compile\<close> returns \<^verbatim>\<open>true\<close> if and only if the message of the resulting diagnostic is
  \<^verbatim>\<open>E_NO_ERROR\<close>. On success the diagnostic is the default record (all positions 0, message
  \<^verbatim>\<open>E_NO_ERROR\<close>); on failure the returned value and the diagnostic are those of one call
  \<^verbatim>\<open>errorMsg.at(pos, msg)\<close> with a message other than \<^verbatim>\<open>E_NO_ERROR\<close>, the call whose result
  the failing \<^verbatim>\<open>return\<close> statement passes on.
\<close>

theorem C9_true_iff_no_error:
  "(fst (fst (compile source sfind)) \<longleftrightarrow> message (snd (fst (compile source sfind))) = E_NO_ERROR)
   \<and> (fst (fst (compile source sfind)) \<longrightarrow> snd (fst (compile source sfind)) = Info_default)
   \<and> (\<not> fst (fst (compile source sfind)) \<longrightarrow>
        (\<exists>pos msg. msg \<noteq> E_NO_ERROR \<and> fst (compile source sfind) = at source pos msg))"
proof -
  consider (fail) "isFailure source (compile source sfind)"
    | (ok) "fst (compile source sfind) = (True, Info_default)"
    using compile_cases by blast
  then show ?thesis
  proof cases
    case fail
    then obtain pos msg where m: "msg \<noteq> E_NO_ERROR" and r: "fst (compile source sfind) = at source pos msg"
      unfolding isFailure_def by blast
    have "\<not> fst (fst (compile source sfind))" by (simp add: r at_False)
    moreover have "message (snd (fst (compile source sfind))) \<noteq> E_NO_ERROR"
      using m by (simp add: r at_message)
    ultimately show ?thesis using m r by blast
  next
    case ok
    then show ?thesis by (simp add: Info_default_def)
  qed
qed

theorem C9_true_iff_no_error_witness:
  "fst (fst (compile ''Push'' (Source_find [])))
   \<and> snd (fst (compile ''Push'' (Source_find []))) = Info_default
   \<and> \<not> fst (fst (compile ''Push(10)'' (Source_find [])))
   \<and> (\<exists>pos msg. msg \<noteq> E_NO_ERROR \<and> fst (compile ''Push(10)'' (Source_find [])) = at ''Push(10)'' pos msg)"
proof -
  have a: "fst (fst (compile ''Push'' (Source_find [])))" by code_simp
  have b: "\<not> fst (fst (compile ''Push(10)'' (Source_find [])))" by code_simp
  from a C9_true_iff_no_error [of "''Push''" "Source_find []"]
  have "snd (fst (compile ''Push'' (Source_find []))) = Info_default" by blast
  moreover from b C9_true_iff_no_error [of "''Push(10)''" "Source_find []"]
  have "\<exists>pos msg. msg \<noteq> E_NO_ERROR \<and> fst (compile ''Push(10)'' (Source_find [])) = at ''Push(10)'' pos msg"
    by blast
  ultimately show ?thesis using a b by blast
qed

section \<open>Collection depth and delimiter depth\<close>

lemma stepsTo_simps:
  "stepsTo (Return r) s' = False"
  "stepsTo (Continue s) s' = (s = s')"
  "stepsTo (Advance s) s' = (s = s')"
  by (auto simp: stepsTo_def)



































section \<open>C3: ReportSize and ReportCount at an EndCollection\<close>

lemma not_isItemChar:
  "isWhitespace (ord c) \<or> c = CHR ''('' \<Longrightarrow> \<not> isItemChar (ord c)"
  by (auto simp: isWhitespace_def isItemChar_def isAlpha_def ord_def)

lemma error_at_cong: "out s = out t \<Longrightarrow> error_at source s pos msg = error_at source t pos msg"
  by (simp add: error_at_def)

lemma stepItem_EndCollection:
  assumes "atEndCollection source t" and "0 < colLevel t"
  shows "reportSizes t < reportCounts t \<Longrightarrow>
           body source sfind t = Return (error_at source t (itemEnd source t) E_Missing_ReportSize)"
    and "reportCounts t < reportSizes t \<Longrightarrow>
           body source sfind t = Return (error_at source t (itemEnd source t) E_Missing_ReportCount)"
    and "reportSizes t = reportCounts t \<Longrightarrow>
           \<exists>t'. stepsTo (body source sfind t) t' \<and> colLevel t' = colLevel t - 1"
proof -
  from assms(1) obtain e sub where
    f: "findEncoding (text_of source (tItem t)) (entries itemMap) E_Invalid_item_name = (Some e, sub)"
    and e: "enc_arg e = endCol"
    by (cases "findEncoding (text_of source (tItem t)) (entries itemMap) E_Invalid_item_name")
       (auto simp: atEndCollection_def)
  from assms(1) have c: "isWhitespace (ord (cur source t)) \<or> cur source t = CHR ''(''"
    by (simp add: atEndCollection_def)
  then have ni: "\<not> isItemChar (ord (cur source t))" by (rule not_isItemChar)
  from assms(1) have b: "body source sfind t = stepItem source t"
    by (simp add: atEndCollection_def body_def)
  have u: "\<And>s1. enc_arg e = endCol \<Longrightarrow> 0 < colLevel s1 \<Longrightarrow>
      itemLevels source s1 e =
        (if reportSizes s1 < reportCounts s1 then Inl (error_at source s1 (n s1) E_Missing_ReportSize)
         else if reportCounts s1 < reportSizes s1 then Inl (error_at source s1 (n s1) E_Missing_ReportCount)
         else Inr (s1\<lparr>colLevel := colLevel s1 - 1, usageAtLevel := usageAtLevel s1 - 1\<rparr>))"
    by (simp add: itemLevels_def)
  {
    assume "reportSizes t < reportCounts t"
    then show "body source sfind t = Return (error_at source t (itemEnd source t) E_Missing_ReportSize)"
      using c ni f e assms(2) by (simp add: b stepItem_def Let_def u itemEnd_def error_at_def)
  }
  {
    assume "reportCounts t < reportSizes t"
    then show "body source sfind t = Return (error_at source t (itemEnd source t) E_Missing_ReportCount)"
      using c ni f e assms(2) by (simp add: b stepItem_def Let_def u itemEnd_def error_at_def)
  }
  {
    assume "reportSizes t = reportCounts t"
    then show "\<exists>t'. stepsTo (body source sfind t) t' \<and> colLevel t' = colLevel t - 1"
      using c ni f e assms(2) by (simp add: b stepItem_def Let_def u stepsTo_simps)
  }
qed




lemma endItem_EndCollection:
  assumes "pendingEndCollection source t" and "0 < colLevel t"
  shows "reportSizes t < reportCounts t \<Longrightarrow>
           endItem source (endLiteral t) = Inl (error_at source t (n t) E_Missing_ReportSize)"
    and "reportCounts t < reportSizes t \<Longrightarrow>
           endItem source (endLiteral t) = Inl (error_at source t (n t) E_Missing_ReportCount)"
    and "reportSizes t = reportCounts t \<Longrightarrow>
           \<exists>s. endItem source (endLiteral t) = Inr s \<and> colLevel s = colLevel t - 1"
proof -
  from assms(1) obtain e sub where
    f: "findEncoding (text_of source (tItem t)) (entries itemMap) E_Invalid_item_name = (Some e, sub)"
    and e: "enc_arg e = endCol"
    by (cases "findEncoding (text_of source (tItem t)) (entries itemMap) E_Invalid_item_name")
       (auto simp: pendingEndCollection_def)
  from assms(1) have i: "HID_WITHIN_ITEM \<in> flags t" by (simp add: pendingEndCollection_def)
  then have ne: "flags t - {HID_WITHIN_HEX_LIT, HID_WITHIN_NUM_LIT} \<noteq> HID_START"
    by (auto simp: HID_START_def)
  define t1 where "t1 = endLiteral t"
  have t1: "flags t1 = flags t \<or> flags t1 = flags t - {HID_WITHIN_HEX_LIT, HID_WITHIN_NUM_LIT}"
    "out t1 = out t" "n t1 = n t" "tItem t1 = tItem t" "colLevel t1 = colLevel t"
    "reportSizes t1 = reportSizes t" "reportCounts t1 = reportCounts t"
    using ne by (auto simp: t1_def endLiteral_def Let_def)
  from t1(1) i have i1: "HID_WITHIN_ITEM \<in> flags t1" by auto
  have u: "\<And>s1. 0 < colLevel s1 \<Longrightarrow>
      endLevels source s1 e =
        (if reportSizes s1 < reportCounts s1 then Inl (error_at source s1 (n s1) E_Missing_ReportSize)
         else if reportCounts s1 < reportSizes s1 then Inl (error_at source s1 (n s1) E_Missing_ReportCount)
         else Inr (s1\<lparr>colLevel := colLevel s1 - 1, usageAtLevel := usageAtLevel s1 - 1\<rparr>))"
    using e by (simp add: endLevels_def)
  {
    assume "reportSizes t < reportCounts t"
    then show "endItem source (endLiteral t) = Inl (error_at source t (n t) E_Missing_ReportSize)"
      unfolding t1_def [symmetric]
      using i1 f e assms(2) t1(2-) by (simp add: endItem_def Let_def u error_at_def)
  }
  {
    assume "reportCounts t < reportSizes t"
    then show "endItem source (endLiteral t) = Inl (error_at source t (n t) E_Missing_ReportCount)"
      unfolding t1_def [symmetric]
      using i1 f e assms(2) t1(2-) by (simp add: endItem_def Let_def u error_at_def)
  }
  {
    assume "reportSizes t = reportCounts t"
    then show "\<exists>s. endItem source (endLiteral t) = Inr s \<and> colLevel s = colLevel t - 1"
      unfolding t1_def [symmetric]
      using i1 f e assms(2) t1(2-) by (simp add: endItem_def Let_def u)
  }
qed

lemma sameCounts_refl: "sameCounts s s"
  by (simp add: sameCounts_def)

lemma stepStart_counts: "stepsTo (stepStart source s) s' \<Longrightarrow> sameCounts s s'"
  by (auto simp: stepStart_def Let_def stepsTo_simps sameCounts_def split: if_splits)

lemma stepComment_counts: "stepsTo (stepComment source s) s' \<Longrightarrow> sameCounts s s'"
  by (auto simp: stepComment_def Let_def stepsTo_simps sameCounts_def split: if_splits)

lemma stepParam_counts: "stepsTo (stepParam source sfind s) s' \<Longrightarrow> sameCounts s s'"
  by (auto simp: stepParam_def Let_def stepsTo_simps sameCounts_def split: if_splits)

lemma itemLevels_counts: "itemLevels source s e = Inr s' \<Longrightarrow> sameCounts s s'"
  by (auto simp: itemLevels_def sameCounts_def split: if_splits)

lemma stepItem_counts: "stepsTo (stepItem source s) s' \<Longrightarrow> sameCounts s s'"
  by (auto simp: stepItem_def Let_def stepsTo_simps
           dest!: itemLevels_counts split: if_splits prod.splits option.splits sum.splits)
     (auto simp: sameCounts_def)

lemma stepUnit_counts: "stepsTo (stepUnit source s) s' \<Longrightarrow> sameCounts s s'"
  by (auto simp: stepUnit_def Let_def stepsTo_simps sameCounts_def split: if_splits prod.splits option.splits)

lemma stepUnitExp_counts: "stepsTo (stepUnitExp source s) s' \<Longrightarrow> sameCounts s s'"
  by (auto simp: stepUnitExp_def Let_def stepsTo_simps sameCounts_def split: if_splits prod.splits option.splits)

lemma stepUnitDesc_counts: "stepsTo (stepUnitDesc source s) s' \<Longrightarrow> sameCounts s s'"
  by (auto simp: stepUnitDesc_def Let_def stepsTo_simps
           dest: stepUnit_counts stepUnitExp_counts split: if_splits)
     (auto simp: sameCounts_def)

lemma stepUnitSys_counts: "stepsTo (stepUnitSys source s) s' \<Longrightarrow> sameCounts s s'"
  by (auto simp: stepUnitSys_def Let_def stepsTo_simps sameCounts_def split: if_splits prod.splits option.splits)

lemma stepArgEnd_counts: "stepsTo (stepArgEnd source s) s' \<Longrightarrow> sameCounts s s'"
  by (auto simp: stepArgEnd_def Let_def stepsTo_simps sameCounts_def split: if_splits prod.splits option.splits)

lemma stepArg_counts: "stepsTo (stepArg source s) s' \<Longrightarrow> sameCounts s s'"
  by (auto simp: stepArg_def Let_def stepsTo_simps
           dest: stepUnitDesc_counts stepUnitSys_counts stepArgEnd_counts split: if_splits)
     (auto simp: sameCounts_def)

lemma stepHexLit_counts: "stepsTo (stepHexLit source s) s' \<Longrightarrow> sameCounts s s'"
  by (auto simp: stepHexLit_def Let_def stepsTo_simps sameCounts_def split: if_splits)

lemma stepNumLit_counts: "stepsTo (stepNumLit source s) s' \<Longrightarrow> sameCounts s s'"
  by (auto simp: stepNumLit_def Let_def stepsTo_simps sameCounts_def split: if_splits)

lemma closeArgList_counts:
  assumes "stepsTo (closeArgList source s) s'"
  shows "reportSizes s' = reportSizes s +
           (if enc_arg (deref (encMap s)) \<noteq> signedNumArg \<and> enc_arg (deref (encMap s)) \<noteq> unitExpMap
               \<and> enc_arg (deref (encMap s)) \<noteq> delimMap \<and> enc_arg (deref (encMap s)) \<noteq> usagePageMap
               \<and> enc_arg (deref (encMap s)) \<noteq> usageArg \<and> enc_value (deref (encMap s)) = 0x74
            then 1 else 0)"
    and "reportCounts s' = reportCounts s +
           (if enc_arg (deref (encMap s)) \<noteq> signedNumArg \<and> enc_arg (deref (encMap s)) \<noteq> unitExpMap
               \<and> enc_arg (deref (encMap s)) \<noteq> delimMap \<and> enc_arg (deref (encMap s)) \<noteq> usagePageMap
               \<and> enc_arg (deref (encMap s)) \<noteq> usageArg \<and> enc_value (deref (encMap s)) = 0x94
            then 1 else 0)"
  using assms by (auto simp: closeArgList_def Let_def stepsTo_simps split: if_splits)



lemma stepArgList_counts:
  assumes "stepsTo (stepArgList source s) s'"
  shows "reportSizes s' = reportSizes s +
           (if hasArg s \<and> cur source s = CHR '')'' \<and> generalArg s 0x74 then 1 else 0)"
    and "reportCounts s' = reportCounts s +
           (if hasArg s \<and> cur source s = CHR '')'' \<and> generalArg s 0x94 then 1 else 0)"
proof -
  show "reportSizes s' = reportSizes s +
           (if hasArg s \<and> cur source s = CHR '')'' \<and> generalArg s 0x74 then 1 else 0)"
  proof (cases "hasArg s \<and> cur source s = CHR '')''")
    case True
    with assms have "stepsTo (closeArgList source s) s'" by (simp add: stepArgList_def Let_def)
    then show ?thesis using True by (simp add: closeArgList_counts(1) generalArg_def)
  next
    case False
    with assms show ?thesis
      by (auto simp: stepArgList_def Let_def stepsTo_simps split: if_splits)
  qed
  show "reportCounts s' = reportCounts s +
           (if hasArg s \<and> cur source s = CHR '')'' \<and> generalArg s 0x94 then 1 else 0)"
  proof (cases "hasArg s \<and> cur source s = CHR '')''")
    case True
    with assms have "stepsTo (closeArgList source s) s'" by (simp add: stepArgList_def Let_def)
    then show ?thesis using True by (simp add: closeArgList_counts(2) generalArg_def)
  next
    case False
    with assms show ?thesis
      by (auto simp: stepArgList_def Let_def stepsTo_simps split: if_splits)
  qed
qed

lemma body_counts:
  assumes "stepsTo (body source sfind s) s'" and "running source s"
  shows "reportSizes s' = reportSizes s + (if closesWith source 0x74 s then 1 else 0)
       \<and> reportCounts s' = reportCounts s + (if closesWith source 0x94 s then 1 else 0)"
proof (cases rule: dispatch_cases [of s])
  case start
  then have "\<And>v. \<not> closesWith source v s" by (simp add: closesWith_def)
  moreover from assms(1) have "stepsTo (stepStart source s) s'" by (simp only: body_start [OF start])
  then have "sameCounts s s'" by (rule stepStart_counts)
  ultimately show ?thesis by (simp add: sameCounts_def)
next
  case comment
  then have "\<And>v. \<not> closesWith source v s" by (simp add: closesWith_def)
  moreover from assms(1) have "stepsTo (stepComment source s) s'" by (simp only: body_comment [OF comment])
  then have "sameCounts s s'" by (rule stepComment_counts)
  ultimately show ?thesis by (simp add: sameCounts_def)
next
  case param
  then have "\<And>v. \<not> closesWith source v s" by (simp add: closesWith_def)
  moreover from assms(1) have "stepsTo (stepParam source sfind s) s'" by (simp only: body_param [OF param])
  then have "sameCounts s s'" by (rule stepParam_counts)
  ultimately show ?thesis by (simp add: sameCounts_def)
next
  case item
  then have "\<And>v. \<not> closesWith source v s" by (simp add: closesWith_def)
  moreover from assms(1) have "stepsTo (stepItem source s) s'" by (simp only: body_item [OF item])
  then have "sameCounts s s'" by (rule stepItem_counts)
  ultimately show ?thesis by (simp add: sameCounts_def)
next
  case arg
  then have "\<And>v. \<not> closesWith source v s" by (simp add: closesWith_def)
  moreover from assms(1) have "stepsTo (stepArg source s) s'" by (simp only: body_arg [OF arg])
  then have "sameCounts s s'" by (rule stepArg_counts)
  ultimately show ?thesis by (simp add: sameCounts_def)
next
  case hex
  then have "\<And>v. \<not> closesWith source v s" by (simp add: closesWith_def)
  moreover from assms(1) have "stepsTo (stepHexLit source s) s'" by (simp only: body_hex [OF hex])
  then have "sameCounts s s'" by (rule stepHexLit_counts)
  ultimately show ?thesis by (simp add: sameCounts_def)
next
  case num
  then have "\<And>v. \<not> closesWith source v s" by (simp add: closesWith_def)
  moreover from assms(1) have "stepsTo (stepNumLit source s) s'" by (simp only: body_num [OF num])
  then have "sameCounts s s'" by (rule stepNumLit_counts)
  ultimately show ?thesis by (simp add: sameCounts_def)
next
  case list
  then have c: "\<And>v. closesWith source v s = (hasArg s \<and> cur source s = CHR '')'' \<and> generalArg s v)"
    using assms(2) by (simp add: closesWith_def generalArg_def)
  from assms(1) have "stepsTo (stepArgList source s) s'" by (simp only: body_list [OF list])
  then have "reportSizes s' = reportSizes s +
         (if hasArg s \<and> cur source s = CHR '')'' \<and> generalArg s 0x74 then 1 else 0)"
    and "reportCounts s' = reportCounts s +
         (if hasArg s \<and> cur source s = CHR '')'' \<and> generalArg s 0x94 then 1 else 0)"
    by (rule stepArgList_counts)+
  then show ?thesis by (simp add: c)
next
  case none
  then have "\<And>v. \<not> closesWith source v s" by (simp add: closesWith_def)
  moreover from assms(1) have "s' = s" by (simp add: body_none [OF none] stepsTo_simps)
  ultimately show ?thesis by simp
qed

lemma closesWith_n: "\<not> running source s \<Longrightarrow> \<not> closesWith source v s"
  by (simp add: closesWith_def)

lemma states_counts:
  "k < length (states source sfind s) \<Longrightarrow>
   reportSizes (states source sfind s ! k)
     = reportSizes s + length (filter (closesWith source 0x74) (take k (states source sfind s)))
   \<and> reportCounts (states source sfind s ! k)
     = reportCounts s + length (filter (closesWith source 0x94) (take k (states source sfind s)))"
proof (induction source sfind s arbitrary: k rule: states.induct)
  case (1 source sfind s)
  show ?case
  proof (cases k)
    case 0
    have "states source sfind s ! 0 = s" by (subst states_unfold) simp
    with 0 show ?thesis by simp
  next
    case (Suc j)
    show ?thesis
    proof (cases "running source s")
      case False
      then have "states source sfind s = [s]" by (subst states_unfold) simp
      with "1.prems" Suc show ?thesis by simp
    next
      case True
      then have c: "n s < length source \<and> source ! n s \<noteq> NUL" by (simp add: running_def)
      show ?thesis
      proof (cases "body source sfind s")
        case (Return r)
        with True have "states source sfind s = [s]" by (subst states_unfold) simp
        with "1.prems" Suc show ?thesis by simp
      next
        case (Continue s')
        with True have u: "states source sfind s = s # states source sfind s'"
          by (subst states_unfold) simp
        with "1.prems" Suc have j: "j < length (states source sfind s')" by simp
        have b: "reportSizes s' = reportSizes s + (if closesWith source 0x74 s then 1 else 0)
               \<and> reportCounts s' = reportCounts s + (if closesWith source 0x94 s then 1 else 0)"
          using body_counts [of source sfind s s'] Continue True by (simp add: stepsTo_def)
        from "1.IH"(1) [OF c Continue j] b show ?thesis by (simp add: u Suc)
      next
        case (Advance s')
        with True have u: "states source sfind s = s # states source sfind (s'\<lparr>n := n s' + 1\<rparr>)"
          by (subst states_unfold) simp
        with "1.prems" Suc have j: "j < length (states source sfind (s'\<lparr>n := n s' + 1\<rparr>))" by simp
        have b: "reportSizes s' = reportSizes s + (if closesWith source 0x74 s then 1 else 0)
               \<and> reportCounts s' = reportCounts s + (if closesWith source 0x94 s then 1 else 0)"
          using body_counts [of source sfind s s'] Advance True by (simp add: stepsTo_def)
        from "1.IH"(2) [OF c Advance j] b show ?thesis by (simp add: u Suc)
      qed
    qed
  qed
qed


text \<open>
  C3, as stated, fails: the counters \<^verbatim>\<open>reportSizes\<close> and \<^verbatim>\<open>reportCounts\<close> count from the start
  of the source and are not reset at a Collection. In
  \<^verbatim>\<open>ReportSize(1) Usage(1) Collection(Application) ReportCount(1) EndCollection\<close> the
  collection holds one ReportCount item and no ReportSize item, and the EndCollection is
  accepted.
\<close>

theorem C3_counterexample:
  "compile ''ReportSize(1) Usage(1) Collection(Application) ReportCount(1) EndCollection'' (Source_find [])
     = ((True, \<lparr>character = 0, line = 0, column = 0, message = E_NO_ERROR\<rparr>),
        [0x75, 0x01, 0x09, 0x01, 0xA1, 0x01, 0x95, 0x01, 0xC0])"
  by code_simp

text \<open>
  C3, amended. At every point of a run, \<^verbatim>\<open>reportSizes\<close> is the number of argument lists
  closed so far, since the start of the source, for an item with the prefix 0x74
  (ReportSize), and \<^verbatim>\<open>reportCounts\<close> the same for the prefix 0x94 (ReportCount); an item
  without an argument list is not counted. Whenever an EndCollection is handled at a
  positive collection depth, in the loop or as the pending item at the end of the source:
  if the two numbers differ, \<^verbatim>\<open>compile\<close> returns the error \<^verbatim>\<open>E_Missing_ReportSize\<close> (fewer
  ReportSize) or \<^verbatim>\<open>E_Missing_ReportCount\<close> (fewer ReportCount), at the position reached after
  the item name; if they are equal, the EndCollection is accepted and the depth decreases
  by one.
\<close>

theorem C3_report_counts_at_EndCollection:
  "(\<forall>k < length (states source sfind init).
       reportSizes (states source sfind init ! k)
         = length (filter (closesWith source 0x74) (take k (states source sfind init)))
     \<and> reportCounts (states source sfind init ! k)
         = length (filter (closesWith source 0x94) (take k (states source sfind init))))
   \<and> (\<forall>t \<in> set (states source sfind init). atEndCollection source t \<and> 0 < colLevel t \<longrightarrow>
        (reportSizes t < reportCounts t \<longrightarrow>
           compile source sfind = error_at source t (itemEnd source t) E_Missing_ReportSize)
      \<and> (reportCounts t < reportSizes t \<longrightarrow>
           compile source sfind = error_at source t (itemEnd source t) E_Missing_ReportCount)
      \<and> (reportSizes t = reportCounts t \<longrightarrow>
           (\<exists>t'. stepsTo (body source sfind t) t' \<and> colLevel t' = colLevel t - 1)))
   \<and> (\<forall>t. loop source sfind init = Inr t \<and> pendingEndCollection source t \<and> 0 < colLevel t \<longrightarrow>
        (reportSizes t < reportCounts t \<longrightarrow>
           compile source sfind = error_at source t (n t) E_Missing_ReportSize)
      \<and> (reportCounts t < reportSizes t \<longrightarrow>
           compile source sfind = error_at source t (n t) E_Missing_ReportCount)
      \<and> (reportSizes t = reportCounts t \<longrightarrow>
           (\<exists>s. endOfSource source sfind = Some s \<and> colLevel s = colLevel t - 1)))"
proof (intro conjI allI ballI impI)
  fix k assume "k < length (states source sfind init)"
  then have "reportSizes (states source sfind init ! k)
       = reportSizes init + length (filter (closesWith source 0x74) (take k (states source sfind init)))
     \<and> reportCounts (states source sfind init ! k)
       = reportCounts init + length (filter (closesWith source 0x94) (take k (states source sfind init)))"
    by (rule states_counts)
  then show "reportSizes (states source sfind init ! k)
         = length (filter (closesWith source 0x74) (take k (states source sfind init)))"
    and "reportCounts (states source sfind init ! k)
         = length (filter (closesWith source 0x94) (take k (states source sfind init)))"
    by (simp_all add: init_def)
next
  fix t assume t: "t \<in> set (states source sfind init)" and a: "atEndCollection source t \<and> 0 < colLevel t"
  from a have r: "running source t" by (simp add: atEndCollection_def)
  {
    assume "reportSizes t < reportCounts t"
    with a have "body source sfind t = Return (error_at source t (itemEnd source t) E_Missing_ReportSize)"
      by (simp add: stepItem_EndCollection(1))
    with t r have "loop source sfind init = Inl (error_at source t (itemEnd source t) E_Missing_ReportSize)"
      by (rule loop_Return_state)
    then show "compile source sfind = error_at source t (itemEnd source t) E_Missing_ReportSize"
      by (simp add: compile_def)
  }
  {
    assume "reportCounts t < reportSizes t"
    with a have "body source sfind t = Return (error_at source t (itemEnd source t) E_Missing_ReportCount)"
      by (simp add: stepItem_EndCollection(2))
    with t r have "loop source sfind init = Inl (error_at source t (itemEnd source t) E_Missing_ReportCount)"
      by (rule loop_Return_state)
    then show "compile source sfind = error_at source t (itemEnd source t) E_Missing_ReportCount"
      by (simp add: compile_def)
  }
  {
    assume "reportSizes t = reportCounts t"
    with a show "\<exists>t'. stepsTo (body source sfind t) t' \<and> colLevel t' = colLevel t - 1"
      by (simp add: stepItem_EndCollection(3))
  }
next
  fix t assume a: "loop source sfind init = Inr t \<and> pendingEndCollection source t \<and> 0 < colLevel t"
  then have l: "loop source sfind init = Inr t" by simp
  {
    assume "reportSizes t < reportCounts t"
    with a have "endItem source (endLiteral t) = Inl (error_at source t (n t) E_Missing_ReportSize)"
      by (simp add: endItem_EndCollection(1))
    then show "compile source sfind = error_at source t (n t) E_Missing_ReportSize"
      by (simp add: compile_def finish_def l)
  }
  {
    assume "reportCounts t < reportSizes t"
    with a have "endItem source (endLiteral t) = Inl (error_at source t (n t) E_Missing_ReportCount)"
      by (simp add: endItem_EndCollection(2))
    then show "compile source sfind = error_at source t (n t) E_Missing_ReportCount"
      by (simp add: compile_def finish_def l)
  }
  {
    assume "reportSizes t = reportCounts t"
    with a have "\<exists>s. endItem source (endLiteral t) = Inr s \<and> colLevel s = colLevel t - 1"
      by (simp add: endItem_EndCollection(3))
    then show "\<exists>s. endOfSource source sfind = Some s \<and> colLevel s = colLevel t - 1"
      by (auto simp: endOfSource_def l)
  }
qed

theorem C3_report_counts_at_EndCollection_witness:
  "message (snd (fst (compile ''Usage(1) Collection(1) ReportSize(1) EndCollection '' (Source_find []))))
     = E_Missing_ReportCount
   \<and> length (filter (closesWith ''Usage(1) Collection(1) ReportSize(1) EndCollection '' 0x74)
         (take 56 (states ''Usage(1) Collection(1) ReportSize(1) EndCollection '' (Source_find []) init)))
     = 1
   \<and> message (snd (fst (compile ''Usage(1) Collection(1) ReportCount(1) EndCollection'' (Source_find []))))
     = E_Missing_ReportSize"
proof -
  let ?W = "''Usage(1) Collection(1) ReportSize(1) EndCollection ''"
  let ?V = "''Usage(1) Collection(1) ReportCount(1) EndCollection''"
  let ?f = "Source_find []"
  let ?t = "states ?W ?f init ! 56"
  note T = C3_report_counts_at_EndCollection
  have k: "56 < length (states ?W ?f init)" by code_simp
  then have m: "?t \<in> set (states ?W ?f init)" by (rule nth_mem)
  have a: "atEndCollection ?W ?t \<and> 0 < colLevel ?t \<and> reportCounts ?t < reportSizes ?t \<and> reportSizes ?t = 1"
    by code_simp
  with m T [of ?W ?f] have "compile ?W ?f = error_at ?W ?t (itemEnd ?W ?t) E_Missing_ReportCount"
    by blast
  then have 1: "message (snd (fst (compile ?W ?f))) = E_Missing_ReportCount"
    by (simp add: error_at_def at_message)
  from k T [of ?W ?f]
  have "reportSizes ?t = length (filter (closesWith ?W 0x74) (take 56 (states ?W ?f init)))"
    by blast
  with a have 2: "length (filter (closesWith ?W 0x74) (take 56 (states ?W ?f init))) = 1" by simp
  have "case loop ?V ?f init of Inl r \<Rightarrow> False
        | Inr t \<Rightarrow> pendingEndCollection ?V t \<and> 0 < colLevel t \<and> reportSizes t < reportCounts t"
    by code_simp
  then obtain t where t: "loop ?V ?f init = Inr t" "pendingEndCollection ?V t" "0 < colLevel t"
      "reportSizes t < reportCounts t"
    by (auto split: sum.splits)
  with T [of ?V ?f] have "compile ?V ?f = error_at ?V t (n t) E_Missing_ReportSize" by blast
  then have 3: "message (snd (fst (compile ?V ?f))) = E_Missing_ReportSize"
    by (simp add: error_at_def at_message)
  from 1 2 3 show ?thesis by (intro conjI)
qed
end
